theory Spec2Isabelle
  imports Complex_Main "HOL-Library.Log_Nat" "HOL-Library.Char_ord" "HOL-Library.List_Lexorder"
begin

section \<open>Python numbers\<close>

text \<open>
  The application computes with Python \<open>int\<close> (unbounded, modelled as \<^typ>\<open>int\<close>) and
  Python \<open>float\<close> (IEEE-754 binary64).  A float is a finite value, kept as the rational
  number it denotes, an infinity or NaN.  Every arithmetic operation on finite floats
  takes the exact rational result and rounds it to the nearest binary64 value, ties to
  even (\<open>rnd\<close>); a result beyond the largest finite value becomes an infinity.  The sign
  of a zero is not represented.
\<close>

datatype pyfloat = Fin rat | PInf | NInf | NaN

datatype py_error =
  ValueError | TypeError | OverflowError | ZeroDivisionError | KeyError | IntegrityError

text \<open>Round half to even: the rounding of Python's \<open>round\<close> and of float arithmetic.\<close>

definition round_half_even :: "rat \<Rightarrow> int" where
  "round_half_even x =
     (let f = \<lfloor>x\<rfloor>; d = x - of_int f
      in if d < 1 / 2 then f else if 1 / 2 < d then f + 1 else if even f then f else f + 1)"

text \<open>The binary exponent of a non-zero rational: \<open>2 powi ilog2 x \<le> \<bar>x\<bar> < 2 powi (ilog2 x + 1)\<close>.\<close>

definition ilog2 :: "rat \<Rightarrow> int" where
  "ilog2 x =
     (if 1 \<le> \<bar>x\<bar> then bitlen \<lfloor>\<bar>x\<bar>\<rfloor> - 1 else - bitlen (\<lceil>1 / \<bar>x\<bar>\<rceil> - 1))"

text \<open>
  Rounding to binary64: 53 significant bits, least exponent \<open>-1074\<close> (subnormal numbers
  included), overflow to an infinity when the rounded value reaches \<open>2 ^ 1024\<close>.
\<close>

definition rexp :: "rat \<Rightarrow> int" where
  "rexp x = max (ilog2 x - 52) (- 1074)"

definition rnd :: "rat \<Rightarrow> pyfloat" where
  "rnd x =
     (if x = 0 then Fin 0
      else let r = of_int (round_half_even (x / 2 powi rexp x)) * 2 powi rexp x
           in if 2 powi 1024 \<le> \<bar>r\<bar> then (if 0 < x then PInf else NInf) else Fin r)"

definition fsign :: "pyfloat \<Rightarrow> int" where
  "fsign x = (case x of Fin a \<Rightarrow> (if 0 < a then 1 else if a < 0 then - 1 else 0)
                      | PInf \<Rightarrow> 1 | NInf \<Rightarrow> - 1 | NaN \<Rightarrow> 0)"

definition signed_inf :: "int \<Rightarrow> pyfloat" where
  "signed_inf s = (if 0 < s then PInf else if s < 0 then NInf else NaN)"

text \<open>\<open>x * y\<close> on floats; an infinity times zero is NaN.\<close>

definition fmul :: "pyfloat \<Rightarrow> pyfloat \<Rightarrow> pyfloat" where
  "fmul x y =
     (case (x, y) of
        (Fin a, Fin b) \<Rightarrow> rnd (a * b)
      | _ \<Rightarrow> if x = NaN \<or> y = NaN then NaN else signed_inf (fsign x * fsign y))"

text \<open>\<open>x + y\<close> on floats; infinities of opposite sign add to NaN.\<close>

fun fadd :: "pyfloat \<Rightarrow> pyfloat \<Rightarrow> pyfloat" where
  "fadd (Fin a) (Fin b) = rnd (a + b)"
| "fadd NaN _ = NaN"
| "fadd _ NaN = NaN"
| "fadd PInf NInf = NaN"
| "fadd NInf PInf = NaN"
| "fadd PInf _ = PInf"
| "fadd _ PInf = PInf"
| "fadd NInf _ = NInf"
| "fadd _ NInf = NInf"

definition fneg :: "pyfloat \<Rightarrow> pyfloat" where
  "fneg x = (case x of Fin a \<Rightarrow> Fin (- a) | PInf \<Rightarrow> NInf | NInf \<Rightarrow> PInf | NaN \<Rightarrow> NaN)"

definition fsub :: "pyfloat \<Rightarrow> pyfloat \<Rightarrow> pyfloat" where
  "fsub x y = fadd x (fneg y)"

text \<open>\<open>x / y\<close> on floats: Python raises ZeroDivisionError for a zero divisor.\<close>

definition fdiv :: "pyfloat \<Rightarrow> pyfloat \<Rightarrow> py_error + pyfloat" where
  "fdiv x y =
     (if y = Fin 0 then Inl ZeroDivisionError
      else Inr (case (x, y) of
                  (Fin a, Fin b) \<Rightarrow> rnd (a / b)
                | (Fin a, NaN) \<Rightarrow> NaN
                | (Fin a, _) \<Rightarrow> Fin 0
                | (NaN, _) \<Rightarrow> NaN
                | (_, Fin b) \<Rightarrow> signed_inf (fsign x * fsign y)
                | _ \<Rightarrow> NaN))"

text \<open>\<open>x <= y\<close> on floats: every comparison with NaN is false.\<close>

fun fle :: "pyfloat \<Rightarrow> pyfloat \<Rightarrow> bool" where
  "fle (Fin a) (Fin b) = (a \<le> b)"
| "fle NaN _ = False"
| "fle _ NaN = False"
| "fle NInf _ = True"
| "fle _ PInf = True"
| "fle _ _ = False"

text \<open>
  \<open>round(x)\<close> of a float: the nearest integer, ties to even; OverflowError for an
  infinity, ValueError for NaN.
\<close>

definition py_round :: "pyfloat \<Rightarrow> py_error + int" where
  "py_round x = (case x of Fin a \<Rightarrow> Inr (round_half_even a)
                         | NaN \<Rightarrow> Inl ValueError
                         | _ \<Rightarrow> Inl OverflowError)"

text \<open>
  The conversion of an \<open>int\<close> operand to float (in \<open>float(n)\<close> and in mixed arithmetic):
  correctly rounded, OverflowError when the integer is too large for a float.
\<close>

definition float_of_int :: "int \<Rightarrow> py_error + pyfloat" where
  "float_of_int n = (case rnd (of_int n) of Fin r \<Rightarrow> Inr (Fin r) | _ \<Rightarrow> Inl OverflowError)"

text \<open>Sequencing of computations that may raise.\<close>

definition bind :: "py_error + 'a \<Rightarrow> ('a \<Rightarrow> py_error + 'b) \<Rightarrow> py_error + 'b" where
  "bind m f = (case m of Inl e \<Rightarrow> Inl e | Inr v \<Rightarrow> f v)"

section \<open>Python strings\<close>

text \<open>
  Strings are ASCII.  \<open>is_space\<close> is \<open>str.isspace\<close> on ASCII characters, the set that
  \<open>str.strip()\<close>, \<open>int(s)\<close> and \<open>float(s)\<close> remove at both ends.
\<close>

definition is_space :: "char \<Rightarrow> bool" where
  "is_space c = (let n = (of_char c :: nat) in (9 \<le> n \<and> n \<le> 13) \<or> (28 \<le> n \<and> n \<le> 32))"

definition is_digit :: "char \<Rightarrow> bool" where
  "is_digit c = (let n = (of_char c :: nat) in 48 \<le> n \<and> n \<le> 57)"

definition digit_val :: "char \<Rightarrow> nat" where
  "digit_val c = of_char c - 48"

definition lower :: "char \<Rightarrow> char" where
  "lower c = (let n = (of_char c :: nat) in if 65 \<le> n \<and> n \<le> 90 then char_of (n + 32) else c)"

definition strip :: "string \<Rightarrow> string" where
  "strip s = rev (dropWhile is_space (rev (dropWhile is_space s)))"

text \<open>\<open>s.replace(old, new)\<close> for a non-empty \<open>old\<close>.\<close>

function str_replace :: "string \<Rightarrow> string \<Rightarrow> string \<Rightarrow> string" where
  "str_replace old new [] = []"
| "str_replace old new (c # cs) =
     (if old \<noteq> [] \<and> take (length old) (c # cs) = old
      then new @ str_replace old new (drop (length old) (c # cs))
      else c # str_replace old new cs)"
  by pat_completeness auto
termination
  by (relation "measure (\<lambda>(old, new, s). length s)") auto

text \<open>
  A run of decimal digits in which single underscores may separate digits (the digit
  part of Python's numeric literals, which \<open>int\<close> and \<open>float\<close> accept).
\<close>

fun digitpart_ok :: "string \<Rightarrow> bool" where
  "digitpart_ok [] = False"
| "digitpart_ok [c] = is_digit c"
| "digitpart_ok (c # d # cs) =
     (is_digit c \<and> (if d = CHR ''_'' then digitpart_ok cs else digitpart_ok (d # cs)))"

definition digits_of :: "string \<Rightarrow> string" where
  "digits_of s = filter (\<lambda>c. c \<noteq> CHR ''_'') s"

definition digits_val :: "string \<Rightarrow> nat" where
  "digits_val s = foldl (\<lambda>n c. 10 * n + digit_val c) 0 (digits_of s)"

text \<open>An optional sign: the factor it stands for and the rest of the string.\<close>

definition split_sign :: "string \<Rightarrow> int \<times> string" where
  "split_sign s =
     (case s of
        c # cs \<Rightarrow> if c = CHR ''-'' then (- 1, cs) else if c = CHR ''+'' then (1, cs) else (1, s)
      | [] \<Rightarrow> (1, s))"

text \<open>
  \<open>int(s)\<close> for a string, base 10: \<open>None\<close> stands for ValueError.  CPython also raises
  ValueError for a literal of more than 4300 digits, the default of
  \<open>sys.get_int_max_str_digits()\<close>, which the application does not change; \<open>float(s)\<close> has
  no such limit.
\<close>

definition py_int :: "string \<Rightarrow> int option" where
  "py_int s =
     (let (sg, ds) = split_sign (strip s)
      in if digitpart_ok ds \<and> length (digits_of ds) \<le> 4300
         then Some (sg * int (digits_val ds)) else None)"

text \<open>
  The decimal forms of \<open>float(s)\<close>: digits, an optional fraction after a point (one of
  the two sides of the point may be empty) and an optional exponent.  The result is the
  exact value of the literal as a rational.
\<close>

definition split_at :: "(char \<Rightarrow> bool) \<Rightarrow> string \<Rightarrow> string \<times> string option" where
  "split_at p s =
     (case dropWhile (\<lambda>c. \<not> p c) s of
        [] \<Rightarrow> (s, None)
      | _ # rest \<Rightarrow> (takeWhile (\<lambda>c. \<not> p c) s, Some rest))"

definition decimal_mantissa :: "string \<Rightarrow> rat option" where
  "decimal_mantissa s =
     (case split_at (\<lambda>c. c = CHR ''.'') s of
        (ip, None) \<Rightarrow> if digitpart_ok ip then Some (of_nat (digits_val ip)) else None
      | (ip, Some fp) \<Rightarrow>
          if (ip = [] \<or> digitpart_ok ip) \<and> (fp = [] \<or> digitpart_ok fp) \<and> \<not> (ip = [] \<and> fp = [])
          then Some (of_nat (digits_val ip)
                     + of_nat (digits_val fp) / 10 ^ length (digits_of fp))
          else None)"

definition decimal_exponent :: "string option \<Rightarrow> int option" where
  "decimal_exponent es =
     (case es of
        None \<Rightarrow> Some 0
      | Some e \<Rightarrow> (let (sg, ds) = split_sign e
                  in if digitpart_ok ds then Some (sg * int (digits_val ds)) else None))"

definition decimal_value :: "string \<Rightarrow> rat option" where
  "decimal_value s =
     (let (ms, es) = split_at (\<lambda>c. c = CHR ''e'' \<or> c = CHR ''E'') s
      in case (decimal_mantissa ms, decimal_exponent es) of
           (Some m, Some e) \<Rightarrow> Some (m * 10 powi e)
         | _ \<Rightarrow> None)"

text \<open>
  \<open>float(s)\<close> for a string: \<open>None\<close> stands for ValueError.  The literal is rounded
  correctly to the nearest float; \<open>inf\<close>, \<open>infinity\<close> and \<open>nan\<close> are accepted in any case.
\<close>

definition py_float :: "string \<Rightarrow> pyfloat option" where
  "py_float s =
     (let (sg, body) = split_sign (strip s); w = map lower body
      in if w = ''inf'' \<or> w = ''infinity'' then Some (if sg = 1 then PInf else NInf)
         else if w = ''nan'' then Some NaN
         else map_option (\<lambda>v. rnd (of_int sg * v)) (decimal_value body))"

text \<open>Decimal digits of a natural number and of an integer (\<open>str(n)\<close>, \<open>f"{n}"\<close>).\<close>

fun show_nat :: "nat \<Rightarrow> string" where
  "show_nat n =
     (if n < 10 then [char_of (48 + n)] else show_nat (n div 10) @ [char_of (48 + n mod 10)])"

definition show_int :: "int \<Rightarrow> string" where
  "show_int i = (if i < 0 then CHR ''-'' # show_nat (nat (- i)) else show_nat (nat i))"

text \<open>The format \<open>f"{x:.1f}"\<close> of a float: one digit after the point, ties to even.\<close>

definition format_1f :: "pyfloat \<Rightarrow> string" where
  "format_1f x =
     (case x of
        Fin a \<Rightarrow> (let n = nat (round_half_even (\<bar>a\<bar> * 10))
                  in (if a < 0 then ''-'' else []) @ show_nat (n div 10) @ ''.'' @ show_nat (n mod 10))
      | PInf \<Rightarrow> ''inf'' | NInf \<Rightarrow> ''-inf'' | NaN \<Rightarrow> ''nan'')"

section \<open>JSON values\<close>

text \<open>
  Request and response bodies are JSON.  Python's \<open>json\<close> module reads a number without
  fraction or exponent as \<open>int\<close> and any other number as \<open>float\<close>.
\<close>

datatype json =
  JNull | JBool bool | JInt int | JFloat pyfloat | JString string
  | JArray "json list" | JObject "(string \<times> json) list"

text \<open>Truth value of a Python object (\<open>if x\<close>, \<open>not x\<close>).\<close>

definition truthy :: "json option \<Rightarrow> bool" where
  "truthy v =
     (case v of
        None \<Rightarrow> False
      | Some JNull \<Rightarrow> False
      | Some (JBool b) \<Rightarrow> b
      | Some (JInt n) \<Rightarrow> n \<noteq> 0
      | Some (JFloat f) \<Rightarrow> f \<noteq> Fin 0
      | Some (JString s) \<Rightarrow> s \<noteq> []
      | Some (JArray xs) \<Rightarrow> xs \<noteq> []
      | Some (JObject kvs) \<Rightarrow> kvs \<noteq> [])"

text \<open>
  A value used as the other operand of float arithmetic: \<open>int\<close> and \<open>bool\<close> are
  converted, everything else is a TypeError.
\<close>

definition as_float_operand :: "json \<Rightarrow> py_error + pyfloat" where
  "as_float_operand v =
     (case v of
        JFloat f \<Rightarrow> Inr f
      | JInt n \<Rightarrow> float_of_int n
      | JBool b \<Rightarrow> Inr (Fin (if b then 1 else 0))
      | _ \<Rightarrow> Inl TypeError)"

text \<open>The builtin \<open>float(v)\<close>; \<open>None\<close> is Python's \<open>None\<close>.\<close>

definition py_float_of :: "json option \<Rightarrow> py_error + pyfloat" where
  "py_float_of v =
     (case v of
        Some (JString s) \<Rightarrow> (case py_float s of None \<Rightarrow> Inl ValueError | Some f \<Rightarrow> Inr f)
      | Some (JFloat f) \<Rightarrow> Inr f
      | Some (JInt n) \<Rightarrow> float_of_int n
      | Some (JBool b) \<Rightarrow> Inr (Fin (if b then 1 else 0))
      | _ \<Rightarrow> Inl TypeError)"

section \<open>Configuration\<close>

record preset =
  p_name :: string
  p_abv :: pyfloat
  p_volume_oz :: pyfloat

text \<open>
  \<open>DRINK_PRESETS\<close>.  The \<open>ipa\<close> entry is written with the \<open>int\<close> literals 7 and 12 in the
  source; \<open>add_drink\<close> always replaces both by floats read from the form before use.
\<close>

definition DRINK_PRESETS :: "(string \<times> preset) list" where
  "DRINK_PRESETS =
    [(''beer'', \<lparr>p_name = ''Standard Beer'', p_abv = Fin 5, p_volume_oz = Fin 12\<rparr>),
     (''ipa'', \<lparr>p_name = ''Imperial Pale Ale'', p_abv = Fin 7, p_volume_oz = Fin 12\<rparr>),
     (''wine'', \<lparr>p_name = ''Standard Wine'', p_abv = Fin 12, p_volume_oz = Fin 5\<rparr>),
     (''shot_spirit'', \<lparr>p_name = ''Shot (Spirit)'', p_abv = Fin 40, p_volume_oz = Fin (3 / 2)\<rparr>),
     (''mixed_drink'',
        \<lparr>p_name = ''Mixed Drink (Base Spirit)'', p_abv = Fin 40, p_volume_oz = Fin (3 / 2)\<rparr>),
     (''mixed_drink_diet'',
        \<lparr>p_name = ''Mixed Drink (Diet Base Spirit)'', p_abv = Fin 40, p_volume_oz = Fin (3 / 2)\<rparr>)]"

definition EXERCISE_METS :: "(string \<times> pyfloat) list" where
  "EXERCISE_METS =
    [(''walking'', Fin (7 / 2)),
     (''running'', Fin 8),
     (''biking'', Fin 6),
     (''swimming'', Fin 7),
     (''strength_training'', Fin (9 / 2))]"

section \<open>The store and the Flask session\<close>

text \<open>
  The four tables of \<open>init_db_script\<close>, each a list of rows in insertion order.  The
  \<open>metrics\<close> column holds the JSON object that \<open>set_user_metrics\<close> serialised
  (\<open>json.loads\<close> of \<open>json.dumps\<close> gives the object back), or NULL.  An INTEGER column
  holds a signed 64-bit integer: the \<open>sqlite3\<close> module raises OverflowError when a statement
  is given any other Python integer (\<open>sqlite_integer\<close>).  A request that ends without
  \<open>commit\<close> leaves the store as it was, since the connection is closed with the request.
\<close>

record user_row =
  u_email :: string
  u_password :: string
  u_metrics :: "(string \<times> json) list option"

record session_row =
  s_id :: string
  s_user_email :: string
  s_name :: string
  s_date :: string
  s_total_calories :: int

record drink_row =
  d_id :: string
  d_session_id :: string
  d_name :: string
  d_calories :: int
  d_abv :: pyfloat
  d_volume_oz :: pyfloat
  d_count :: int

record exercise_row =
  e_id :: string
  e_session_id :: string
  e_type :: string
  e_minutes :: pyfloat
  e_calories_burned :: int

record database =
  users :: "user_row list"
  sessions :: "session_row list"
  drinks :: "drink_row list"
  exercises :: "exercise_row list"

definition empty_db :: database where
  "empty_db = \<lparr>users = [], sessions = [], drinks = [], exercises = []\<rparr>"

text \<open>
  The Flask session of one client: the keys \<open>logged_in\<close>, \<open>user_email\<close> and
  \<open>current_session_id\<close> (an absent key and the value \<open>None\<close> read the same through
  \<open>session.get\<close>) and the attribute \<open>permanent\<close>.
\<close>

record flask_session =
  fs_logged_in :: bool
  fs_user_email :: "string option"
  fs_permanent :: bool
  fs_current_session_id :: "string option"

definition empty_session :: flask_session where
  "empty_session =
     \<lparr>fs_logged_in = False, fs_user_email = None, fs_permanent = False,
      fs_current_session_id = None\<rparr>"

text \<open>A response: the HTTP status and the JSON body.\<close>

type_synonym response = "nat \<times> json"

type_synonym outcome = "response \<times> flask_session \<times> database"

definition error_response :: "nat \<Rightarrow> string \<Rightarrow> response" where
  "error_response code msg = (code, JObject [(''error'', JString msg)])"

definition message_response :: "string \<Rightarrow> response" where
  "message_response msg = (200, JObject [(''message'', JString msg)])"

text \<open>
  An exception that no \<open>except\<close> clause of the handler catches: Flask answers 500 and
  nothing is committed.
\<close>

definition unhandled :: "py_error \<Rightarrow> response" where
  "unhandled e = (500, JString ''Internal Server Error'')"

section \<open>Utility functions\<close>

definition get_current_user_email :: "flask_session \<Rightarrow> string option" where
  "get_current_user_email fs =
     (case fs_user_email fs of
        Some e \<Rightarrow> if fs_logged_in fs \<and> e \<noteq> [] then Some e else None
      | None \<Rightarrow> None)"

text \<open>The float literal \<open>0.0295735\<close>.\<close>

definition oz_to_litre :: pyfloat where
  "oz_to_litre = rnd (295735 / 10000000)"

definition calculate_calories :: "pyfloat \<Rightarrow> pyfloat \<Rightarrow> py_error + int" where
  "calculate_calories abv volume_oz =
     (let volume_L = fmul volume_oz oz_to_litre
      in bind (fdiv abv (Fin 100))
           (\<lambda>fraction. py_round (fmul (fmul (fmul volume_L fraction) (Fin 789)) (Fin 7))))"

definition calculate_burned_calories :: "pyfloat \<Rightarrow> json \<Rightarrow> pyfloat \<Rightarrow> py_error + int" where
  "calculate_burned_calories met weight_kg minutes =
     bind (fdiv minutes (Fin 60))
       (\<lambda>time_hours. bind (as_float_operand weight_kg)
          (\<lambda>w. py_round (fmul (fmul met w) time_hours)))"

definition session_drinks :: "database \<Rightarrow> string \<Rightarrow> drink_row list" where
  "session_drinks db session_id = filter (\<lambda>d. d_session_id d = session_id) (drinks db)"

text \<open>An integer that \<open>sqlite3\<close> accepts as a parameter of a statement.\<close>

definition sqlite_integer :: "int \<Rightarrow> bool" where
  "sqlite_integer n = (- (2 ^ 63) \<le> n \<and> n < 2 ^ 63)"

text \<open>
  \<open>update_session_calories\<close> sums in Python and writes the total with an UPDATE, which
  raises OverflowError for a total outside 64 bits; otherwise it commits.
\<close>

definition update_session_calories :: "database \<Rightarrow> string \<Rightarrow> py_error + (int \<times> database)" where
  "update_session_calories db session_id =
     (let new_total_calories =
            foldl (\<lambda>total drink. total + d_calories drink * d_count drink) 0
              (session_drinks db session_id)
      in if \<not> sqlite_integer new_total_calories then Inl OverflowError
         else Inr (new_total_calories,
                   db\<lparr>sessions :=
                        map (\<lambda>s. if s_id s = session_id
                                  then s\<lparr>s_total_calories := new_total_calories\<rparr> else s)
                          (sessions db)\<rparr>))"

section \<open>Routes: accounts\<close>

text \<open>
  Every route takes the client's Flask session and the database and returns the
  response with both as the request leaves them.  A request that ends in an error
  response before \<open>db.commit()\<close> leaves the database as it was.  Identifiers from
  \<open>uuid.uuid4()\<close> and timestamps from the clock are arguments.  The \<open>email\<close> and
  \<open>password\<close> of \<open>register\<close> and \<open>login\<close> are strings.
\<close>

definition find_user :: "database \<Rightarrow> string \<Rightarrow> user_row option" where
  "find_user db email = find (\<lambda>u. u_email u = email) (users db)"

definition find_session :: "database \<Rightarrow> string \<Rightarrow> session_row option" where
  "find_session db session_id = find (\<lambda>s. s_id s = session_id) (sessions db)"

definition register :: "string \<Rightarrow> string \<Rightarrow> flask_session \<Rightarrow> database \<Rightarrow> outcome" where
  "register email password fs db =
     (case find_user db email of
        Some _ \<Rightarrow> (error_response 409 ''User already exists'', fs, db)
      | None \<Rightarrow>
          (message_response ''Registration successful'',
           fs\<lparr>fs_logged_in := True, fs_user_email := Some email, fs_permanent := True,
              fs_current_session_id := None\<rparr>,
           db\<lparr>users := users db @ [\<lparr>u_email = email, u_password = password, u_metrics = None\<rparr>]\<rparr>))"



definition logout :: "flask_session \<Rightarrow> database \<Rightarrow> outcome" where
  "logout fs db =
     (message_response ''Logout successful'',
      fs\<lparr>fs_logged_in := False, fs_user_email := None, fs_current_session_id := None\<rparr>, db)"

definition required_fields :: "string list" where
  "required_fields = [''age'', ''height_cm'', ''weight_kg'', ''sex'']"

definition set_user_metrics :: "(string \<times> json) list \<Rightarrow> flask_session \<Rightarrow> database \<Rightarrow> outcome" where
  "set_user_metrics data fs db =
     (case get_current_user_email fs of
        None \<Rightarrow> (error_response 401 ''Not logged in'', fs, db)
      | Some user_email \<Rightarrow>
          if \<not> list_all (\<lambda>field. map_of data field \<noteq> None) required_fields
          then (error_response 400 ''Missing required metrics data'', fs, db)
          else (message_response ''Metrics saved'', fs,
                db\<lparr>users := map (\<lambda>u. if u_email u = user_email
                                      then u\<lparr>u_metrics := Some data\<rparr> else u)
                             (users db)\<rparr>))"

section \<open>Routes: sessions\<close>

definition create_session ::
  "string \<Rightarrow> string \<Rightarrow> string \<Rightarrow> string option \<Rightarrow> flask_session \<Rightarrow> database \<Rightarrow> outcome" where
  "create_session session_id default_name current_time name fs db =
     (case get_current_user_email fs of
        None \<Rightarrow> (error_response 401 ''Not logged in'', fs, db)
      | Some user_email \<Rightarrow>
          let session_name = (case name of None \<Rightarrow> default_name | Some n \<Rightarrow> n)
          in if find_session db session_id \<noteq> None
             then (error_response 500 ''Failed to create session'', fs, db)
             else ((200, JObject [(''message'', JString ''Session created''),
                                  (''session_id'', JString session_id)]),
                   fs\<lparr>fs_current_session_id := Some session_id\<rparr>,
                   db\<lparr>sessions := sessions db @
                        [\<lparr>s_id = session_id, s_user_email = user_email, s_name = session_name,
                          s_date = current_time, s_total_calories = 0\<rparr>]\<rparr>))"

definition delete_session :: "string \<Rightarrow> flask_session \<Rightarrow> database \<Rightarrow> outcome" where
  "delete_session session_id fs db =
     (case get_current_user_email fs of
        None \<Rightarrow> (error_response 401 ''Not logged in'', fs, db)
      | Some user_email \<Rightarrow>
          (case find_session db session_id of
             None \<Rightarrow> (error_response 404 ''Session not found or unauthorized'', fs, db)
           | Some session_check \<Rightarrow>
               if s_user_email session_check \<noteq> user_email
               then (error_response 404 ''Session not found or unauthorized'', fs, db)
               else (message_response ''Session and associated data deleted successfully'',
                     (if fs_current_session_id fs = Some session_id
                      then fs\<lparr>fs_current_session_id := None\<rparr> else fs),
                     db\<lparr>drinks := filter (\<lambda>d. d_session_id d \<noteq> session_id) (drinks db),
                        exercises := filter (\<lambda>e. e_session_id e \<noteq> session_id) (exercises db),
                        sessions := filter (\<lambda>s. s_id s \<noteq> session_id) (sessions db)\<rparr>)))"

text \<open>\<open>SELECT ... FROM sessions WHERE id = ? AND user_email = ?\<close>\<close>

definition owned_session :: "database \<Rightarrow> string \<Rightarrow> string \<Rightarrow> session_row option" where
  "owned_session db session_id user_email =
     find (\<lambda>s. s_id s = session_id \<and> s_user_email s = user_email) (sessions db)"

section \<open>Routes: drinks\<close>

text \<open>
  Step 1 of \<open>add_drink\<close>: ABV, volume, count and the two parts of the display name for
  a known drink type, or the 400 response.  \<open>form\<close> is \<open>request.form\<close>.
\<close>

record drink_properties =
  dp_abv :: pyfloat
  dp_volume_oz :: pyfloat
  dp_count :: int
  dp_base_name :: string
  dp_name_details :: string

definition shots_count :: "string option \<Rightarrow> py_error + int" where
  "shots_count count_str =
     (case count_str of
        None \<Rightarrow> Inr 1
      | Some cs \<Rightarrow>
          if cs = [] then Inr 1
          else (case py_float cs of
                  None \<Rightarrow> Inl ValueError
                | Some f \<Rightarrow>
                    if fle (Fin 1) f
                    then (case py_int cs of None \<Rightarrow> Inl ValueError | Some n \<Rightarrow> Inr n)
                    else Inr 1))"

definition form_float :: "string option \<Rightarrow> py_error + pyfloat" where
  "form_float v =
     (case v of
        None \<Rightarrow> Inl TypeError
      | Some s \<Rightarrow> (case py_float s of None \<Rightarrow> Inl ValueError | Some f \<Rightarrow> Inr f))"

definition determine_properties ::
  "string \<Rightarrow> preset \<Rightarrow> (string \<times> string) list \<Rightarrow> response + drink_properties" where
  "determine_properties drink_type preset form =
     (let abv = p_abv preset; volume_oz = p_volume_oz preset;
          is_mixed_drink = (drink_type \<in> set [''mixed_drink'', ''mixed_drink_diet''])
      in if is_mixed_drink
         then (case shots_count (map_of form ''liquid_ounces'') of
                 Inl _ \<Rightarrow> Inl (error_response 400 ''Invalid number for shots count'')
               | Inr count \<Rightarrow>
                   Inr \<lparr>dp_abv = abv, dp_volume_oz = volume_oz, dp_count = count,
                        dp_base_name = strip (str_replace ''(Base Spirit)'' [] (p_name preset)),
                        dp_name_details =
                          ''('' @ show_int count @ '' shots, '' @ format_1f abv @ ''% ABV Base)''\<rparr>)
         else (case (if drink_type \<noteq> ''shot_spirit''
                     then bind (form_float (map_of form ''custom_abv''))
                            (\<lambda>a. bind (form_float (map_of form ''liquid_ounces''))
                               (\<lambda>v. Inr (a, v)))
                     else Inr (abv, volume_oz)) of
                 Inl _ \<Rightarrow> Inl (error_response 400 ''Missing or Invalid number for ABV or Volume'')
               | Inr (abv, volume_oz) \<Rightarrow>
                   Inr \<lparr>dp_abv = abv, dp_volume_oz = volume_oz, dp_count = 1,
                        dp_base_name = p_name preset,
                        dp_name_details =
                          ''('' @ format_1f volume_oz @ ''oz, '' @ format_1f abv @ ''%)''\<rparr>))"

text \<open>Step 3 of \<open>add_drink\<close>: the calories of one serving.\<close>

definition calories_per_serving :: "string \<Rightarrow> pyfloat \<Rightarrow> pyfloat \<Rightarrow> py_error + int" where
  "calories_per_serving drink_type abv volume_oz =
     bind (calculate_calories abv volume_oz)
       (\<lambda>alcohol_calories_per_serving.
          let c0 = (if drink_type \<in> set [''shot_spirit'', ''mixed_drink'', ''mixed_drink_diet'']
                    then 100 else alcohol_calories_per_serving);
              c1 = (if drink_type = ''mixed_drink'' then c0 + 50 else c0);
              c2 = (if drink_type = ''beer'' then c1 + 20 else c1);
              c3 = (if drink_type = ''wine'' then c2 + 30 else c2);
              c4 = (if drink_type = ''ipa'' then c3 + 75 else c3)
          in Inr c4)"

definition drink_json :: "drink_row \<Rightarrow> json" where
  "drink_json d =
     JObject [(''id'', JString (d_id d)), (''name'', JString (d_name d)),
              (''calories'', JInt (d_calories d)), (''abv'', JFloat (d_abv d)),
              (''volume_oz'', JFloat (d_volume_oz d)), (''count'', JInt (d_count d))]"

text \<open>
  Step 4 of \<open>add_drink\<close> is the \<open>try\<close> block.  The INSERT raises OverflowError when the
  calories or the count do not fit in 64 bits and IntegrityError when the drink id is
  already there; \<open>update_session_calories\<close> raises OverflowError for a total that does not
  fit.  The \<open>except\<close> clause answers 500, and nothing has been committed.
\<close>

definition add_drink ::
  "string \<Rightarrow> string \<Rightarrow> (string \<times> string) list \<Rightarrow> flask_session \<Rightarrow> database \<Rightarrow> outcome" where
  "add_drink drink_id session_id form fs db =
     (case get_current_user_email fs of
        None \<Rightarrow> (error_response 401 ''Not logged in'', fs, db)
      | Some user_email \<Rightarrow>
          if owned_session db session_id user_email = None
          then (error_response 404 ''Session not found or unauthorized'', fs, db)
          else
            (case (case map_of form ''drink_type'' of
                     None \<Rightarrow> None
                   | Some drink_type \<Rightarrow>
                       map_option (\<lambda>p. (drink_type, p)) (map_of DRINK_PRESETS drink_type)) of
               None \<Rightarrow> (error_response 400 ''Invalid drink type'', fs, db)
             | Some (drink_type, preset) \<Rightarrow>
                 (case determine_properties drink_type preset form of
                    Inl resp \<Rightarrow> (resp, fs, db)
                  | Inr dp \<Rightarrow>
                      let custom_name = map_of form ''custom_name'';
                          final_base_name =
                            (case custom_name of
                               None \<Rightarrow> dp_base_name dp
                             | Some cn \<Rightarrow> if cn = [] then dp_base_name dp else cn);
                          final_drink_name = strip final_base_name @ '' '' @ dp_name_details dp
                      in (case calories_per_serving drink_type (dp_abv dp) (dp_volume_oz dp) of
                            Inl e \<Rightarrow> (unhandled e, fs, db)
                          | Inr calories \<Rightarrow>
                              let new_drink =
                                    \<lparr>d_id = drink_id, d_session_id = session_id,
                                     d_name = final_drink_name, d_calories = calories,
                                     d_abv = dp_abv dp, d_volume_oz = dp_volume_oz dp,
                                     d_count = dp_count dp\<rparr>
                              in if \<not> (sqlite_integer calories \<and> sqlite_integer (dp_count dp))
                                 then (error_response 500 ''Failed to add drink'', fs, db)
                                 else if find (\<lambda>d. d_id d = drink_id) (drinks db) \<noteq> None
                                 then (error_response 500 ''Failed to add drink'', fs, db)
                                 else (case update_session_calories
                                              (db\<lparr>drinks := drinks db @ [new_drink]\<rparr>)
                                              session_id of
                                         Inl e \<Rightarrow>
                                           (error_response 500 ''Failed to add drink'', fs, db)
                                       | Inr (new_total_calories, db') \<Rightarrow>
                                           ((200, JObject [(''message'', JString ''Drink added''),
                                                           (''drink'', drink_json new_drink)]),
                                            fs, db'))))))"

text \<open>
  The row that \<open>update_drink\<close> selects: the drink, joined with its session, with the given
  drink id, session id and owner.
\<close>

definition find_drink :: "database \<Rightarrow> string \<Rightarrow> string \<Rightarrow> string \<Rightarrow> drink_row option" where
  "find_drink db drink_id session_id user_email =
     find (\<lambda>d. d_id d = drink_id \<and> d_session_id d = session_id
                \<and> owned_session db session_id user_email \<noteq> None)
       (drinks db)"

definition set_drink_count :: "string \<Rightarrow> int \<Rightarrow> database \<Rightarrow> database" where
  "set_drink_count drink_id new_count db =
     db\<lparr>drinks := map (\<lambda>d. if d_id d = drink_id then d\<lparr>d_count := new_count\<rparr> else d)
                    (drinks db)\<rparr>"

definition delete_drink :: "string \<Rightarrow> database \<Rightarrow> database" where
  "delete_drink drink_id db = db\<lparr>drinks := filter (\<lambda>d. d_id d \<noteq> drink_id) (drinks db)\<rparr>"

text \<open>
  In \<open>update_drink\<close> every exception of the \<open>try\<close> block gives the 500 response, before
  anything is committed: the UPDATE of a count, and the UPDATE of the total inside
  \<open>update_session_calories\<close>, raise OverflowError for an integer outside 64 bits.
\<close>

definition update_drink ::
  "string \<Rightarrow> string \<Rightarrow> (string \<times> json) list \<Rightarrow> flask_session \<Rightarrow> database \<Rightarrow> outcome" where
  "update_drink session_id drink_id data fs db =
     (case get_current_user_email fs of
        None \<Rightarrow> (error_response 401 ''Not logged in'', fs, db)
      | Some user_email \<Rightarrow>
          (case find_drink db drink_id session_id user_email of
             None \<Rightarrow> (error_response 404 ''Drink ID not found in session or unauthorized'', fs, db)
           | Some drink_row \<Rightarrow>
               let action = map_of data ''action'';
                   current_count = d_count drink_row;
                   calories = d_calories drink_row;
                   response_data = [(''id'', JString drink_id), (''calories'', JInt calories)]
               in if action = Some (JString ''increment'')
                  then let new_count = current_count + 1
                       in if \<not> sqlite_integer new_count
                          then (error_response 500 ''Internal server error'', fs, db)
                          else (case update_session_calories
                                       (set_drink_count drink_id new_count db) session_id of
                                  Inl e \<Rightarrow> (error_response 500 ''Internal server error'', fs, db)
                                | Inr (new_total_calories, db') \<Rightarrow>
                                    ((200, JObject (response_data @
                                            [(''message'', JString ''Drink count incremented''),
                                             (''count'', JInt new_count)])),
                                     fs, db'))
                  else if action = Some (JString ''decrement'')
                  then let new_count = current_count - 1
                       in if new_count \<le> 0
                          then (case update_session_calories (delete_drink drink_id db)
                                       session_id of
                                  Inl e \<Rightarrow> (error_response 500 ''Internal server error'', fs, db)
                                | Inr (new_total_calories, db') \<Rightarrow>
                                    ((200, JObject [(''message'', JString ''Drink removed''),
                                                    (''removed_id'', JString drink_id)]),
                                     fs, db'))
                          else if \<not> sqlite_integer new_count
                          then (error_response 500 ''Internal server error'', fs, db)
                          else (case update_session_calories
                                       (set_drink_count drink_id new_count db) session_id of
                                  Inl e \<Rightarrow> (error_response 500 ''Internal server error'', fs, db)
                                | Inr (new_total_calories, db') \<Rightarrow>
                                    ((200, JObject (response_data @
                                            [(''message'', JString ''Drink count decremented''),
                                             (''count'', JInt new_count)])),
                                     fs, db'))
                  else (error_response 400 ''Invalid action specified'', fs, db)))"

section \<open>Routes: exercises\<close>

text \<open>
  \<open>exercise_type not in EXERCISE_METS\<close> and \<open>EXERCISE_METS[exercise_type]\<close>: only a
  string can be a key of the table; a list or an object is unhashable (TypeError).
\<close>

definition met_of :: "json option \<Rightarrow> py_error + (string \<times> pyfloat) option" where
  "met_of exercise_type =
     (case exercise_type of
        Some (JString t) \<Rightarrow> Inr (map_option (\<lambda>met. (t, met)) (map_of EXERCISE_METS t))
      | Some (JArray _) \<Rightarrow> Inl TypeError
      | Some (JObject _) \<Rightarrow> Inl TypeError
      | _ \<Rightarrow> Inr None)"

definition exercise_json :: "exercise_row \<Rightarrow> json" where
  "exercise_json e =
     JObject [(''id'', JString (e_id e)), (''type'', JString (e_type e)),
              (''minutes'', JFloat (e_minutes e)),
              (''calories_burned'', JInt (e_calories_burned e))]"

text \<open>The \<open>except\<close> clauses of \<open>add_exercise\<close>.\<close>

definition add_exercise_error :: "py_error \<Rightarrow> response" where
  "add_exercise_error e =
     (if e = ValueError then error_response 400 ''Invalid format for minutes''
      else error_response 500 ''Failed to add exercise'')"

definition add_exercise ::
  "string \<Rightarrow> string \<Rightarrow> (string \<times> json) list \<Rightarrow> flask_session \<Rightarrow> database \<Rightarrow> outcome" where
  "add_exercise exercise_id session_id data fs db =
     (case get_current_user_email fs of
        None \<Rightarrow> (error_response 401 ''Not logged in'', fs, db)
      | Some user_email \<Rightarrow>
          if (case find_session db session_id of
                None \<Rightarrow> True | Some session_check \<Rightarrow> s_user_email session_check \<noteq> user_email)
          then (error_response 404 ''Session not found or unauthorized'', fs, db)
          else
            (case (case find_user db user_email of None \<Rightarrow> None | Some u \<Rightarrow> u_metrics u) of
               None \<Rightarrow>
                 (error_response 400 ''Metrics not set. Please set metrics before logging exercise.'',
                  fs, db)
             | Some metrics \<Rightarrow>
                 (case map_of metrics ''weight_kg'' of
                    None \<Rightarrow> (unhandled KeyError, fs, db)
                  | Some weight_kg \<Rightarrow>
                      let minutes_raw = map_of data ''minutes''
                      in (case met_of (map_of data ''exercise_type'') of
                            Inl e \<Rightarrow> (unhandled e, fs, db)
                          | Inr None \<Rightarrow>
                              (error_response 400 ''Invalid exercise type or minutes'', fs, db)
                          | Inr (Some (exercise_type, met)) \<Rightarrow>
                              if \<not> truthy minutes_raw
                              then (error_response 400 ''Invalid exercise type or minutes'', fs, db)
                              else
                                (case py_float_of minutes_raw of
                                   Inl e \<Rightarrow> (add_exercise_error e, fs, db)
                                 | Inr minutes \<Rightarrow>
                                     if fle minutes (Fin 0)
                                     then (error_response 400 ''Minutes must be a positive number'',
                                           fs, db)
                                     else
                                       (case calculate_burned_calories met weight_kg minutes of
                                          Inl e \<Rightarrow> (add_exercise_error e, fs, db)
                                        | Inr calories_burned \<Rightarrow>
                                            let new_exercise =
                                                  \<lparr>e_id = exercise_id, e_session_id = session_id,
                                                   e_type = exercise_type, e_minutes = minutes,
                                                   e_calories_burned = calories_burned\<rparr>
                                            in if \<not> sqlite_integer calories_burned
                                               then (add_exercise_error OverflowError, fs, db)
                                               else if find (\<lambda>e. e_id e = exercise_id)
                                                         (exercises db) \<noteq> None
                                               then (add_exercise_error IntegrityError, fs, db)
                                               else ((200, JObject
                                                        [(''message'', JString ''Exercise added''),
                                                         (''exercise'', exercise_json new_exercise)]),
                                                     fs,
                                                     db\<lparr>exercises :=
                                                          exercises db @ [new_exercise]\<rparr>)))))))"

definition find_exercise ::
  "database \<Rightarrow> string \<Rightarrow> string \<Rightarrow> string \<Rightarrow> exercise_row option" where
  "find_exercise db exercise_id session_id user_email =
     find (\<lambda>e. e_id e = exercise_id \<and> e_session_id e = session_id
                \<and> owned_session db session_id user_email \<noteq> None)
       (exercises db)"

definition minute_change :: pyfloat where
  "minute_change = Fin 10"

text \<open>
  \<open>update_exercise\<close> reads the user's weight and the MET value before it looks at the
  action; an exception there is not caught.  Inside the \<open>try\<close> block every exception
  gives the 500 response.
\<close>

definition update_exercise ::
  "string \<Rightarrow> string \<Rightarrow> (string \<times> json) list \<Rightarrow> flask_session \<Rightarrow> database \<Rightarrow> outcome" where
  "update_exercise session_id exercise_id data fs db =
     (case get_current_user_email fs of
        None \<Rightarrow> (error_response 401 ''Not logged in'', fs, db)
      | Some user_email \<Rightarrow>
          (case find_exercise db exercise_id session_id user_email of
             None \<Rightarrow> (error_response 404 ''Exercise not found in session or unauthorized'', fs, db)
           | Some exercise_row \<Rightarrow>
               (case (case find_user db user_email of None \<Rightarrow> None | Some u \<Rightarrow> u_metrics u) of
                  None \<Rightarrow> (unhandled TypeError, fs, db)
                | Some metrics \<Rightarrow>
                    (case map_of metrics ''weight_kg'' of
                       None \<Rightarrow> (unhandled KeyError, fs, db)
                     | Some weight_kg \<Rightarrow>
                         let action = map_of data ''action'';
                             current_minutes = e_minutes exercise_row;
                             exercise_type = e_type exercise_row
                         in (case map_of EXERCISE_METS exercise_type of
                               None \<Rightarrow> (unhandled KeyError, fs, db)
                             | Some met \<Rightarrow>
                                 (case (if action = Some (JString ''increment'')
                                        then Some (fadd current_minutes minute_change)
                                        else if action = Some (JString ''decrement'')
                                        then Some (fsub current_minutes minute_change)
                                        else None) of
                                    None \<Rightarrow> (error_response 400 ''Invalid action specified'', fs, db)
                                  | Some new_minutes \<Rightarrow>
                                      if fle new_minutes (Fin 0)
                                      then ((200, JObject
                                               [(''message'', JString ''Exercise removed''),
                                                (''removed_id'', JString exercise_id)]),
                                            fs,
                                            db\<lparr>exercises :=
                                                 filter (\<lambda>e. e_id e \<noteq> exercise_id) (exercises db)\<rparr>)
                                      else
                                        (case calculate_burned_calories met weight_kg new_minutes of
                                           Inl e \<Rightarrow> (error_response 500 ''Internal server error'', fs, db)
                                         | Inr new_calories_burned \<Rightarrow>
                                             if \<not> sqlite_integer new_calories_burned
                                             then (error_response 500 ''Internal server error'',
                                                   fs, db)
                                             else
                                             ((200, JObject
                                                 [(''id'', JString exercise_id),
                                                  (''message'', JString ''Exercise updated''),
                                                  (''minutes'', JFloat new_minutes),
                                                  (''calories_burned'', JInt new_calories_burned)]),
                                              fs,
                                              db\<lparr>exercises :=
                                                   map (\<lambda>e. if e_id e = exercise_id
                                                             then e\<lparr>e_minutes := new_minutes,
                                                                   e_calories_burned := new_calories_burned\<rparr>
                                                             else e)
                                                     (exercises db)\<rparr>))))))))"

section \<open>Route: dashboard\<close>

text \<open>
  One round of the loop over \<open>EXERCISE_METS\<close>: the minutes of an exercise that burn the
  remaining calories.  The weight is read, and the division made, only when calories
  remain.
\<close>

definition burn_minutes :: "int \<Rightarrow> pyfloat \<Rightarrow> (string \<times> json) list \<Rightarrow> py_error + int" where
  "burn_minutes remaining_calories_to_burn met metrics =
     (if 0 < remaining_calories_to_burn
      then (case map_of metrics ''weight_kg'' of
              None \<Rightarrow> Inl KeyError
            | Some weight_kg \<Rightarrow>
                bind (as_float_operand weight_kg)
                  (\<lambda>w. bind (float_of_int (remaining_calories_to_burn * 60))
                     (\<lambda>numerator. bind (fdiv numerator (fmul met w)) py_round)))
      else Inr 0)"

fun exercise_times ::
  "int \<Rightarrow> (string \<times> json) list \<Rightarrow> (string \<times> pyfloat) list \<Rightarrow> py_error + (string \<times> json) list" where
  "exercise_times remaining metrics [] = Inr []"
| "exercise_times remaining metrics ((exercise, met) # rest) =
     bind (burn_minutes remaining met metrics)
       (\<lambda>minutes. bind (exercise_times remaining metrics rest)
          (\<lambda>others. Inr ((exercise, JInt minutes) # others)))"

definition get_dashboard_data :: "string \<Rightarrow> flask_session \<Rightarrow> database \<Rightarrow> outcome" where
  "get_dashboard_data session_id fs db =
     (case get_current_user_email fs of
        None \<Rightarrow> (error_response 401 ''Not logged in'', fs, db)
      | Some user_email \<Rightarrow>
          (case owned_session db session_id user_email of
             None \<Rightarrow> (error_response 404 ''Session not found or unauthorized'', fs, db)
           | Some session_row \<Rightarrow>
               let session_name = s_name session_row;
                   total_calories_consumed = s_total_calories session_row
               in (case (case find_user db user_email of None \<Rightarrow> None | Some u \<Rightarrow> u_metrics u) of
                     None \<Rightarrow> (error_response 400 ''Metrics not set'', fs, db)
                   | Some metrics \<Rightarrow>
                       let drinks_list = sort_key d_id (session_drinks db session_id);
                           logged_exercises =
                             sort_key e_type
                               (filter (\<lambda>e. e_session_id e = session_id) (exercises db));
                           total_calories_burned = sum_list (map e_calories_burned logged_exercises);
                           net_calories = total_calories_consumed - total_calories_burned;
                           remaining_calories_to_burn = max 0 net_calories
                       in (case exercise_times remaining_calories_to_burn metrics EXERCISE_METS of
                             Inl e \<Rightarrow> (unhandled e, fs, db)
                           | Inr exercise_times_json \<Rightarrow>
                               ((200, JObject
                                   [(''session_name'', JString session_name),
                                    (''total_calories_consumed'', JInt total_calories_consumed),
                                    (''total_calories_burned'', JInt total_calories_burned),
                                    (''net_calories'', JInt net_calories),
                                    (''drinks'', JArray (map drink_json drinks_list)),
                                    (''logged_exercises'', JArray (map exercise_json logged_exercises)),
                                    (''exercise_times'', JObject exercise_times_json)]),
                                fs, db)))))"

section \<open>Invariants of the store\<close>

definition db_of :: "outcome \<Rightarrow> database" where
  "db_of out = snd (snd out)"

definition session_of :: "outcome \<Rightarrow> flask_session" where
  "session_of out = fst (snd out)"

definition status_of :: "outcome \<Rightarrow> nat" where
  "status_of out = fst (fst out)"

definition body_of :: "outcome \<Rightarrow> json" where
  "body_of out = snd (fst out)"

text \<open>A member of a JSON object.\<close>

definition json_get :: "json \<Rightarrow> string \<Rightarrow> json option" where
  "json_get j k = (case j of JObject kvs \<Rightarrow> map_of kvs k | _ \<Rightarrow> None)"

text \<open>The sum of \<open>calories * count\<close> over the drink rows of a session.\<close>

definition session_total :: "database \<Rightarrow> string \<Rightarrow> int" where
  "session_total db session_id =
     sum_list (map (\<lambda>d. d_calories d * d_count d) (session_drinks db session_id))"

definition totals_ok :: "database \<Rightarrow> bool" where
  "totals_ok db = list_all (\<lambda>s. s_total_calories s = session_total db (s_id s)) (sessions db)"

text \<open>The primary keys of the four tables.\<close>

definition keys_ok :: "database \<Rightarrow> bool" where
  "keys_ok db =
     (distinct (map u_email (users db)) \<and> distinct (map s_id (sessions db))
      \<and> distinct (map d_id (drinks db)) \<and> distinct (map e_id (exercises db)))"

text \<open>
  Every drink and every exercise belongs to a session of the table.  The handlers keep
  this; the store itself enforces no foreign key on the connections of the requests.
\<close>

definition refs_ok :: "database \<Rightarrow> bool" where
  "refs_ok db =
     (list_all (\<lambda>d. find_session db (d_session_id d) \<noteq> None) (drinks db)
      \<and> list_all (\<lambda>e. find_session db (e_session_id e) \<noteq> None) (exercises db))"

text \<open>The weight in the metrics of the user who owns a session.\<close>

definition owner_weight :: "database \<Rightarrow> string \<Rightarrow> json option" where
  "owner_weight db session_id =
     (case find_session db session_id of
        None \<Rightarrow> None
      | Some s \<Rightarrow>
          (case find_user db (s_user_email s) of
             None \<Rightarrow> None
           | Some u \<Rightarrow> (case u_metrics u of None \<Rightarrow> None | Some m \<Rightarrow> map_of m ''weight_kg'')))"

definition positive_finite :: "pyfloat \<Rightarrow> bool" where
  "positive_finite x = (case x of Fin a \<Rightarrow> 0 < a | _ \<Rightarrow> False)"

text \<open>
  The rows: a drink has a count of at least one; an exercise has finitely many, more
  than zero, minutes and a known type, and the owner of its session has a weight.
\<close>

definition rows_ok :: "database \<Rightarrow> bool" where
  "rows_ok db =
     (list_all (\<lambda>d. 1 \<le> d_count d) (drinks db)
      \<and> list_all (\<lambda>e. positive_finite (e_minutes e)
                       \<and> map_of EXERCISE_METS (e_type e) \<noteq> None
                       \<and> owner_weight db (e_session_id e) \<noteq> None)
            (exercises db))"

definition db_ok :: "database \<Rightarrow> bool" where
  "db_ok db = (keys_ok db \<and> refs_ok db \<and> rows_ok db \<and> totals_ok db)"

text \<open>
  The databases that requests can produce from the empty one.  The Flask session of a
  request is arbitrary: several clients share the store.
\<close>

inductive reachable :: "database \<Rightarrow> bool" where
  init: "reachable empty_db"
| by_register: "reachable db \<Longrightarrow> reachable (db_of (register email password fs db))"
| by_set_user_metrics: "reachable db \<Longrightarrow> reachable (db_of (set_user_metrics data fs db))"
| by_create_session:
    "reachable db \<Longrightarrow>
     reachable (db_of (create_session session_id default_name current_time name fs db))"
| by_delete_session: "reachable db \<Longrightarrow> reachable (db_of (delete_session session_id fs db))"
| by_add_drink: "reachable db \<Longrightarrow> reachable (db_of (add_drink drink_id session_id form fs db))"
| by_update_drink:
    "reachable db \<Longrightarrow> reachable (db_of (update_drink session_id drink_id data fs db))"
| by_add_exercise:
    "reachable db \<Longrightarrow> reachable (db_of (add_exercise exercise_id session_id data fs db))"
| by_update_exercise:
    "reachable db \<Longrightarrow> reachable (db_of (update_exercise session_id exercise_id data fs db))"

text \<open>A float that is a value of binary64: rounding leaves it as it is.\<close>

definition is_float :: "pyfloat \<Rightarrow> bool" where
  "is_float x = (case x of Fin a \<Rightarrow> rnd a = Fin a | _ \<Rightarrow> True)"

definition finite_float :: "pyfloat \<Rightarrow> bool" where
  "finite_float x = (case x of Fin a \<Rightarrow> rnd a = Fin a | _ \<Rightarrow> False)"

text \<open>The database after \<open>update_session_calories\<close> has written the total of a session.\<close>

definition recompute :: "database \<Rightarrow> string \<Rightarrow> database" where
  "recompute db session_id =
     db\<lparr>sessions := map (\<lambda>s. if s_id s = session_id
                               then s\<lparr>s_total_calories := session_total db session_id\<rparr>
                               else s) (sessions db)\<rparr>"

text \<open>The rows that \<open>add_drink\<close> and \<open>add_exercise\<close> insert, and the updates of an exercise.\<close>

definition new_drink_row ::
  "string \<Rightarrow> string \<Rightarrow> (string \<times> string) list \<Rightarrow> drink_properties \<Rightarrow> int \<Rightarrow> drink_row" where
  "new_drink_row drink_id session_id form dp calories =
     \<lparr>d_id = drink_id, d_session_id = session_id,
      d_name = strip (case map_of form ''custom_name'' of
                        None \<Rightarrow> dp_base_name dp
                      | Some cn \<Rightarrow> if cn = [] then dp_base_name dp else cn)
               @ '' '' @ dp_name_details dp,
      d_calories = calories, d_abv = dp_abv dp, d_volume_oz = dp_volume_oz dp,
      d_count = dp_count dp\<rparr>"

definition new_exercise_row :: "string \<Rightarrow> string \<Rightarrow> string \<Rightarrow> pyfloat \<Rightarrow> int \<Rightarrow> exercise_row" where
  "new_exercise_row exercise_id session_id exercise_type minutes calories_burned =
     \<lparr>e_id = exercise_id, e_session_id = session_id, e_type = exercise_type,
      e_minutes = minutes, e_calories_burned = calories_burned\<rparr>"

definition set_exercise :: "string \<Rightarrow> pyfloat \<Rightarrow> int \<Rightarrow> database \<Rightarrow> database" where
  "set_exercise exercise_id new_minutes new_calories_burned db =
     db\<lparr>exercises := map (\<lambda>e. if e_id e = exercise_id
                               then e\<lparr>e_minutes := new_minutes,
                                     e_calories_burned := new_calories_burned\<rparr>
                               else e) (exercises db)\<rparr>"

definition delete_exercise :: "string \<Rightarrow> database \<Rightarrow> database" where
  "delete_exercise exercise_id db =
     db\<lparr>exercises := filter (\<lambda>e. e_id e \<noteq> exercise_id) (exercises db)\<rparr>"

definition new_minutes_of :: "json option \<Rightarrow> pyfloat \<Rightarrow> pyfloat option" where
  "new_minutes_of action current_minutes =
     (if action = Some (JString ''increment'') then Some (fadd current_minutes minute_change)
      else if action = Some (JString ''decrement'') then Some (fsub current_minutes minute_change)
      else None)"

text \<open>The offset that the specification adds to the calories of a serving, by drink type.\<close>

definition serving_offset :: "string \<Rightarrow> int" where
  "serving_offset drink_type =
     (if drink_type = ''mixed_drink'' then 50
      else if drink_type = ''beer'' then 20
      else if drink_type = ''wine'' then 30
      else if drink_type = ''ipa'' then 75
      else 0)"

section \<open>A store for the examples\<close>

definition demo_session :: flask_session where
  "demo_session =
     \<lparr>fs_logged_in = True, fs_user_email = Some ''ann@example.org'', fs_permanent = True,
      fs_current_session_id = Some ''s1''\<rparr>"

definition demo_metrics :: "(string \<times> json) list" where
  "demo_metrics =
     [(''age'', JInt 30), (''height_cm'', JInt 170), (''weight_kg'', JInt 70),
      (''sex'', JString ''f'')]"

definition demo_db :: database where
  "demo_db =
     \<lparr>users = [\<lparr>u_email = ''ann@example.org'', u_password = ''secret'',
                u_metrics = Some demo_metrics\<rparr>],
      sessions = [\<lparr>s_id = ''s1'', s_user_email = ''ann@example.org'', s_name = ''Friday'',
                   s_date = ''2024-05-03T20:00:00Z'', s_total_calories = 418\<rparr>],
      drinks = [\<lparr>d_id = ''d1'', d_session_id = ''s1'', d_name = ''Standard Beer (12.0oz, 5.0%)'',
                 d_calories = 118, d_abv = Fin 5, d_volume_oz = Fin 12, d_count = 1\<rparr>,
                \<lparr>d_id = ''d2'', d_session_id = ''s1'',
                 d_name = ''Mixed Drink (2 shots, 40.0% ABV Base)'',
                 d_calories = 150, d_abv = Fin 40, d_volume_oz = Fin (3 / 2), d_count = 2\<rparr>],
      exercises = [\<lparr>e_id = ''e1'', e_session_id = ''s1'', e_type = ''running'',
                    e_minutes = Fin 30, e_calories_burned = 280\<rparr>]\<rparr>"

definition beer_form :: "(string \<times> string) list" where
  "beer_form = [(''drink_type'', ''beer''), (''custom_abv'', ''5.0''), (''liquid_ounces'', ''12'')]"

definition one_beer_db :: database where
  "one_beer_db =
     \<lparr>users = [\<lparr>u_email = ''ann@example.org'', u_password = ''secret'', u_metrics = None\<rparr>],
      sessions = [\<lparr>s_id = ''s1'', s_user_email = ''ann@example.org'', s_name = ''Friday'',
                   s_date = ''2024-05-03T20:00:00Z'', s_total_calories = 118\<rparr>],
      drinks = [\<lparr>d_id = ''d1'', d_session_id = ''s1'', d_name = ''Standard Beer (12.0oz, 5.0%)'',
                 d_calories = 118, d_abv = Fin 5, d_volume_oz = Fin 12, d_count = 1\<rparr>],
      exercises = []\<rparr>"

definition increment_data :: "(string \<times> json) list" where
  "increment_data = [(''action'', JString ''increment'')]"


definition run_data :: "(string \<times> json) list" where
  "run_data = [(''exercise_type'', JString ''running''), (''minutes'', JInt 30)]"

definition decrement_data :: "(string \<times> json) list" where
  "decrement_data = [(''action'', JString ''decrement'')]"

definition workout_db :: database where
  "workout_db =
     \<lparr>users = [\<lparr>u_email = ''ann@example.org'', u_password = ''secret'',
                u_metrics = Some demo_metrics\<rparr>],
      sessions = [\<lparr>s_id = ''s1'', s_user_email = ''ann@example.org'', s_name = ''Friday'',
                   s_date = ''2024-05-03T20:00:00Z'', s_total_calories = 118\<rparr>],
      drinks = [\<lparr>d_id = ''d1'', d_session_id = ''s1'', d_name = ''Standard Beer (12.0oz, 5.0%)'',
                 d_calories = 118, d_abv = Fin 5, d_volume_oz = Fin 12, d_count = 1\<rparr>],
      exercises = [\<lparr>e_id = ''e1'', e_session_id = ''s1'', e_type = ''running'',
                    e_minutes = Fin 30, e_calories_burned = 280\<rparr>]\<rparr>"


definition heavier_metrics :: "(string \<times> json) list" where
  "heavier_metrics =
     [(''age'', JInt 30), (''height_cm'', JInt 170), (''weight_kg'', JInt 100),
      (''sex'', JString ''f'')]"

section \<open>Facts about float rounding\<close>

lemma round_half_even_close: "\<bar>of_int (round_half_even x) - x\<bar> \<le> 1 / 2"
proof -
  have "of_int \<lfloor>x\<rfloor> \<le> x" "x < of_int \<lfloor>x\<rfloor> + 1" by linarith+
  then show ?thesis
    by (auto simp: round_half_even_def Let_def abs_le_iff)
qed

lemma round_half_even_of_int [simp]: "round_half_even (of_int n) = n"
  by (simp add: round_half_even_def)

lemma round_half_even_mono: "x \<le> y \<Longrightarrow> round_half_even x \<le> round_half_even y"
proof -
  assume xy: "x \<le> y"
  have fx: "of_int \<lfloor>x\<rfloor> \<le> x" "x < of_int \<lfloor>x\<rfloor> + 1" by linarith+
  have fy: "of_int \<lfloor>y\<rfloor> \<le> y" "y < of_int \<lfloor>y\<rfloor> + 1" by linarith+
  have le: "\<lfloor>x\<rfloor> \<le> \<lfloor>y\<rfloor>" using xy by (rule floor_mono)
  show ?thesis
  proof (cases "\<lfloor>x\<rfloor> = \<lfloor>y\<rfloor>")
    case True
    then show ?thesis using xy
      by (auto simp: round_half_even_def Let_def)
  next
    case False
    then have "\<lfloor>x\<rfloor> + 1 \<le> \<lfloor>y\<rfloor>" using le by linarith
    moreover have "round_half_even x \<le> \<lfloor>x\<rfloor> + 1"
      by (auto simp: round_half_even_def Let_def)
    moreover have "\<lfloor>y\<rfloor> \<le> round_half_even y"
      by (auto simp: round_half_even_def Let_def)
    ultimately show ?thesis by linarith
  qed
qed

lemma ilog2_bounds:
  assumes "x \<noteq> 0"
  shows "2 powi ilog2 x \<le> \<bar>x\<bar>" and "\<bar>x\<bar> < 2 powi (ilog2 x + 1)"
proof -
  have pos: "0 < \<bar>x\<bar>" using assms by simp
  show "2 powi ilog2 x \<le> \<bar>x\<bar>"
  proof (cases "1 \<le> \<bar>x\<bar>")
    case True
    define n where "n = \<lfloor>\<bar>x\<bar>\<rfloor>"
    have n1: "1 \<le> n" using True by (simp add: n_def le_floor_iff)
    then have b: "2 ^ nat (bitlen n - 1) \<le> n" using bitlen_bounds[of n] by simp
    have bl: "1 \<le> bitlen n" using n1 by (simp add: bitlen_alt_def)
    have "(2::rat) powi (bitlen n - 1) = 2 ^ nat (bitlen n - 1)"
      using bl by (simp add: power_int_def)
    also have "\<dots> \<le> of_int n" using b by (simp only: numeral_power_le_of_int_cancel_iff)
    also have "\<dots> \<le> \<bar>x\<bar>" by (simp add: n_def)
    finally show ?thesis using True by (simp add: ilog2_def n_def)
  next
    case False
    define c where "c = \<lceil>1 / \<bar>x\<bar>\<rceil>"
    have y1: "1 < 1 / \<bar>x\<bar>" using False pos by simp
    have c2: "2 \<le> c" using y1 by (simp add: c_def less_ceiling_iff) 
    have yc: "1 / \<bar>x\<bar> \<le> of_int c" by (simp add: c_def)
    have b: "c - 1 < 2 ^ nat (bitlen (c - 1))" using bitlen_bounds[of "c - 1"] c2 by simp
    then have "c \<le> 2 ^ nat (bitlen (c - 1))" by simp
    then have "(of_int c :: rat) \<le> 2 ^ nat (bitlen (c - 1))" by simp
    then have "1 / \<bar>x\<bar> \<le> 2 ^ nat (bitlen (c - 1))" using yc by linarith
    then have "1 / 2 ^ nat (bitlen (c - 1)) \<le> \<bar>x\<bar>"
      using pos by (simp add: field_simps)
    moreover have "(2::rat) powi (- bitlen (c - 1)) = 1 / 2 ^ nat (bitlen (c - 1))"
      using bitlen_nonneg[of "c - 1"] by (simp add: power_int_def field_simps)
    ultimately show ?thesis using False by (simp add: ilog2_def c_def)
  qed
  show "\<bar>x\<bar> < 2 powi (ilog2 x + 1)"
  proof (cases "1 \<le> \<bar>x\<bar>")
    case True
    define n where "n = \<lfloor>\<bar>x\<bar>\<rfloor>"
    have n1: "1 \<le> n" using True by (simp add: n_def le_floor_iff)
    then have b: "n < 2 ^ nat (bitlen n)" using bitlen_bounds[of n] by simp
    then have "n + 1 \<le> 2 ^ nat (bitlen n)" by simp
    then have "(of_int (n + 1) :: rat) \<le> 2 ^ nat (bitlen n)" by (simp only: of_int_le_numeral_power_cancel_iff)
    moreover have "\<bar>x\<bar> < of_int (n + 1)" unfolding n_def by linarith
    ultimately have "\<bar>x\<bar> < 2 ^ nat (bitlen n)" by linarith
    moreover have "(2::rat) powi (bitlen n) = 2 ^ nat (bitlen n)"
      using bitlen_nonneg[of n] by (simp add: power_int_def)
    ultimately show ?thesis using True by (simp add: ilog2_def n_def)
  next
    case False
    define c where "c = \<lceil>1 / \<bar>x\<bar>\<rceil>"
    have y1: "1 < 1 / \<bar>x\<bar>" using False pos by simp
    have c2: "2 \<le> c" using y1 by (simp add: c_def less_ceiling_iff)
    have cy: "of_int (c - 1) < 1 / \<bar>x\<bar>" unfolding c_def by linarith
    have bl: "1 \<le> bitlen (c - 1)" using c2 by (simp add: bitlen_alt_def)
    have b: "2 ^ nat (bitlen (c - 1) - 1) \<le> c - 1" using bitlen_bounds[of "c - 1"] c2 by simp
    then have "(2 ^ nat (bitlen (c - 1) - 1) :: rat) \<le> of_int (c - 1)"
      by (simp only: numeral_power_le_of_int_cancel_iff)
    then have "2 ^ nat (bitlen (c - 1) - 1) < 1 / \<bar>x\<bar>" using cy by linarith
    then have "\<bar>x\<bar> < 1 / 2 ^ nat (bitlen (c - 1) - 1)"
      using pos by (simp add: field_simps)
    moreover have "(2::rat) powi (- bitlen (c - 1) + 1) = 1 / 2 ^ nat (bitlen (c - 1) - 1)"
      using bl by (simp add: power_int_def field_simps nat_diff_distrib)
    ultimately show ?thesis using False by (simp add: ilog2_def c_def)
  qed
qed

lemma pow2_less_iff: "(2::rat) powi a < 2 powi b \<longleftrightarrow> a < b"
proof
  assume l: "(2::rat) powi a < 2 powi b"
  show "a < b"
  proof (rule ccontr)
    assume "\<not> a < b"
    then have "b \<le> a" by simp
    then have "(2::rat) powi b \<le> 2 powi a" by (rule power_int_increasing) simp
    with l show False by simp
  qed
next
  assume "a < b"
  then show "(2::rat) powi a < 2 powi b" by (rule power_int_strict_increasing) simp
qed

lemma pow2_le_iff: "(2::rat) powi a \<le> 2 powi b \<longleftrightarrow> a \<le> b"
  using pow2_less_iff[of b a] by (simp add: not_less[symmetric])

lemma pow2_pos: "0 < (2::rat) powi a"
  by (rule zero_less_power_int) simp

lemma pow2_le_abs_nz: "(2::rat) powi k \<le> \<bar>x\<bar> \<Longrightarrow> x \<noteq> 0"
proof
  assume "(2::rat) powi k \<le> \<bar>x\<bar>" and "x = 0"
  then have "(2::rat) powi k \<le> 0" by simp
  moreover have "0 < (2::rat) powi k" by (rule pow2_pos)
  ultimately show False by linarith
qed

lemma ilog2_unique:
  assumes "2 powi k \<le> \<bar>x\<bar>" and "\<bar>x\<bar> < 2 powi (k + 1)"
  shows "ilog2 x = k"
proof -
  have nz: "x \<noteq> 0"
  proof
    assume "x = 0"
    then have "(2::rat) powi k \<le> 0" using assms(1) by simp
    moreover have "0 < (2::rat) powi k" by (rule pow2_pos)
    ultimately show False by linarith
  qed
  note b = ilog2_bounds[OF nz]
  have "(2::rat) powi k < 2 powi (ilog2 x + 1)" using assms(1) b(2) by linarith
  then have 1: "k < ilog2 x + 1" by (simp only: pow2_less_iff)
  have "(2::rat) powi ilog2 x < 2 powi (k + 1)" using assms(2) b(1) by linarith
  then have 2: "ilog2 x < k + 1" by (simp only: pow2_less_iff)
  from 1 2 show ?thesis by linarith
qed

lemma round_half_even_eqI: "\<bar>of_int n - x\<bar> < 1 / 2 \<Longrightarrow> round_half_even x = n"
proof -
  assume a: "\<bar>of_int n - x\<bar> < 1 / 2"
  have c: "\<bar>of_int (round_half_even x) - x\<bar> \<le> 1 / 2" by (rule round_half_even_close)
  have "\<bar>(of_int (round_half_even x) :: rat) - of_int n\<bar> < 1" using a c by linarith
  then have "\<bar>(of_int (round_half_even x - n) :: rat)\<bar> < 1" by simp
  then have "\<bar>round_half_even x - n\<bar> < 1"
    by (metis of_int_abs of_int_less_1_iff)
  then show ?thesis by linarith
qed

lemma pow2_int: "0 \<le> d \<Longrightarrow> (2::rat) powi d = of_int (2 ^ nat d)"
  by (simp add: power_int_def)

lemma pow2_div: "(2::rat) powi a / 2 powi b = 2 powi (a - b)"
  by (simp add: power_int_diff)

lemma rnd_alt:
  "x \<noteq> 0 \<Longrightarrow> rnd x =
     (if (2::rat) powi 1024 \<le> \<bar>of_int (round_half_even (x / 2 powi rexp x)) * 2 powi rexp x\<bar>
      then (if 0 < x then PInf else NInf)
      else Fin (of_int (round_half_even (x / 2 powi rexp x)) * 2 powi rexp x))"
  by (simp add: rnd_def Let_def)

lemma ilog2_le: "x \<noteq> 0 \<Longrightarrow> \<bar>x\<bar> \<le> 2 powi k \<Longrightarrow> ilog2 x \<le> k"
proof -
  assume nz: "x \<noteq> 0" and le: "\<bar>x\<bar> \<le> 2 powi k"
  have "(2::rat) powi ilog2 x \<le> 2 powi k" using ilog2_bounds(1)[OF nz] le by linarith
  then show ?thesis by (simp only: pow2_le_iff)
qed

lemma ilog2_less: "x \<noteq> 0 \<Longrightarrow> \<bar>x\<bar> < 2 powi k \<Longrightarrow> ilog2 x < k"
proof -
  assume nz: "x \<noteq> 0" and le: "\<bar>x\<bar> < 2 powi k"
  have "(2::rat) powi ilog2 x < 2 powi k" using ilog2_bounds(1)[OF nz] le by linarith
  then show ?thesis by (simp only: pow2_less_iff)
qed

lemma ilog2_ge: "2 powi k \<le> \<bar>x\<bar> \<Longrightarrow> k \<le> ilog2 x"
proof -
  assume le: "2 powi k \<le> \<bar>x\<bar>"
  have nz: "x \<noteq> 0" using le by (rule pow2_le_abs_nz)
  have "(2::rat) powi k < 2 powi (ilog2 x + 1)" using ilog2_bounds(2)[OF nz] le by linarith
  then have "k < ilog2 x + 1" by (simp only: pow2_less_iff)
  then show ?thesis by simp
qed

lemma rnd_upper:
  assumes "0 < x" and "x \<le> 2 powi k" and "- 1074 \<le> k" and "k \<le> 1023"
  shows "\<exists>r. rnd x = Fin r \<and> 0 \<le> r \<and> r \<le> 2 powi k"
proof -
  have nz: "x \<noteq> 0" using assms(1) by simp
  define e where "e = rexp x"
  define n where "n = round_half_even (x / 2 powi e)"
  have "ilog2 x \<le> k" using ilog2_le[OF nz, of k] assms(1,2) by simp
  then have ek: "e \<le> k" using assms(3) by (simp add: e_def rexp_def)
  have "x / 2 powi e \<le> 2 powi k / 2 powi e"
    using assms(2) pow2_pos[of e] by (simp add: divide_right_mono)
  also have "\<dots> = of_int (2 ^ nat (k - e))" using ek by (simp add: pow2_div pow2_int)
  finally have "n \<le> round_half_even (of_int (2 ^ nat (k - e)))"
    unfolding n_def by (rule round_half_even_mono)
  then have "n \<le> 2 ^ nat (k - e)" by (simp only: round_half_even_of_int)
  then have "(of_int n :: rat) \<le> 2 powi (k - e)" using ek by (simp add: pow2_int)
  then have "(of_int n :: rat) * 2 powi e \<le> 2 powi (k - e) * 2 powi e"
    using pow2_pos[of e] by (simp add: mult_right_mono)
  also have "\<dots> = 2 powi k" by (simp add: power_int_add[symmetric])
  finally have up: "(of_int n :: rat) * 2 powi e \<le> 2 powi k" .
  have "0 \<le> x / 2 powi e" using assms(1) pow2_pos[of e] by simp
  then have "round_half_even 0 \<le> n" unfolding n_def by (rule round_half_even_mono)
  then have "0 \<le> n" using round_half_even_of_int[of 0] by simp
  then have lo: "0 \<le> (of_int n :: rat) * 2 powi e" using pow2_pos[of e] by simp
  have "(2::rat) powi k < 2 powi 1024" using assms(4) by (simp only: pow2_less_iff)
  then have "\<not> (2::rat) powi 1024 \<le> \<bar>of_int n * 2 powi e\<bar>" using up lo by linarith
  then have "rnd x = Fin (of_int n * 2 powi e)"
    using rnd_alt[OF nz] by (simp only: n_def e_def if_False)
  then show ?thesis using up lo by blast
qed

lemma rnd_lower:
  assumes "2 powi k \<le> x" and "- 1074 \<le> k"
  shows "rnd x = PInf \<or> (\<exists>r. rnd x = Fin r \<and> 2 powi k \<le> r)"
proof -
  have xp: "0 < x" using assms(1) pow2_pos[of k] by linarith
  then have nz: "x \<noteq> 0" by simp
  define e where "e = rexp x"
  define j where "j = ilog2 x"
  define n where "n = round_half_even (x / 2 powi e)"
  have kj: "k \<le> j" unfolding j_def using ilog2_ge[of k x] assms(1) xp by simp
  then have ej: "e \<le> j" using assms(2) by (simp add: e_def rexp_def j_def)
  have jx: "2 powi j \<le> x" using ilog2_bounds(1)[OF nz] xp by (simp add: j_def)
  have "of_int (2 ^ nat (j - e)) = (2::rat) powi j / 2 powi e" using ej by (simp add: pow2_div pow2_int)
  also have "\<dots> \<le> x / 2 powi e" using jx pow2_pos[of e] by (simp add: divide_right_mono)
  finally have "round_half_even (of_int (2 ^ nat (j - e))) \<le> n"
    unfolding n_def by (rule round_half_even_mono)
  then have "2 ^ nat (j - e) \<le> n" by (simp only: round_half_even_of_int)
  then have "(2::rat) powi (j - e) \<le> of_int n" using ej by (simp add: pow2_int)
  then have "(2::rat) powi (j - e) * 2 powi e \<le> of_int n * 2 powi e"
    using pow2_pos[of e] by (simp add: mult_right_mono)
  moreover have "(2::rat) powi (j - e) * 2 powi e = 2 powi j" by (simp add: power_int_add[symmetric])
  moreover have "(2::rat) powi k \<le> 2 powi j" using kj by (simp only: pow2_le_iff)
  ultimately have lo: "(2::rat) powi k \<le> of_int n * 2 powi e" by linarith
  show ?thesis using rnd_alt[OF nz] lo xp by (auto simp: n_def e_def)
qed

lemma rnd_Fin_bound: "rnd x = Fin r \<Longrightarrow> \<bar>r\<bar> < 2 powi 1024"
  by (cases "x = 0") (auto simp: rnd_def Let_def pow2_pos split: if_splits)

lemma rnd_overflow: "2 powi 1024 \<le> x \<Longrightarrow> rnd x = PInf"
  using rnd_lower[of 1024 x] rnd_Fin_bound[of x] by fastforce

lemma rnd_nonpos:
  assumes "x \<le> 0"
  shows "rnd x = NInf \<or> (\<exists>r. rnd x = Fin r \<and> r \<le> 0)"
proof (cases "x = 0")
  case True
  then show ?thesis by (simp add: rnd_def)
next
  case False
  define e where "e = rexp x"
  define n where "n = round_half_even (x / 2 powi e)"
  have "x / 2 powi e \<le> 0" using assms pow2_pos[of e] by (simp add: divide_le_0_iff)
  then have "n \<le> round_half_even 0" unfolding n_def by (rule round_half_even_mono)
  then have "n \<le> 0" using round_half_even_of_int[of 0] by simp
  then have "(of_int n :: rat) * 2 powi e \<le> 0" using pow2_pos[of e]
    by (simp add: mult_le_0_iff)
  moreover have "\<not> 0 < x" using assms by simp
  ultimately show ?thesis unfolding rnd_alt[OF False] n_def e_def by (simp only: if_False split: if_split) blast
qed

lemma rnd_exact:
  assumes "x = of_int m * 2 powi e" and "\<bar>m\<bar> < 2 ^ 53" and "- 1074 \<le> e"
    and "\<bar>x\<bar> < 2 powi 1024"
  shows "rnd x = Fin x"
proof (cases "x = 0")
  case True
  then show ?thesis by (simp add: rnd_def)
next
  case False
  define e' where "e' = rexp x"
  have "\<bar>(of_int m :: rat)\<bar> < 2 ^ 53" using assms(2) by (metis of_int_abs of_int_less_numeral_power_cancel_iff)
  then have "\<bar>x\<bar> < (2::rat) ^ 53 * 2 powi e" using pow2_pos[of e]
    by (simp add: assms(1) abs_mult)
  also have "\<dots> = 2 powi (e + 53)" by (simp add: power_int_add)
  finally have "ilog2 x < e + 53" using ilog2_less[OF False] by simp
  then have ee: "e' \<le> e" using assms(3) by (simp add: e'_def rexp_def)
  have "x / 2 powi e' = (of_int m :: rat) * 2 powi (e - e')" by (simp add: assms(1) power_int_diff)
  also have "\<dots> = of_int (m * 2 ^ nat (e - e'))" using ee by (simp add: pow2_int)
  finally have "round_half_even (x / 2 powi e') = m * 2 ^ nat (e - e')"
    by (simp only: round_half_even_of_int)
  then have "(of_int (round_half_even (x / 2 powi e')) :: rat) * 2 powi e' = of_int m * (2 powi (e - e') * 2 powi e')"
    using ee by (simp add: pow2_int)
  also have "\<dots> = x" by (simp add: assms(1) power_int_add[symmetric])
  finally show ?thesis using rnd_alt[OF False] assms(4) by (simp add: e'_def)
qed

lemma rnd_eval:
  assumes "2 powi k \<le> \<bar>x\<bar>" and "\<bar>x\<bar> < 2 powi (k + 1)" and "e = max (k - 52) (- 1074)"
    and "\<bar>of_int n - x / 2 powi e\<bar> < 1 / 2" and "\<bar>(of_int n :: rat) * 2 powi e\<bar> < 2 powi 1024"
  shows "rnd x = Fin (of_int n * 2 powi e)"
proof -
  have nz: "x \<noteq> 0" using assms(1) by (rule pow2_le_abs_nz)
  have "ilog2 x = k" using assms(1,2) by (rule ilog2_unique)
  then have e: "rexp x = e" by (simp add: rexp_def assms(3))
  have "round_half_even (x / 2 powi e) = n" using assms(4) by (rule round_half_even_eqI)
  then show ?thesis using rnd_alt[OF nz] assms(5) by (simp add: e)
qed

section \<open>Facts about the routes\<close>

lemma find_None_iff_image: "find (\<lambda>x. f x = k) xs = None \<longleftrightarrow> k \<notin> f ` set xs"
  by (auto simp: find_None_iff)



subsection \<open>Lists and lookups\<close>

lemma foldl_add_sum: "foldl (\<lambda>t d. t + f d) (a::int) xs = a + sum_list (map f xs)"
  by (induction xs arbitrary: a) auto

lemma find_Some_set: "find P xs = Some x \<Longrightarrow> x \<in> set xs \<and> P x"
  by (induction xs) (auto split: if_splits)

lemma find_append_fresh:
  "find P xs = Some x \<Longrightarrow> find P (xs @ ys) = Some x"
  by (induction xs) auto

lemma find_map_keep:
  "(\<And>x. P (g x) = P x) \<Longrightarrow> find P (map g xs) = map_option g (find P xs)"
  by (induction xs) auto

lemma find_filter_other:
  "(\<And>x. P x \<Longrightarrow> Q x) \<Longrightarrow> find P (filter Q xs) = find P xs"
  by (induction xs) auto

lemma distinct_map_same:
  "distinct (map f xs) \<Longrightarrow> x \<in> set xs \<Longrightarrow> y \<in> set xs \<Longrightarrow> f x = f y \<Longrightarrow> x = y"
  by (meson distinct_map inj_onD)

lemma find_session_None: "find_session db k = None \<longleftrightarrow> k \<notin> s_id ` set (sessions db)"
  by (simp add: find_session_def find_None_iff_image)

lemma find_user_None: "find_user db k = None \<longleftrightarrow> k \<notin> u_email ` set (users db)"
  by (simp add: find_user_def find_None_iff_image)

subsection \<open>Recomputing a session total\<close>

lemma update_session_calories_eq:
  "update_session_calories db sid =
     (if sqlite_integer (session_total db sid)
      then Inr (session_total db sid, recompute db sid) else Inl OverflowError)"
  by (simp add: update_session_calories_def session_total_def foldl_add_sum Let_def recompute_def)

lemma recompute_eq:
  "recompute db sid =
     db\<lparr>sessions := map (\<lambda>s. if s_id s = sid then s\<lparr>s_total_calories := session_total db sid\<rparr>
                              else s) (sessions db)\<rparr>"
  by (simp add: recompute_def)

lemma recompute_tables [simp]:
  "users (recompute db sid) = users db"
  "drinks (recompute db sid) = drinks db"
  "exercises (recompute db sid) = exercises db"
  "map s_id (sessions (recompute db sid)) = map s_id (sessions db)"
  "map s_user_email (sessions (recompute db sid)) = map s_user_email (sessions db)"
  by (simp_all add: recompute_eq comp_def)

lemma session_total_cong:
  "drinks db' = drinks db \<Longrightarrow> session_total db' k = session_total db k"
  by (simp add: session_total_def session_drinks_def)

lemma totals_ok_recompute:
  assumes "\<forall>s\<in>set (sessions db). s_id s \<noteq> sid \<longrightarrow> s_total_calories s = session_total db (s_id s)"
  shows "totals_ok (recompute db sid)"
proof -
  have t: "\<And>k. session_total (recompute db sid) k = session_total db k"
    by (rule session_total_cong) simp
  have "list_all (\<lambda>s. s_total_calories s = F (s_id s))
          (map (\<lambda>s. if s_id s = sid then s\<lparr>s_total_calories := F sid\<rparr> else s) xs)"
    if "\<forall>s\<in>set xs. s_id s \<noteq> sid \<longrightarrow> s_total_calories s = F (s_id s)" for xs F
    using that by (induction xs) auto
  from this[OF assms] show ?thesis
    by (simp add: totals_ok_def t) (simp add: recompute_eq)
qed

lemma session_total_append_same:
  "d_session_id row = k \<Longrightarrow>
   session_total (db\<lparr>drinks := drinks db @ [row]\<rparr>) k
     = session_total db k + d_calories row * d_count row"
  by (simp add: session_total_def session_drinks_def)

lemma session_total_append_other:
  "d_session_id row \<noteq> k \<Longrightarrow> session_total (db\<lparr>drinks := drinks db @ [row]\<rparr>) k = session_total db k"
  by (simp add: session_total_def session_drinks_def)

lemma session_drinks_set_count_other:
  assumes "\<forall>d\<in>set (drinks db). d_id d = did \<longrightarrow> d_session_id d \<noteq> k"
  shows "session_drinks (set_drink_count did n db) k = session_drinks db k"
proof -
  have "filter (\<lambda>d. d_session_id d = k)
          (map (\<lambda>d. if d_id d = did then d\<lparr>d_count := n\<rparr> else d) xs)
        = filter (\<lambda>d. d_session_id d = k) xs"
    if "\<forall>d\<in>set xs. d_id d = did \<longrightarrow> d_session_id d \<noteq> k" for xs
    using that by (induction xs) auto
  then show ?thesis using assms by (simp add: session_drinks_def set_drink_count_def)
qed

lemma session_drinks_delete_other:
  assumes "\<forall>d\<in>set (drinks db). d_id d = did \<longrightarrow> d_session_id d \<noteq> k"
  shows "session_drinks (delete_drink did db) k = session_drinks db k"
proof -
  have "filter (\<lambda>d. d_session_id d = k) (filter (\<lambda>d. d_id d \<noteq> did) xs)
        = filter (\<lambda>d. d_session_id d = k) xs"
    if "\<forall>d\<in>set xs. d_id d = did \<longrightarrow> d_session_id d \<noteq> k" for xs
    using that by (induction xs) auto
  then show ?thesis using assms by (simp add: session_drinks_def delete_drink_def)
qed

lemma find_drink_facts:
  assumes "find_drink db did sid user = Some row"
  shows "row \<in> set (drinks db)" "d_id row = did" "d_session_id row = sid"
    "owned_session db sid user \<noteq> None"
  using find_Some_set[OF assms[unfolded find_drink_def]] by auto

lemma find_drink_unique:
  assumes "find_drink db did sid user = Some row" and "distinct (map d_id (drinks db))"
    and "d \<in> set (drinks db)" and "d_id d = did"
  shows "d = row"
  using distinct_map_same[OF assms(2) assms(3) find_drink_facts(1)[OF assms(1)]]
    find_drink_facts(2)[OF assms(1)] assms(4) by simp

subsection \<open>Integer literals read as floats\<close>

lemma digitpart_ok_chars: "digitpart_ok ds \<Longrightarrow> c \<in> set ds \<Longrightarrow> is_digit c \<or> c = CHR ''_''"
  by (induction ds rule: digitpart_ok.induct) (auto split: if_splits)

lemma digitpart_ok_hd: "digitpart_ok ds \<Longrightarrow> ds \<noteq> [] \<and> is_digit (hd ds)"
  by (induction ds rule: digitpart_ok.induct) auto

lemma lower_digit: "is_digit c \<Longrightarrow> lower c = c"
  by (auto simp: is_digit_def lower_def Let_def)

lemma digitpart_not_word:
  assumes "digitpart_ok ds"
  shows "map lower ds \<noteq> ''inf''" "map lower ds \<noteq> ''infinity''" "map lower ds \<noteq> ''nan''"
proof -
  from digitpart_ok_hd[OF assms] obtain c cs where ds: "ds = c # cs" and c: "is_digit c"
    by (cases ds) auto
  have "lower c = c" using c by (rule lower_digit)
  moreover have "c \<noteq> CHR ''i''" "c \<noteq> CHR ''n''" using c by (auto simp: is_digit_def Let_def)
  ultimately show "map lower ds \<noteq> ''inf''" "map lower ds \<noteq> ''infinity''" "map lower ds \<noteq> ''nan''"
    by (simp_all add: ds)
qed

lemma split_at_none: "(\<And>c. c \<in> set s \<Longrightarrow> \<not> p c) \<Longrightarrow> split_at p s = (s, None)"
proof -
  assume a: "\<And>c. c \<in> set s \<Longrightarrow> \<not> p c"
  then have "dropWhile (\<lambda>c. \<not> p c) s = []" by (simp add: dropWhile_eq_Nil_conv)
  then show ?thesis by (simp only: split_at_def list.case)
qed

lemma decimal_value_digitpart:
  assumes "digitpart_ok ds"
  shows "decimal_value ds = Some (of_nat (digits_val ds))"
proof -
  have ch: "\<And>c. c \<in> set ds \<Longrightarrow> is_digit c \<or> c = CHR ''_''"
    using assms by (rule digitpart_ok_chars)
  have e: "split_at (\<lambda>c. c = CHR ''e'' \<or> c = CHR ''E'') ds = (ds, None)"
    by (rule split_at_none) (use ch[of "CHR ''e''"] ch[of "CHR ''E''"] in \<open>auto simp: is_digit_def Let_def\<close>)
  have p: "split_at (\<lambda>c. c = CHR ''.'') ds = (ds, None)"
    by (rule split_at_none) (use ch[of "CHR ''.''"] in \<open>auto simp: is_digit_def Let_def\<close>)
  show ?thesis
    by (simp add: decimal_value_def e decimal_mantissa_def p assms decimal_exponent_def)
qed

lemma split_sign_cases: "split_sign s = (sg, r) \<Longrightarrow> sg = 1 \<or> sg = - 1"
  by (auto simp: split_sign_def split: list.splits if_splits)

lemma py_float_of_int_literal:
  assumes "py_int s = Some n"
  shows "py_float s = Some (rnd (of_int n))"
proof -
  obtain sg ds where sp: "split_sign (strip s) = (sg, ds)" by (cases "split_sign (strip s)")
  from assms have ok: "digitpart_ok ds" and n: "n = sg * int (digits_val ds)"
    by (auto simp: py_int_def sp split: if_splits)
  have "(of_int n :: rat) = of_int sg * of_nat (digits_val ds)" by (simp add: n)
  then show ?thesis
    by (simp add: py_float_def sp digitpart_not_word[OF ok] decimal_value_digitpart[OF ok])
qed

lemma fle_one_rnd_int:
  assumes "fle (Fin 1) (rnd (of_int n))"
  shows "1 \<le> n"
proof (rule ccontr)
  assume "\<not> 1 \<le> n"
  then have "(of_int n :: rat) \<le> 0" by simp
  from rnd_nonpos[OF this] assms show False by auto
qed

lemma shots_count_ge1: "shots_count cs = Inr n \<Longrightarrow> 1 \<le> n"
  by (auto simp: shots_count_def py_float_of_int_literal fle_one_rnd_int
      split: option.splits if_splits)

subsection \<open>Responses\<close>

lemma status_simps [simp]:
  "status_of ((c, b), fs, db) = c"
  "status_of (error_response c m, fs, db) = c"
  "status_of (message_response m, fs, db) = 200"
  "status_of (unhandled e, fs, db) = 500"
  "db_of (r, fs, db) = db"
  "session_of (r, fs, db) = fs"
  by (simp_all add: status_of_def error_response_def message_response_def unhandled_def
      db_of_def session_of_def)

lemma add_exercise_error_status [simp]: "status_of (add_exercise_error e, fs, db) \<noteq> 200"
  by (simp add: add_exercise_error_def)

subsection \<open>What each route does to the store\<close>

lemma determine_properties_count:
  "determine_properties drink_type preset form = Inr dp \<Longrightarrow> 1 \<le> dp_count dp"
  by (auto simp: determine_properties_def Let_def shots_count_ge1 bind_def
      split: sum.splits if_splits prod.splits)

lemma determine_properties_error:
  "determine_properties drink_type preset form = Inl r \<Longrightarrow> fst r = 400"
  by (auto simp: determine_properties_def Let_def error_response_def
      split: sum.splits if_splits prod.splits)

lemma add_drink_result:
  "(\<exists>user drink_type preset dp calories.
       get_current_user_email fs = Some user \<and> owned_session db sid user \<noteq> None
       \<and> map_of form ''drink_type'' = Some drink_type
       \<and> map_of DRINK_PRESETS drink_type = Some preset
       \<and> determine_properties drink_type preset form = Inr dp
       \<and> calories_per_serving drink_type (dp_abv dp) (dp_volume_oz dp) = Inr calories
       \<and> find (\<lambda>d. d_id d = did) (drinks db) = None
       \<and> add_drink did sid form fs db
           = ((200, JObject [(''message'', JString ''Drink added''),
                             (''drink'', drink_json (new_drink_row did sid form dp calories))]),
              fs,
              recompute (db\<lparr>drinks := drinks db @ [new_drink_row did sid form dp calories]\<rparr>) sid)
       \<and> sqlite_integer calories \<and> sqlite_integer (dp_count dp)
       \<and> sqlite_integer
            (session_total (db\<lparr>drinks := drinks db @ [new_drink_row did sid form dp calories]\<rparr>)
               sid))
   \<or> (status_of (add_drink did sid form fs db) \<noteq> 200
       \<and> db_of (add_drink did sid form fs db) = db
       \<and> session_of (add_drink did sid form fs db) = fs)"
  by (auto simp: add_drink_def Let_def update_session_calories_eq new_drink_row_def
      dest: determine_properties_error split: option.splits sum.splits)

lemma update_drink_result:
  "(\<exists>user row.
       get_current_user_email fs = Some user \<and> find_drink db did sid user = Some row
       \<and> ((map_of data ''action'' = Some (JString ''increment'')
            \<and> update_drink sid did data fs db
                = ((200, JObject [(''id'', JString did), (''calories'', JInt (d_calories row)),
                                  (''message'', JString ''Drink count incremented''),
                                  (''count'', JInt (d_count row + 1))]),
                   fs, recompute (set_drink_count did (d_count row + 1) db) sid)
            \<and> sqlite_integer (d_count row + 1)
            \<and> sqlite_integer (session_total (set_drink_count did (d_count row + 1) db) sid))
          \<or> (map_of data ''action'' = Some (JString ''decrement'') \<and> d_count row - 1 \<le> 0
            \<and> update_drink sid did data fs db
                = ((200, JObject [(''message'', JString ''Drink removed''),
                                  (''removed_id'', JString did)]),
                   fs, recompute (delete_drink did db) sid)
            \<and> sqlite_integer (session_total (delete_drink did db) sid))
          \<or> (map_of data ''action'' = Some (JString ''decrement'') \<and> 0 < d_count row - 1
            \<and> update_drink sid did data fs db
                = ((200, JObject [(''id'', JString did), (''calories'', JInt (d_calories row)),
                                  (''message'', JString ''Drink count decremented''),
                                  (''count'', JInt (d_count row - 1))]),
                   fs, recompute (set_drink_count did (d_count row - 1) db) sid)
            \<and> sqlite_integer (d_count row - 1)
            \<and> sqlite_integer (session_total (set_drink_count did (d_count row - 1) db) sid))
          \<or> (map_of data ''action'' \<noteq> Some (JString ''increment'')
            \<and> map_of data ''action'' \<noteq> Some (JString ''decrement'')
            \<and> update_drink sid did data fs db
                = (error_response 400 ''Invalid action specified'', fs, db))
          \<or> update_drink sid did data fs db
              = (error_response 500 ''Internal server error'', fs, db)))
   \<or> ((get_current_user_email fs = None
        \<or> (\<exists>user. get_current_user_email fs = Some user \<and> find_drink db did sid user = None))
       \<and> status_of (update_drink sid did data fs db) \<noteq> 200
       \<and> db_of (update_drink sid did data fs db) = db
       \<and> session_of (update_drink sid did data fs db) = fs)"
  by (auto simp: update_drink_def Let_def update_session_calories_eq split: option.splits)

lemma met_of_Some:
  "met_of v = Inr (Some (t, met)) \<Longrightarrow> v = Some (JString t) \<and> map_of EXERCISE_METS t = Some met"
  by (auto simp: met_of_def split: option.splits json.splits)

lemma calculate_burned_calories_finite:
  assumes "calculate_burned_calories met w x = Inr c"
  shows "\<exists>a. x = Fin a"
proof (cases x)
  case (Fin a)
  then show ?thesis by simp
next
  case PInf
  with assms show ?thesis
    by (auto simp: calculate_burned_calories_def bind_def fdiv_def fmul_def py_round_def
        signed_inf_def fsign_def split: sum.splits pyfloat.splits if_splits)
next
  case NInf
  with assms show ?thesis
    by (auto simp: calculate_burned_calories_def bind_def fdiv_def fmul_def py_round_def
        signed_inf_def fsign_def split: sum.splits pyfloat.splits if_splits)
next
  case NaN
  with assms show ?thesis
    by (auto simp: calculate_burned_calories_def bind_def fdiv_def fmul_def py_round_def
        split: sum.splits pyfloat.splits if_splits)
qed

lemma stored_minutes_positive:
  assumes "calculate_burned_calories met w x = Inr c" and "\<not> fle x (Fin 0)"
  shows "positive_finite x"
proof -
  from calculate_burned_calories_finite[OF assms(1)] obtain a where "x = Fin a" ..
  with assms(2) show ?thesis by (simp add: positive_finite_def)
qed

lemma add_exercise_result:
  "(\<exists>user s u metrics weight_kg exercise_type met minutes calories_burned.
       get_current_user_email fs = Some user
       \<and> find_session db sid = Some s \<and> s_user_email s = user
       \<and> find_user db user = Some u \<and> u_metrics u = Some metrics
       \<and> map_of metrics ''weight_kg'' = Some weight_kg
       \<and> map_of data ''exercise_type'' = Some (JString exercise_type)
       \<and> map_of EXERCISE_METS exercise_type = Some met
       \<and> py_float_of (map_of data ''minutes'') = Inr minutes
       \<and> \<not> fle minutes (Fin 0)
       \<and> calculate_burned_calories met weight_kg minutes = Inr calories_burned
       \<and> find (\<lambda>e. e_id e = eid) (exercises db) = None
       \<and> add_exercise eid sid data fs db
           = ((200, JObject [(''message'', JString ''Exercise added''),
                             (''exercise'', exercise_json
                                (new_exercise_row eid sid exercise_type minutes calories_burned))]),
              fs,
              db\<lparr>exercises := exercises db
                    @ [new_exercise_row eid sid exercise_type minutes calories_burned]\<rparr>)
       \<and> sqlite_integer calories_burned)
   \<or> (status_of (add_exercise eid sid data fs db) \<noteq> 200
       \<and> db_of (add_exercise eid sid data fs db) = db
       \<and> session_of (add_exercise eid sid data fs db) = fs)"
  by (auto simp: add_exercise_def Let_def new_exercise_row_def dest!: met_of_Some
      split: option.splits sum.splits)

lemma update_exercise_result:
  assumes "get_current_user_email fs = Some user"
    and "find_exercise db eid sid user = Some row"
    and "find_user db user = Some u" and "u_metrics u = Some metrics"
    and "map_of metrics ''weight_kg'' = Some weight_kg"
    and "map_of EXERCISE_METS (e_type row) = Some met"
  shows "update_exercise sid eid data fs db =
     (case new_minutes_of (map_of data ''action'') (e_minutes row) of
        None \<Rightarrow> (error_response 400 ''Invalid action specified'', fs, db)
      | Some new_minutes \<Rightarrow>
          if fle new_minutes (Fin 0)
          then ((200, JObject [(''message'', JString ''Exercise removed''),
                               (''removed_id'', JString eid)]),
                fs, delete_exercise eid db)
          else (case calculate_burned_calories met weight_kg new_minutes of
                  Inl e \<Rightarrow> (error_response 500 ''Internal server error'', fs, db)
                | Inr new_calories_burned \<Rightarrow>
                    if \<not> sqlite_integer new_calories_burned
                    then (error_response 500 ''Internal server error'', fs, db)
                    else
                    ((200, JObject [(''id'', JString eid),
                                    (''message'', JString ''Exercise updated''),
                                    (''minutes'', JFloat new_minutes),
                                    (''calories_burned'', JInt new_calories_burned)]),
                     fs, set_exercise eid new_minutes new_calories_burned db)))"
  using assms
  by (auto simp: update_exercise_def Let_def new_minutes_of_def set_exercise_def delete_exercise_def
      split: sum.splits)

lemma update_exercise_db:
  "db_of (update_exercise sid eid data fs db) = db
   \<or> db_of (update_exercise sid eid data fs db) = delete_exercise eid db
   \<or> (\<exists>met w new c. \<not> fle new (Fin 0) \<and> calculate_burned_calories met w new = Inr c
        \<and> db_of (update_exercise sid eid data fs db) = set_exercise eid new c db)"
  by (auto simp: update_exercise_def Let_def set_exercise_def delete_exercise_def
      split: option.splits sum.splits)

section \<open>The invariants hold in every reachable store\<close>

subsection \<open>The invariants, unfolded\<close>

lemma keys_ok_iff:
  "keys_ok db \<longleftrightarrow> distinct (map u_email (users db)) \<and> distinct (map s_id (sessions db))
      \<and> distinct (map d_id (drinks db)) \<and> distinct (map e_id (exercises db))"
  by (simp add: keys_ok_def)

lemma refs_ok_iff:
  "refs_ok db \<longleftrightarrow> (\<forall>d\<in>set (drinks db). d_session_id d \<in> set (map s_id (sessions db)))
      \<and> (\<forall>e\<in>set (exercises db). e_session_id e \<in> set (map s_id (sessions db)))"
  by (simp add: refs_ok_def list_all_iff find_session_None)

lemma rows_ok_iff:
  "rows_ok db \<longleftrightarrow> (\<forall>d\<in>set (drinks db). 1 \<le> d_count d)
      \<and> (\<forall>e\<in>set (exercises db). positive_finite (e_minutes e)
             \<and> map_of EXERCISE_METS (e_type e) \<noteq> None
             \<and> owner_weight db (e_session_id e) \<noteq> None)"
  by (simp add: rows_ok_def list_all_iff)

lemma totals_ok_iff:
  "totals_ok db \<longleftrightarrow> (\<forall>s\<in>set (sessions db). s_total_calories s = session_total db (s_id s))"
  by (simp add: totals_ok_def list_all_iff)

lemma owner_weight_cong:
  assumes "users db' = users db"
    and "map_option s_user_email (find_session db' k) = map_option s_user_email (find_session db k)"
  shows "owner_weight db' k = owner_weight db k"
  using assms
  by (cases "find_session db' k"; cases "find_session db k")
     (auto simp: owner_weight_def find_user_def)

lemma find_session_recompute:
  "find_session (recompute db sid) k
     = map_option (\<lambda>s. if s_id s = sid then s\<lparr>s_total_calories := session_total db sid\<rparr> else s)
         (find_session db k)"
  unfolding find_session_def recompute_eq by (simp add: find_map_keep)

lemma owner_weight_recompute [simp]: "owner_weight (recompute db sid) k = owner_weight db k"
  by (rule owner_weight_cong) (auto simp: find_session_recompute option.map_comp comp_def
      intro!: option.map_cong)

lemma session_total_none:
  "\<forall>d\<in>set (drinks db). d_session_id d \<noteq> k \<Longrightarrow> session_total db k = 0"
  by (simp add: session_total_def session_drinks_def filter_False)

subsection \<open>The invariants under each change of the store\<close>

lemma db_ok_recompute_step:
  assumes keys: "keys_ok db'" and refs: "refs_ok db'" and rows: "rows_ok db'"
    and tot: "\<forall>s\<in>set (sessions db'). s_id s \<noteq> sid \<longrightarrow> s_total_calories s = session_total db' (s_id s)"
  shows "db_ok (recompute db' sid)"
proof -
  have "keys_ok (recompute db' sid)" using keys by (simp add: keys_ok_iff)
  moreover have "refs_ok (recompute db' sid)" using refs by (simp add: refs_ok_iff)
  moreover have "rows_ok (recompute db' sid)" using rows by (simp add: rows_ok_iff)
  moreover have "totals_ok (recompute db' sid)" using tot by (rule totals_ok_recompute)
  ultimately show ?thesis by (simp add: db_ok_def)
qed

lemma db_ok_insert_drink:
  assumes ok: "db_ok db" and fresh: "find (\<lambda>d. d_id d = d_id row) (drinks db) = None"
    and sess: "find_session db (d_session_id row) \<noteq> None" and cnt: "1 \<le> d_count row"
  shows "db_ok (recompute (db\<lparr>drinks := drinks db @ [row]\<rparr>) (d_session_id row))"
proof (rule db_ok_recompute_step)
  let ?db = "db\<lparr>drinks := drinks db @ [row]\<rparr>"
  have f: "d_id row \<notin> d_id ` set (drinks db)" using fresh by (simp add: find_None_iff_image)
  show "keys_ok ?db" using ok f by (simp add: db_ok_def keys_ok_iff)
  show "refs_ok ?db" using ok sess by (auto simp: db_ok_def refs_ok_iff find_session_None)
  have "\<And>k. owner_weight ?db k = owner_weight db k"
    by (rule owner_weight_cong) (simp_all add: find_session_def)
  then show "rows_ok ?db" using ok cnt by (auto simp: db_ok_def rows_ok_iff)
  show "\<forall>s\<in>set (sessions ?db). s_id s \<noteq> d_session_id row
          \<longrightarrow> s_total_calories s = session_total ?db (s_id s)"
    using ok by (auto simp: db_ok_def totals_ok_iff session_total_append_other)
qed

lemma db_ok_set_drink_count:
  assumes ok: "db_ok db" and row: "find_drink db did sid user = Some row" and cnt: "1 \<le> n"
  shows "db_ok (recompute (set_drink_count did n db) sid)"
proof (rule db_ok_recompute_step)
  let ?db = "set_drink_count did n db"
  have ids: "map d_id (drinks ?db) = map d_id (drinks db)"
    by (simp add: set_drink_count_def comp_def if_distrib cong: if_cong)
  have sids: "map d_session_id (drinks ?db) = map d_session_id (drinks db)"
    by (simp add: set_drink_count_def comp_def if_distrib cong: if_cong)
  have others: "users ?db = users db" "sessions ?db = sessions db" "exercises ?db = exercises db"
    by (simp_all add: set_drink_count_def)
  show "keys_ok ?db" using ok by (simp add: db_ok_def keys_ok_iff ids others)
  have "set (map d_session_id (drinks ?db)) = set (map d_session_id (drinks db))"
    by (simp only: sids)
  have "set (drinks ?db) = (\<lambda>d. if d_id d = did then d\<lparr>d_count := n\<rparr> else d) ` set (drinks db)"
    by (simp add: set_drink_count_def)
  then show "refs_ok ?db" using ok
    by (auto simp: db_ok_def refs_ok_iff others)
  have "\<And>k. owner_weight ?db k = owner_weight db k"
    by (rule owner_weight_cong) (simp_all add: find_session_def others)
  moreover have "\<forall>d\<in>set (drinks ?db). 1 \<le> d_count d"
    using ok cnt by (auto simp: db_ok_def rows_ok_iff set_drink_count_def)
  ultimately show "rows_ok ?db" using ok
    by (simp add: db_ok_def rows_ok_iff others)
  have uniq: "\<forall>d\<in>set (drinks db). d_id d = did \<longrightarrow> d_session_id d = sid"
    using find_drink_unique[OF row] find_drink_facts(3)[OF row] ok
    by (auto simp: db_ok_def keys_ok_iff)
  show "\<forall>s\<in>set (sessions ?db). s_id s \<noteq> sid
          \<longrightarrow> s_total_calories s = session_total ?db (s_id s)"
  proof (intro ballI impI)
    fix s assume s: "s \<in> set (sessions ?db)" and ne: "s_id s \<noteq> sid"
    have "session_drinks ?db (s_id s) = session_drinks db (s_id s)"
      by (rule session_drinks_set_count_other) (use uniq ne in auto)
    then have "session_total ?db (s_id s) = session_total db (s_id s)"
      by (simp add: session_total_def)
    then show "s_total_calories s = session_total ?db (s_id s)"
      using ok s by (simp add: db_ok_def totals_ok_iff others)
  qed
qed

lemma db_ok_delete_drink:
  assumes ok: "db_ok db" and row: "find_drink db did sid user = Some row"
  shows "db_ok (recompute (delete_drink did db) sid)"
proof (rule db_ok_recompute_step)
  let ?db = "delete_drink did db"
  have others: "users ?db = users db" "sessions ?db = sessions db" "exercises ?db = exercises db"
    by (simp_all add: delete_drink_def)
  have sub: "set (drinks ?db) \<subseteq> set (drinks db)" by (auto simp: delete_drink_def)
  show "keys_ok ?db" using ok
    by (simp add: db_ok_def keys_ok_iff others) (simp add: delete_drink_def distinct_map_filter)
  show "refs_ok ?db" using ok sub by (auto simp: db_ok_def refs_ok_iff others)
  have "\<And>k. owner_weight ?db k = owner_weight db k"
    by (rule owner_weight_cong) (simp_all add: find_session_def others)
  then show "rows_ok ?db" using ok sub by (auto simp: db_ok_def rows_ok_iff others)
  have uniq: "\<forall>d\<in>set (drinks db). d_id d = did \<longrightarrow> d_session_id d = sid"
    using find_drink_unique[OF row] find_drink_facts(3)[OF row] ok
    by (auto simp: db_ok_def keys_ok_iff)
  show "\<forall>s\<in>set (sessions ?db). s_id s \<noteq> sid
          \<longrightarrow> s_total_calories s = session_total ?db (s_id s)"
  proof (intro ballI impI)
    fix s assume s: "s \<in> set (sessions ?db)" and ne: "s_id s \<noteq> sid"
    have "session_drinks ?db (s_id s) = session_drinks db (s_id s)"
      by (rule session_drinks_delete_other) (use uniq ne in auto)
    then have "session_total ?db (s_id s) = session_total db (s_id s)"
      by (simp add: session_total_def)
    then show "s_total_calories s = session_total ?db (s_id s)"
      using ok s by (simp add: db_ok_def totals_ok_iff others)
  qed
qed

lemma find_append_keep: "find P xs \<noteq> None \<Longrightarrow> find P (xs @ ys) = find P xs"
  by (induction xs) auto

lemma owner_weight_keep:
  assumes "owner_weight db k \<noteq> None"
    and "\<And>s. find_session db k = Some s \<Longrightarrow>
           \<exists>s'. find_session db' k = Some s' \<and> s_user_email s' = s_user_email s"
    and "\<And>e u m. find_user db e = Some u \<Longrightarrow> u_metrics u = Some m \<Longrightarrow>
           map_of m ''weight_kg'' \<noteq> None \<Longrightarrow>
           \<exists>u' m'. find_user db' e = Some u' \<and> u_metrics u' = Some m'
                   \<and> map_of m' ''weight_kg'' \<noteq> None"
  shows "owner_weight db' k \<noteq> None"
proof -
  from assms(1) obtain s u m where s: "find_session db k = Some s"
    and u: "find_user db (s_user_email s) = Some u" and m: "u_metrics u = Some m"
    and w: "map_of m ''weight_kg'' \<noteq> None"
    by (auto simp: owner_weight_def split: option.splits)
  from assms(2)[OF s] obtain s' where s': "find_session db' k = Some s'"
    "s_user_email s' = s_user_email s" by blast
  from assms(3)[OF u m w] obtain u' m' where "find_user db' (s_user_email s) = Some u'"
    "u_metrics u' = Some m'" "map_of m' ''weight_kg'' \<noteq> None" by blast
  then show ?thesis using s' by (simp add: owner_weight_def)
qed

lemma db_ok_register: "db_ok db \<Longrightarrow> db_ok (db_of (register email password fs db))"
proof (cases "find_user db email")
  case (Some u)
  assume "db_ok db"
  then show ?thesis using Some by (simp add: register_def)
next
  case None
  assume ok: "db_ok db"
  let ?db = "db\<lparr>users := users db @ [\<lparr>u_email = email, u_password = password, u_metrics = None\<rparr>]\<rparr>"
  have out: "db_of (register email password fs db) = ?db" using None by (simp add: register_def)
  have "keys_ok ?db" using ok None by (simp add: db_ok_def keys_ok_iff find_user_None)
  moreover have "refs_ok ?db" using ok by (simp add: db_ok_def refs_ok_iff)
  moreover have "owner_weight ?db k \<noteq> None" if "owner_weight db k \<noteq> None" for k
    using that
  proof (rule owner_weight_keep)
    show "\<exists>s'. find_session ?db k = Some s' \<and> s_user_email s' = s_user_email s"
      if "find_session db k = Some s" for s
      using that by (simp add: find_session_def)
    show "\<exists>u' m'. find_user ?db e = Some u' \<and> u_metrics u' = Some m'
                   \<and> map_of m' ''weight_kg'' \<noteq> None"
      if "find_user db e = Some u" "u_metrics u = Some m" "map_of m ''weight_kg'' \<noteq> None"
      for e u m
      using that by (simp add: find_user_def find_append_fresh)
  qed
  then have "rows_ok ?db" using ok by (simp add: db_ok_def rows_ok_iff)
  moreover have "totals_ok ?db" using ok
    by (simp add: db_ok_def totals_ok_iff session_total_cong[of ?db db])
  ultimately show ?thesis by (simp add: out db_ok_def)
qed

lemma required_weight:
  "list_all (\<lambda>field. map_of data field \<noteq> None) required_fields \<Longrightarrow>
   map_of data ''weight_kg'' \<noteq> None"
  by (simp add: required_fields_def)

lemma db_ok_set_user_metrics: "db_ok db \<Longrightarrow> db_ok (db_of (set_user_metrics data fs db))"
proof -
  assume ok: "db_ok db"
  show ?thesis
  proof (cases "\<exists>user. get_current_user_email fs = Some user
                  \<and> list_all (\<lambda>field. map_of data field \<noteq> None) required_fields")
    case False
    then have "db_of (set_user_metrics data fs db) = db"
      by (auto simp: set_user_metrics_def split: option.splits)
    then show ?thesis using ok by simp
  next
    case True
    then obtain user where user: "get_current_user_email fs = Some user"
      and req: "list_all (\<lambda>field. map_of data field \<noteq> None) required_fields" by blast
    let ?g = "\<lambda>u. if u_email u = user then u\<lparr>u_metrics := Some data\<rparr> else u"
    let ?db = "db\<lparr>users := map ?g (users db)\<rparr>"
    have out: "db_of (set_user_metrics data fs db) = ?db"
      using user req by (simp add: set_user_metrics_def)
    have em: "map u_email (map ?g (users db)) = map u_email (users db)"
      by (simp add: comp_def if_distrib cong: if_cong)
    have "keys_ok ?db" using ok by (simp add: db_ok_def keys_ok_iff em del: map_map)
    moreover have "refs_ok ?db" using ok by (simp add: db_ok_def refs_ok_iff)
    moreover have "owner_weight ?db k \<noteq> None" if "owner_weight db k \<noteq> None" for k
      using that
    proof (rule owner_weight_keep)
      show "\<exists>s'. find_session ?db k = Some s' \<and> s_user_email s' = s_user_email s"
        if "find_session db k = Some s" for s
        using that by (simp add: find_session_def)
      show "\<exists>u' m'. find_user ?db e = Some u' \<and> u_metrics u' = Some m'
                     \<and> map_of m' ''weight_kg'' \<noteq> None"
        if "find_user db e = Some u" "u_metrics u = Some m" "map_of m ''weight_kg'' \<noteq> None"
        for e u m
      proof -
        have "find_user ?db e = map_option ?g (find_user db e)"
          unfolding find_user_def by (simp add: find_map_keep)
        then show ?thesis using that required_weight[OF req] by simp
      qed
    qed
    then have "rows_ok ?db" using ok by (simp add: db_ok_def rows_ok_iff)
    moreover have "totals_ok ?db" using ok
      by (simp add: db_ok_def totals_ok_iff session_total_cong[of ?db db])
    ultimately show ?thesis by (simp add: out db_ok_def)
  qed
qed

lemma db_ok_create_session:
  "db_ok db \<Longrightarrow> db_ok (db_of (create_session sid default_name now name fs db))"
proof -
  assume ok: "db_ok db"
  show ?thesis
  proof (cases "\<exists>user. get_current_user_email fs = Some user \<and> find_session db sid = None")
    case False
    then have "db_of (create_session sid default_name now name fs db) = db"
      by (auto simp: create_session_def Let_def split: option.splits)
    then show ?thesis using ok by simp
  next
    case True
    then obtain user where user: "get_current_user_email fs = Some user"
      and fresh: "find_session db sid = None" by blast
    define row where "row = \<lparr>s_id = sid, s_user_email = user,
        s_name = (case name of None \<Rightarrow> default_name | Some n \<Rightarrow> n),
        s_date = now, s_total_calories = 0\<rparr>"
    let ?db = "db\<lparr>sessions := sessions db @ [row]\<rparr>"
    have out: "db_of (create_session sid default_name now name fs db) = ?db"
      using user fresh by (simp add: create_session_def Let_def row_def)
    have nid: "sid \<notin> s_id ` set (sessions db)" using fresh by (simp add: find_session_None)
    have "keys_ok ?db" using ok nid by (simp add: db_ok_def keys_ok_iff row_def)
    moreover have "refs_ok ?db" using ok by (auto simp: db_ok_def refs_ok_iff)
    moreover have "owner_weight ?db k \<noteq> None" if "owner_weight db k \<noteq> None" for k
      using that
    proof (rule owner_weight_keep)
      show "\<exists>s'. find_session ?db k = Some s' \<and> s_user_email s' = s_user_email s"
        if "find_session db k = Some s" for s
        using that by (simp add: find_session_def find_append_fresh)
      show "\<exists>u' m'. find_user ?db e = Some u' \<and> u_metrics u' = Some m'
                     \<and> map_of m' ''weight_kg'' \<noteq> None"
        if "find_user db e = Some u" "u_metrics u = Some m" "map_of m ''weight_kg'' \<noteq> None"
        for e u m
        using that by (simp add: find_user_def)
    qed
    then have "rows_ok ?db" using ok by (simp add: db_ok_def rows_ok_iff)
    moreover have "totals_ok ?db"
    proof -
      have t: "\<And>k. session_total ?db k = session_total db k"
        by (rule session_total_cong) simp
      have "\<forall>d\<in>set (drinks db). d_session_id d \<noteq> sid"
        using ok nid by (auto simp: db_ok_def refs_ok_iff)
      then have z: "session_total db sid = 0" by (rule session_total_none)
      have r0: "s_total_calories row = 0" "s_id row = sid" by (simp_all add: row_def)
      show ?thesis using ok by (simp add: db_ok_def totals_ok_iff t r0 z)
    qed
    ultimately show ?thesis by (simp add: out db_ok_def)
  qed
qed

lemma db_ok_delete_session: "db_ok db \<Longrightarrow> db_ok (db_of (delete_session sid fs db))"
proof -
  assume ok: "db_ok db"
  let ?db = "db\<lparr>drinks := filter (\<lambda>d. d_session_id d \<noteq> sid) (drinks db),
                exercises := filter (\<lambda>e. e_session_id e \<noteq> sid) (exercises db),
                sessions := filter (\<lambda>s. s_id s \<noteq> sid) (sessions db)\<rparr>"
  have cases: "db_of (delete_session sid fs db) = db \<or> db_of (delete_session sid fs db) = ?db"
    by (auto simp: delete_session_def split: option.splits)
  have "keys_ok ?db" using ok by (simp add: db_ok_def keys_ok_iff distinct_map_filter)
  moreover have "refs_ok ?db" using ok by (auto simp: db_ok_def refs_ok_iff)
  moreover have "owner_weight ?db k = owner_weight db k" if "k \<noteq> sid" for k
  proof (rule owner_weight_cong)
    show "users ?db = users db" by simp
    have "find_session ?db k = find_session db k"
      unfolding find_session_def using that by (simp add: find_filter_other)
    then show "map_option s_user_email (find_session ?db k)
                 = map_option s_user_email (find_session db k)" by simp
  qed
  then have "rows_ok ?db" using ok by (auto simp: db_ok_def rows_ok_iff)
  moreover have "totals_ok ?db"
  proof -
    have "session_total ?db k = session_total db k" if "k \<noteq> sid" for k
    proof -
      have "filter (\<lambda>d. d_session_id d = k) (filter (\<lambda>d. d_session_id d \<noteq> sid) xs)
              = filter (\<lambda>d. d_session_id d = k) xs" for xs :: "drink_row list"
        using that by (induction xs) auto
      then show ?thesis by (simp add: session_total_def session_drinks_def)
    qed
    then show ?thesis using ok by (auto simp: db_ok_def totals_ok_iff)
  qed
  ultimately have "db_ok ?db" by (simp add: db_ok_def)
  then show ?thesis using cases ok by auto
qed

lemma db_ok_add_drink: "db_ok db \<Longrightarrow> db_ok (db_of (add_drink did sid form fs db))"
proof -
  assume ok: "db_ok db"
  from add_drink_result[of fs db sid form did] show ?thesis
  proof (elim disjE exE conjE, goal_cases)
    case (1 user drink_type preset dp calories)
    let ?row = "new_drink_row did sid form dp calories"
    have r: "d_id ?row = did" "d_session_id ?row = sid" "d_count ?row = dp_count dp"
      by (simp_all add: new_drink_row_def)
    from 1(2) obtain s where "s \<in> set (sessions db)" "s_id s = sid"
      by (auto simp: owned_session_def dest: find_Some_set)
    then have sess: "find_session db sid \<noteq> None" by (auto simp: find_session_None)
    have "db_ok (recompute (db\<lparr>drinks := drinks db @ [?row]\<rparr>) (d_session_id ?row))"
      by (rule db_ok_insert_drink) (use ok 1(7) sess determine_properties_count[OF 1(5)] r in auto)
    then show ?case by (simp add: 1(8) r)
  next
    case 2
    then show ?case using ok by simp
  qed
qed

lemma db_ok_update_drink: "db_ok db \<Longrightarrow> db_ok (db_of (update_drink sid did data fs db))"
proof -
  assume ok: "db_ok db"
  have cnt: "1 \<le> d_count row" if "find_drink db did sid user = Some row" for user row
    using find_drink_facts(1)[OF that] ok by (auto simp: db_ok_def rows_ok_iff)
  from update_drink_result[of fs db did sid data] show ?thesis
  proof (elim disjE exE conjE, goal_cases)
    case (1 user row)
    have "db_ok (recompute (set_drink_count did (d_count row + 1) db) sid)"
      by (rule db_ok_set_drink_count[OF ok 1(2)]) (use cnt[OF 1(2)] in simp)
    then show ?case by (simp add: 1(4))
  next
    case (2 user row)
    have "db_ok (recompute (delete_drink did db) sid)"
      by (rule db_ok_delete_drink[OF ok 2(2)])
    then show ?case by (simp add: 2(5))
  next
    case (3 user row)
    have "db_ok (recompute (set_drink_count did (d_count row - 1) db) sid)"
      by (rule db_ok_set_drink_count[OF ok 3(2)]) (use 3(4) in simp)
    then show ?case by (simp add: 3(5))
  next
    case (4 user row)
    then show ?case using ok by simp
  next
    case (5 user row)
    then show ?case using ok by simp
  next
    case 6
    then show ?case using ok by simp
  next
    case 7
    then show ?case using ok by simp
  qed
qed

lemma db_ok_add_exercise: "db_ok db \<Longrightarrow> db_ok (db_of (add_exercise eid sid data fs db))"
proof -
  assume ok: "db_ok db"
  from add_exercise_result[of fs db sid data eid] show ?thesis
  proof (elim disjE exE conjE, goal_cases)
    case (1 user s u metrics weight_kg exercise_type met minutes calories_burned)
    let ?row = "new_exercise_row eid sid exercise_type minutes calories_burned"
    let ?db = "db\<lparr>exercises := exercises db @ [?row]\<rparr>"
    have r: "e_id ?row = eid" "e_session_id ?row = sid" "e_type ?row = exercise_type"
      "e_minutes ?row = minutes" by (simp_all add: new_exercise_row_def)
    have fresh: "eid \<notin> e_id ` set (exercises db)" using 1(12) by (simp add: find_None_iff_image)
    have sess: "sid \<in> s_id ` set (sessions db)"
      using 1(2) find_session_None[of db sid] by auto
    have ow: "\<And>k. owner_weight ?db k = owner_weight db k"
      by (rule owner_weight_cong) (simp_all add: find_session_def)
    have w: "owner_weight db sid \<noteq> None"
      using 1(2,3,4,5,6) by (simp add: owner_weight_def)
    have pos: "positive_finite minutes" using 1(11,10) by (rule stored_minutes_positive)
    have "keys_ok ?db" using ok fresh by (simp add: db_ok_def keys_ok_iff r)
    moreover have "refs_ok ?db" using ok sess by (auto simp: db_ok_def refs_ok_iff r)
    moreover have "rows_ok ?db" using ok w pos 1(8) by (auto simp: db_ok_def rows_ok_iff ow r)
    moreover have "totals_ok ?db" using ok
      by (simp add: db_ok_def totals_ok_iff session_total_cong[of ?db db])
    ultimately show ?case by (simp add: 1(13) db_ok_def)
  next
    case 2
    then show ?case using ok by simp
  qed
qed

lemma db_ok_delete_exercise: "db_ok db \<Longrightarrow> db_ok (delete_exercise eid db)"
proof -
  assume ok: "db_ok db"
  let ?db = "delete_exercise eid db"
  have others: "users ?db = users db" "sessions ?db = sessions db" "drinks ?db = drinks db"
    by (simp_all add: delete_exercise_def)
  have sub: "set (exercises ?db) \<subseteq> set (exercises db)" by (auto simp: delete_exercise_def)
  have ow: "\<And>k. owner_weight ?db k = owner_weight db k"
    by (rule owner_weight_cong) (simp_all add: find_session_def others)
  have "keys_ok ?db" using ok
    by (simp add: db_ok_def keys_ok_iff others) (simp add: delete_exercise_def distinct_map_filter)
  moreover have "refs_ok ?db" using ok sub by (auto simp: db_ok_def refs_ok_iff others)
  moreover have "rows_ok ?db" using ok sub by (auto simp: db_ok_def rows_ok_iff others ow)
  moreover have "totals_ok ?db" using ok
    by (simp add: db_ok_def totals_ok_iff session_total_cong[of ?db db] others)
  ultimately show ?thesis by (simp add: db_ok_def)
qed

lemma db_ok_set_exercise:
  assumes ok: "db_ok db" and pos: "positive_finite new"
  shows "db_ok (set_exercise eid new c db)"
proof -
  let ?g = "\<lambda>e. if e_id e = eid then e\<lparr>e_minutes := new, e_calories_burned := c\<rparr> else e"
  let ?db = "set_exercise eid new c db"
  have others: "users ?db = users db" "sessions ?db = sessions db" "drinks ?db = drinks db"
    by (simp_all add: set_exercise_def)
  have ex: "exercises ?db = map ?g (exercises db)" by (simp add: set_exercise_def)
  have ids: "map e_id (exercises ?db) = map e_id (exercises db)"
    by (simp add: ex comp_def if_distrib cong: if_cong)
  have ow: "\<And>k. owner_weight ?db k = owner_weight db k"
    by (rule owner_weight_cong) (simp_all add: find_session_def others)
  have "keys_ok ?db" using ok by (simp add: db_ok_def keys_ok_iff others ids)
  moreover have "refs_ok ?db" using ok by (auto simp: db_ok_def refs_ok_iff others ex)
  moreover have "rows_ok ?db" using ok pos by (auto simp: db_ok_def rows_ok_iff others ow ex)
  moreover have "totals_ok ?db" using ok
    by (simp add: db_ok_def totals_ok_iff session_total_cong[of ?db db] others)
  ultimately show ?thesis by (simp add: db_ok_def)
qed

lemma db_ok_update_exercise:
  "db_ok db \<Longrightarrow> db_ok (db_of (update_exercise sid eid data fs db))"
  using update_exercise_db[of sid eid data fs db]
  by (auto intro: db_ok_delete_exercise intro!: db_ok_set_exercise
      elim: stored_minutes_positive)

lemma db_ok_empty: "db_ok empty_db"
  by (simp add: db_ok_def keys_ok_def refs_ok_def rows_ok_def totals_ok_def empty_db_def)

lemma reachable_db_ok: "reachable db \<Longrightarrow> db_ok db"
proof (induction rule: reachable.induct)
  case init
  show ?case by (rule db_ok_empty)
next
  case (by_register db email password fs)
  then show ?case by (simp add: db_ok_register)
next
  case (by_set_user_metrics db data fs)
  then show ?case by (simp add: db_ok_set_user_metrics)
next
  case (by_create_session db session_id default_name current_time name fs)
  then show ?case by (simp add: db_ok_create_session)
next
  case (by_delete_session db session_id fs)
  then show ?case by (simp add: db_ok_delete_session)
next
  case (by_add_drink db drink_id session_id form fs)
  then show ?case by (simp add: db_ok_add_drink)
next
  case (by_update_drink db session_id drink_id data fs)
  then show ?case by (simp add: db_ok_update_drink)
next
  case (by_add_exercise db exercise_id session_id data fs)
  then show ?case by (simp add: db_ok_add_exercise)
next
  case (by_update_exercise db session_id exercise_id data fs)
  then show ?case by (simp add: db_ok_update_exercise)
qed


section \<open>Values of the examples\<close>

subsection \<open>Floats of the examples\<close>

lemma rnd_int_exact: "\<bar>m\<bar> < 2 ^ 53 \<Longrightarrow> rnd (of_int m) = Fin (of_int m)"
proof -
  assume m: "\<bar>m\<bar> < 2 ^ 53"
  then have "\<bar>(of_int m :: rat)\<bar> < 2 ^ 53"
    by (metis of_int_abs of_int_less_numeral_power_cancel_iff)
  moreover have "(2::rat) ^ 53 < 2 powi 1024" by simp
  ultimately have b: "\<bar>(of_int m :: rat)\<bar> < 2 powi 1024" by linarith
  show ?thesis by (rule rnd_exact[where m=m and e=0]) (use m b in simp_all)
qed

lemma oz_to_litre_value: "oz_to_litre = Fin (8523981029122647 / 288230376151711744)"
proof -
  have "rnd (295735 / 10000000) = Fin (of_int 8523981029122647 * 2 powi (- 58))"
    by (rule rnd_eval[where k="- 6"]) (simp_all add: power_int_minus)
  then show ?thesis by (simp add: oz_to_litre_def power_int_minus)
qed

lemma beer_volume_L:
  "fmul (Fin 12) oz_to_litre = Fin (6392985771841985 / 18014398509481984)"
proof -
  have "rnd (12 * (8523981029122647 / 288230376151711744))
          = Fin (of_int 6392985771841985 * 2 powi (- 54))"
    by (rule rnd_eval[where k="- 2"]) (simp_all add: power_int_minus)
  then show ?thesis by (simp add: fmul_def oz_to_litre_value power_int_minus)
qed

lemma beer_fraction: "fdiv (Fin 5) (Fin 100) = Inr (Fin (3602879701896397 / 72057594037927936))"
proof -
  have "rnd (5 / 100) = Fin (of_int 7205759403792794 * 2 powi (- 57))"
    by (rule rnd_eval[where k="- 5"]) (simp_all add: power_int_minus)
  then show ?thesis by (simp add: fdiv_def power_int_minus)
qed

lemma beer_product_1:
  "fmul (Fin (6392985771841985 / 18014398509481984)) (Fin (3602879701896397 / 72057594037927936))
     = Fin (1278597154368397 / 72057594037927936)"
proof -
  have "rnd (6392985771841985 / 18014398509481984 * (3602879701896397 / 72057594037927936))
          = Fin (of_int 5114388617473588 * 2 powi (- 58))"
    by (rule rnd_eval[where k="- 6"]) (simp_all add: power_int_minus)
  then show ?thesis by (simp add: fmul_def power_int_minus)
qed

lemma beer_product_2:
  "fmul (Fin (1278597154368397 / 72057594037927936)) (Fin 789)
     = Fin (7881352771848947 / 562949953421312)"
proof -
  have "rnd (1278597154368397 / 72057594037927936 * 789)
          = Fin (of_int 7881352771848947 * 2 powi (- 49))"
    by (rule rnd_eval[where k=3]) (simp_all add: power_int_minus)
  then show ?thesis by (simp add: fmul_def power_int_minus)
qed

lemma beer_product_3:
  "fmul (Fin (7881352771848947 / 562949953421312)) (Fin 7)
     = Fin (6896183675367829 / 70368744177664)"
proof -
  have "rnd (7881352771848947 / 562949953421312 * 7)
          = Fin (of_int 6896183675367829 * 2 powi (- 46))"
    by (rule rnd_eval[where k=6]) (simp_all add: power_int_minus)
  then show ?thesis by (simp add: fmul_def power_int_minus)
qed

lemma beer_round: "py_round (Fin (6896183675367829 / 70368744177664)) = Inr 98"
proof -
  have "round_half_even (6896183675367829 / 70368744177664) = 98"
    by (rule round_half_even_eqI) simp
  then show ?thesis by (simp add: py_round_def)
qed

lemma calculate_calories_beer: "calculate_calories (Fin 5) (Fin 12) = Inr 98"
  by (simp add: calculate_calories_def Let_def bind_def beer_volume_L beer_fraction
      beer_product_1 beer_product_2 beer_product_3 beer_round)

lemma rnd_numeral: "(numeral n :: int) < 2 ^ 53 \<Longrightarrow> rnd (numeral n) = Fin (numeral n)"
  using rnd_int_exact[of "numeral n"] by simp

lemma rnd_one: "rnd 1 = Fin 1"
  using rnd_int_exact[of 1] by simp

lemmas parse_defs =
  py_float_def py_int_def strip_def is_space_def split_sign_def Let_def decimal_value_def
  split_at_def decimal_mantissa_def decimal_exponent_def digits_val_def digits_of_def
  digit_val_def is_digit_def lower_def

lemma py_float_5_0: "py_float ''5.0'' = Some (Fin 5)"
  by (simp add: parse_defs rnd_numeral)

lemma py_float_12: "py_float ''12'' = Some (Fin 12)"
  by (simp add: parse_defs rnd_numeral)





lemma demo_user: "get_current_user_email demo_session = Some ''ann@example.org''"
  by (simp add: get_current_user_email_def demo_session_def)

lemma demo_owned:
  "owned_session demo_db ''s1'' ''ann@example.org''
     = Some \<lparr>s_id = ''s1'', s_user_email = ''ann@example.org'', s_name = ''Friday'',
             s_date = ''2024-05-03T20:00:00Z'', s_total_calories = 418\<rparr>"
  by (simp add: owned_session_def demo_db_def)

lemma beer_properties:
  "determine_properties ''beer'' \<lparr>p_name = ''Standard Beer'', p_abv = Fin 5, p_volume_oz = Fin 12\<rparr>
     beer_form
   = Inr \<lparr>dp_abv = Fin 5, dp_volume_oz = Fin 12, dp_count = 1, dp_base_name = ''Standard Beer'',
          dp_name_details = ''(12.0oz, 5.0%)''\<rparr>"
proof -
  have f: "format_1f (Fin 12) = ''12.0''" "format_1f (Fin 5) = ''5.0''"
    by (simp_all add: format_1f_def Let_def round_half_even_def char_of_eq_iff)
  show ?thesis
    by (simp add: determine_properties_def Let_def beer_form_def form_float_def bind_def
        py_float_5_0 py_float_12 f)
qed

lemma beer_calories: "calories_per_serving ''beer'' (Fin 5) (Fin 12) = Inr 118"
  by (simp add: calories_per_serving_def bind_def calculate_calories_beer Let_def)

lemma demo_session_total: "session_total demo_db ''s1'' = 418"
  by (simp add: session_total_def session_drinks_def demo_db_def)

lemma add_beer_status: "status_of (add_drink ''d3'' ''s1'' beer_form demo_session demo_db) = 200"
proof -
  have t: "map_of beer_form ''drink_type'' = Some ''beer''" by (simp add: beer_form_def)
  have p: "map_of DRINK_PRESETS ''beer''
             = Some \<lparr>p_name = ''Standard Beer'', p_abv = Fin 5, p_volume_oz = Fin 12\<rparr>"
    by (simp add: DRINK_PRESETS_def)
  have d: "find (\<lambda>d. d_id d = ''d3'') (drinks demo_db) = None" by (simp add: demo_db_def)
  show ?thesis
    by (simp add: add_drink_def demo_user demo_owned t p beer_properties beer_calories d Let_def
        update_session_calories_eq session_total_append_same demo_session_total
        sqlite_integer_def)
qed

section \<open>Calories of a serving, by cases\<close>

lemma calories_per_serving_cases:
  "calories_per_serving t a v =
     (case calculate_calories a v of
        Inl e \<Rightarrow> Inl e
      | Inr k \<Rightarrow> Inr ((if t = ''shot_spirit'' \<or> t = ''mixed_drink'' \<or> t = ''mixed_drink_diet''
                       then 100 else k) + serving_offset t))"
proof (cases "calculate_calories a v")
  case (Inl e)
  then show ?thesis by (simp add: calories_per_serving_def bind_def)
next
  case (Inr k)
  have "t = ''mixed_drink'' \<or> t = ''beer'' \<or> t = ''wine'' \<or> t = ''ipa''
        \<or> (t \<noteq> ''mixed_drink'' \<and> t \<noteq> ''beer'' \<and> t \<noteq> ''wine'' \<and> t \<noteq> ''ipa'')" by blast
  then show ?thesis
    by (elim disjE conjE)
       (simp_all add: calories_per_serving_def bind_def Inr Let_def serving_offset_def)
qed

section \<open>Bounds of rounded values\<close>

lemma rnd_bounded:
  assumes "0 \<le> x" and "x \<le> 2 powi k" and "- 1074 \<le> k" and "k \<le> 1023"
  shows "\<exists>r. rnd x = Fin r \<and> 0 \<le> r \<and> r \<le> 2 powi k"
proof (cases "x = 0")
  case True
  have "0 \<le> (2::rat) powi k" using pow2_pos[of k] by simp
  then show ?thesis using True by (simp add: rnd_def)
next
  case False
  with assms(1) have "0 < x" by simp
  then show ?thesis using assms(2,3,4) by (rule rnd_upper)
qed

lemma oz_to_litre_small: "8523981029122647 / 288230376151711744 \<le> (2::rat) powi (- 5)"
  by (simp add: power_int_minus)

lemma pow2_mult: "(2::rat) powi a * 2 powi b = 2 powi (a + b)"
  by (simp add: power_int_add)

lemma fmul_Fin: "fmul (Fin a) (Fin b) = rnd (a * b)"
  by (simp add: fmul_def)

lemma round_half_even_minus: "round_half_even (- x) = - round_half_even x"
proof (cases "x = of_int \<lfloor>x\<rfloor>")
  case True
  then obtain n where "x = of_int n" ..
  then have "- x = of_int (- n)" by simp
  then show ?thesis using \<open>x = of_int n\<close> by (simp only: round_half_even_of_int)
next
  case False
  have b: "of_int \<lfloor>x\<rfloor> < x" "x < of_int \<lfloor>x\<rfloor> + 1" using False by linarith+
  have f: "\<lfloor>- x\<rfloor> = - \<lfloor>x\<rfloor> - 1" using b by (intro floor_unique) simp_all
  show ?thesis using b by (auto simp: round_half_even_def Let_def f)
qed

lemma ilog2_minus: "ilog2 (- x) = ilog2 x"
  by (simp add: ilog2_def)

lemma rnd_minus: "rnd (- x) = fneg (rnd x)"
proof (cases "x = 0")
  case True
  then show ?thesis by (simp add: rnd_def fneg_def)
next
  case False
  have e: "rexp (- x) = rexp x" by (simp add: rexp_def ilog2_minus)
  show ?thesis using False by (auto simp: rnd_def Let_def e round_half_even_minus fneg_def)
qed

lemma rnd_abs_bounded:
  assumes "\<bar>x\<bar> \<le> 2 powi k" and "- 1074 \<le> k" and "k \<le> 1023"
  shows "\<exists>r. rnd x = Fin r \<and> \<bar>r\<bar> \<le> 2 powi k"
proof (cases "0 \<le> x")
  case True
  with assms rnd_bounded[of x k] show ?thesis by auto
next
  case False
  then have "0 \<le> - x" "- x \<le> 2 powi k" using assms(1) by simp_all
  from rnd_bounded[OF this assms(2,3)] obtain r where r: "rnd (- x) = Fin r" "0 \<le> r" "r \<le> 2 powi k"
    by auto
  from r(1) have "rnd x = Fin (- r)"
    by (cases "rnd x") (simp_all add: rnd_minus fneg_def)
  with r show ?thesis by simp
qed

section \<open>The answer of the dashboard\<close>

lemma sum_list_insort_key:
  "sum_list (map f (insort_key k x xs)) = (f x :: int) + sum_list (map f xs)"
  by (induction xs) simp_all

lemma sum_list_sort_key: "sum_list (map f (sort_key k xs)) = (sum_list (map f xs) :: int)"
  by (induction xs) (simp_all add: sum_list_insort_key)

lemma exercise_times_result:
  "exercise_times r m xs = Inr ts \<Longrightarrow>
   list_all2 (\<lambda>x t. fst t = fst x \<and> (\<exists>k. snd t = JInt k \<and> burn_minutes r (snd x) m = Inr k)) xs ts"
proof (induction xs arbitrary: ts)
  case Nil
  then show ?case by simp
next
  case (Cons x xs)
  obtain ex met where x: "x = (ex, met)" by (cases x)
  from Cons.prems obtain k others where k: "burn_minutes r met m = Inr k"
    and o: "exercise_times r m xs = Inr others" and ts: "ts = (ex, JInt k) # others"
    by (auto simp: x bind_def split: sum.splits)
  from Cons.IH[OF o] show ?case by (simp add: ts x k)
qed

lemma list_all2_map_of:
  "list_all2 (\<lambda>x t. fst t = fst x \<and> P (snd x) (snd t)) xs ts \<Longrightarrow>
   distinct (map fst xs) \<Longrightarrow> (a, b) \<in> set xs \<Longrightarrow> \<exists>j. map_of ts a = Some j \<and> P b j"
proof (induction xs arbitrary: ts)
  case Nil
  then show ?case by simp
next
  case (Cons x xs)
  from Cons.prems(1) obtain t ts' where ts: "ts = t # ts'" and h: "fst t = fst x" "P (snd x) (snd t)"
    and r: "list_all2 (\<lambda>x t. fst t = fst x \<and> P (snd x) (snd t)) xs ts'"
    by (auto simp: list_all2_Cons1)
  show ?case
  proof (cases "fst x = a")
    case True
    have "a \<notin> fst ` set xs" using Cons.prems(2) True by auto
    then have "x = (a, b)" using Cons.prems(3) True by (auto simp: image_iff)
    then show ?thesis using h ts by (cases t) auto
  next
    case False
    then have "(a, b) \<in> set xs" using Cons.prems(3) by auto
    with Cons.IH[OF r] Cons.prems(2) obtain j where "map_of ts' a = Some j \<and> P b j" by auto
    then show ?thesis using False h ts by (cases t) auto
  qed
qed

lemma list_all2_map_fst:
  "list_all2 (\<lambda>x t. fst t = fst x \<and> P x t) xs ts \<Longrightarrow> map fst ts = map fst xs"
  by (induction xs ts rule: list_all2_induct) simp_all

lemma burn_minutes_result:
  assumes "burn_minutes r met metrics = Inr k"
  shows "if 0 < r
         then \<exists>weight_kg w n q. map_of metrics ''weight_kg'' = Some weight_kg
                \<and> as_float_operand weight_kg = Inr w \<and> float_of_int (r * 60) = Inr n
                \<and> fdiv n (fmul met w) = Inr q \<and> py_round q = Inr k
         else k = 0"
  using assms by (auto simp: burn_minutes_def bind_def split: option.splits sum.splits if_splits)

lemma get_dashboard_data_result:
  assumes "status_of (get_dashboard_data sid fs db) = 200"
  shows "\<exists>user srow u metrics times.
           get_current_user_email fs = Some user \<and> owned_session db sid user = Some srow
           \<and> find_user db user = Some u \<and> u_metrics u = Some metrics
           \<and> exercise_times
                (max 0 (s_total_calories srow
                        - sum_list (map e_calories_burned
                            (filter (\<lambda>e. e_session_id e = sid) (exercises db)))))
                metrics EXERCISE_METS = Inr times
           \<and> get_dashboard_data sid fs db
               = ((200, JObject
                    [(''session_name'', JString (s_name srow)),
                     (''total_calories_consumed'', JInt (s_total_calories srow)),
                     (''total_calories_burned'',
                      JInt (sum_list (map e_calories_burned
                              (filter (\<lambda>e. e_session_id e = sid) (exercises db))))),
                     (''net_calories'',
                      JInt (s_total_calories srow
                            - sum_list (map e_calories_burned
                                (filter (\<lambda>e. e_session_id e = sid) (exercises db))))),
                     (''drinks'', JArray (map drink_json (sort_key d_id (session_drinks db sid)))),
                     (''logged_exercises'',
                      JArray (map exercise_json
                                (sort_key e_type
                                   (filter (\<lambda>e. e_session_id e = sid) (exercises db))))),
                     (''exercise_times'', JObject times)]),
                  fs, db)"
  using assms
  by (auto simp: get_dashboard_data_def Let_def sum_list_sort_key
      split: option.splits sum.splits)

lemma distinct_EXERCISE_METS: "distinct (map fst EXERCISE_METS)"
  by (simp add: EXERCISE_METS_def)


section \<open>The stores of the examples\<close>

lemma one_beer_reachable: "reachable one_beer_db"
proof -
  define db1 where "db1 = db_of (register ''ann@example.org'' ''secret'' empty_session empty_db)"
  define db2 where "db2 = db_of (create_session ''s1'' ''Friday'' ''2024-05-03T20:00:00Z'' None
                                   demo_session db1)"
  define db3 where "db3 = db_of (add_drink ''d1'' ''s1'' beer_form demo_session db2)"
  have r: "reachable db3"
    unfolding db3_def db2_def db1_def
    by (intro reachable.by_add_drink reachable.by_create_session reachable.by_register
        reachable.init)
  have e1: "db1 = \<lparr>users = [\<lparr>u_email = ''ann@example.org'', u_password = ''secret'',
                                u_metrics = None\<rparr>],
                      sessions = [], drinks = [], exercises = []\<rparr>"
    by (simp add: db1_def register_def find_user_def empty_db_def)
  have e2: "db2 = \<lparr>users = [\<lparr>u_email = ''ann@example.org'', u_password = ''secret'',
                                u_metrics = None\<rparr>],
                      sessions = [\<lparr>s_id = ''s1'', s_user_email = ''ann@example.org'',
                                   s_name = ''Friday'', s_date = ''2024-05-03T20:00:00Z'',
                                   s_total_calories = 0\<rparr>],
                      drinks = [], exercises = []\<rparr>"
    by (simp add: db2_def create_session_def demo_user find_session_def e1 Let_def)
  have t: "map_of beer_form ''drink_type'' = Some ''beer''" by (simp add: beer_form_def)
  have p: "map_of DRINK_PRESETS ''beer''
             = Some \<lparr>p_name = ''Standard Beer'', p_abv = Fin 5, p_volume_oz = Fin 12\<rparr>"
    by (simp add: DRINK_PRESETS_def)
  have o: "owned_session db2 ''s1'' ''ann@example.org'' \<noteq> None"
    by (simp add: owned_session_def e2)
  have n: "strip ''Standard Beer'' = ''Standard Beer''"
    by (simp add: strip_def is_space_def)
  have "db3 = one_beer_db"
    unfolding db3_def
    by (simp add: add_drink_def demo_user o t p beer_properties beer_calories Let_def
          sqlite_integer_def)
       (simp add: e2 one_beer_db_def update_session_calories_def session_drinks_def beer_form_def n
          sqlite_integer_def)
  with r show ?thesis by simp
qed

lemma one_beer_drink:
  "find_drink one_beer_db ''d1'' ''s1'' ''ann@example.org''
     = Some \<lparr>d_id = ''d1'', d_session_id = ''s1'', d_name = ''Standard Beer (12.0oz, 5.0%)'',
             d_calories = 118, d_abv = Fin 5, d_volume_oz = Fin 12, d_count = 1\<rparr>"
  by (simp add: find_drink_def owned_session_def one_beer_db_def)

lemma one_beer_increment:
  "db_of (update_drink ''s1'' ''d1'' increment_data demo_session one_beer_db)
     = \<lparr>users = users one_beer_db,
        sessions = [\<lparr>s_id = ''s1'', s_user_email = ''ann@example.org'', s_name = ''Friday'',
                     s_date = ''2024-05-03T20:00:00Z'', s_total_calories = 236\<rparr>],
        drinks = [\<lparr>d_id = ''d1'', d_session_id = ''s1'', d_name = ''Standard Beer (12.0oz, 5.0%)'',
                   d_calories = 118, d_abv = Fin 5, d_volume_oz = Fin 12, d_count = 2\<rparr>],
        exercises = []\<rparr>"
  by (simp add: update_drink_def demo_user one_beer_drink increment_data_def Let_def
        sqlite_integer_def)
     (simp add: update_session_calories_def session_drinks_def set_drink_count_def one_beer_db_def
        sqlite_integer_def)

lemma demo_weight: "as_float_operand (JInt 70) = Inr (Fin 70)"
proof -
  have "rnd (of_int 70) = Fin (of_int 70)" by (rule rnd_int_exact) simp
  then show ?thesis by (simp add: as_float_operand_def float_of_int_def)
qed

lemma burned_running_30: "calculate_burned_calories (Fin 8) (JInt 70) (Fin 30) = Inr 280"
proof -
  have "rnd (of_int 1 * 2 powi (- 1)) = Fin (of_int 1 * 2 powi (- 1))"
    by (rule rnd_exact[where m=1 and e="- 1"]) simp_all
  then have "rnd (30 / 60) = Fin (1 / 2)" by (simp add: power_int_minus)
  then have d: "fdiv (Fin 30) (Fin 60) = Inr (Fin (1 / 2))" by (simp add: fdiv_def)
  have a: "rnd 560 = Fin 560" by (rule rnd_numeral) simp
  have b: "rnd 280 = Fin 280" by (rule rnd_numeral) simp
  have p: "fmul (fmul (Fin 8) (Fin 70)) (Fin (1 / 2)) = Fin 280"
    by (simp add: fmul_Fin a b)
  have r: "round_half_even 280 = 280" using round_half_even_of_int[of 280] by simp
  show ?thesis
    unfolding calculate_burned_calories_def d bind_def sum.case demo_weight p
    by (simp add: py_round_def r)
qed

lemma burned_running_40: "calculate_burned_calories (Fin 8) (JInt 70) (Fin 40) = Inr 373"
proof -
  have "rnd (40 / 60) = Fin (of_int 6004799503160661 * 2 powi (- 53))"
    by (rule rnd_eval[where k="- 1"]) (simp_all add: power_int_minus)
  then have d: "fdiv (Fin 40) (Fin 60) = Inr (Fin (6004799503160661 / 9007199254740992))"
    by (simp add: fdiv_def power_int_minus)
  have a: "rnd 560 = Fin 560" by (rule rnd_numeral) simp
  have "rnd (560 * (6004799503160661 / 9007199254740992))
          = Fin (of_int 6567749456581973 * 2 powi (- 44))"
    by (rule rnd_eval[where k=8]) (simp_all add: power_int_minus)
  then have b: "rnd (560 * (6004799503160661 / 9007199254740992))
                  = Fin (6567749456581973 / 17592186044416)"
    by (simp add: power_int_minus)
  have m: "fmul (Fin 8) (Fin 70) = Fin 560" using a by (simp add: fmul_Fin)
  have p: "fmul (fmul (Fin 8) (Fin 70)) (Fin (6004799503160661 / 9007199254740992))
             = Fin (6567749456581973 / 17592186044416)"
    by (subst m, subst fmul_Fin) (rule b)
  have "round_half_even (6567749456581973 / 17592186044416) = 373"
    by (rule round_half_even_eqI) simp
  then have r: "py_round (Fin (6567749456581973 / 17592186044416)) = Inr 373"
    by (simp add: py_round_def)
  show ?thesis
    unfolding calculate_burned_calories_def d bind_def sum.case demo_weight p r ..
qed

lemma minutes_30: "py_float_of (Some (JInt 30)) = Inr (Fin 30)"
proof -
  have "rnd (of_int 30) = Fin (of_int 30)" by (rule rnd_int_exact) simp
  then show ?thesis by (simp add: py_float_of_def float_of_int_def)
qed


lemma heavier_weight: "as_float_operand (JInt 100) = Inr (Fin 100)"
proof -
  have "rnd (of_int 100) = Fin (of_int 100)" by (rule rnd_int_exact) simp
  then show ?thesis by (simp add: as_float_operand_def float_of_int_def)
qed

lemma burned_heavier_30: "calculate_burned_calories (Fin 8) (JInt 100) (Fin 30) = Inr 400"
proof -
  have "rnd (of_int 1 * 2 powi (- 1)) = Fin (of_int 1 * 2 powi (- 1))"
    by (rule rnd_exact[where m=1 and e="- 1"]) simp_all
  then have "rnd (30 / 60) = Fin (1 / 2)" by (simp add: power_int_minus)
  then have d: "fdiv (Fin 30) (Fin 60) = Inr (Fin (1 / 2))" by (simp add: fdiv_def)
  have a: "rnd 800 = Fin 800" by (rule rnd_numeral) simp
  have b: "rnd 400 = Fin 400" by (rule rnd_numeral) simp
  have p: "fmul (fmul (Fin 8) (Fin 100)) (Fin (1 / 2)) = Fin 400"
    by (simp add: fmul_Fin a b)
  have r: "round_half_even 400 = 400" using round_half_even_of_int[of 400] by simp
  show ?thesis
    unfolding calculate_burned_calories_def d bind_def sum.case heavier_weight p
    by (simp add: py_round_def r)
qed

lemma workout_exercise:
  "find_exercise workout_db ''e1'' ''s1'' ''ann@example.org''
     = Some \<lparr>e_id = ''e1'', e_session_id = ''s1'', e_type = ''running'',
             e_minutes = Fin 30, e_calories_burned = 280\<rparr>"
  by (simp add: find_exercise_def owned_session_def workout_db_def)

lemma workout_user:
  "find_user workout_db ''ann@example.org''
     = Some \<lparr>u_email = ''ann@example.org'', u_password = ''secret'',
             u_metrics = Some demo_metrics\<rparr>"
  by (simp add: find_user_def workout_db_def)

lemma demo_metrics_weight: "map_of demo_metrics ''weight_kg'' = Some (JInt 70)"
  by (simp add: demo_metrics_def)

lemma running_met: "map_of EXERCISE_METS ''running'' = Some (Fin 8)"
  by (simp add: EXERCISE_METS_def)

lemma rnd_40: "rnd 40 = Fin 40"
  by (rule rnd_numeral) simp

lemma minutes_30_plus_10: "fadd (Fin 30) (Fin 10) = Fin 40"
  by (simp add: rnd_40)

lemma workout_increment_exercise:
  "update_exercise ''s1'' ''e1'' increment_data demo_session workout_db
     = ((200, JObject [(''id'', JString ''e1''), (''message'', JString ''Exercise updated''),
                       (''minutes'', JFloat (Fin 40)), (''calories_burned'', JInt 373)]),
        demo_session, set_exercise ''e1'' (Fin 40) 373 workout_db)"
proof -
  have n: "new_minutes_of (map_of increment_data ''action'') (Fin 30) = Some (Fin 40)"
    by (simp add: new_minutes_of_def increment_data_def minute_change_def rnd_40)
  from update_exercise_result[OF demo_user workout_exercise workout_user _ demo_metrics_weight,
      of "Fin 8" increment_data]
  show ?thesis by (simp add: running_met n burned_running_40 sqlite_integer_def)
qed

lemma workout_add_exercise:
  "status_of (add_exercise ''e2'' ''s1'' run_data demo_session workout_db) = 200"
proof -
  have s: "find_session workout_db ''s1''
             = Some \<lparr>s_id = ''s1'', s_user_email = ''ann@example.org'', s_name = ''Friday'',
                     s_date = ''2024-05-03T20:00:00Z'', s_total_calories = 118\<rparr>"
    by (simp add: find_session_def workout_db_def)
  have m: "met_of (map_of run_data ''exercise_type'') = Inr (Some (''running'', Fin 8))"
    by (simp add: met_of_def run_data_def EXERCISE_METS_def)
  have f: "map_of run_data ''minutes'' = Some (JInt 30)" by (simp add: run_data_def)
  have x: "find (\<lambda>e. e_id e = ''e2'') (exercises workout_db) = None"
    by (simp add: workout_db_def)
  show ?thesis
    unfolding add_exercise_def demo_user option.case s workout_user Let_def m f minutes_30
    by (simp add: demo_metrics_weight burned_running_30 truthy_def x sqlite_integer_def)
qed

section \<open>The cached total of a session\<close>

lemma totals_ok_explicit:
  "totals_ok db \<Longrightarrow>
   \<forall>s\<in>set (sessions db).
      s_total_calories s
        = sum_list (map (\<lambda>d. d_calories d * d_count d)
                      (filter (\<lambda>d. d_session_id d = s_id s) (drinks db)))"
  by (simp add: totals_ok_iff session_total_def session_drinks_def)

text \<open>
  Claim C1.  In every store that requests can produce, and in the store that \<open>add_drink\<close>,
  \<open>update_drink\<close> (increment, decrement or the deletion of the row on decrement) or
  \<open>delete_session\<close> leaves behind, the cached \<open>total_calories\<close> of every session row is
  the sum of \<open>calories * count\<close> over the drink rows that belong to that session.
\<close>

theorem session_total_is_sum:
  assumes "reachable db"
    and "db' \<in> {db, db_of (add_drink drink_id session_id form fs db),
                 db_of (update_drink session_id drink_id data fs db),
                 db_of (delete_session session_id fs db)}"
  shows "\<forall>s\<in>set (sessions db').
           s_total_calories s
             = sum_list (map (\<lambda>d. d_calories d * d_count d)
                           (filter (\<lambda>d. d_session_id d = s_id s) (drinks db')))"
proof -
  have "reachable db'"
    using assms by (auto intro: reachable.intros)
  then have "db_ok db'" by (rule reachable_db_ok)
  then have "totals_ok db'" by (simp add: db_ok_def)
  then show ?thesis by (rule totals_ok_explicit)
qed

theorem session_total_is_sum_witness:
  "reachable one_beer_db
   \<and> map s_total_calories
         (sessions (db_of (update_drink ''s1'' ''d1'' increment_data demo_session one_beer_db)))
       = [118 * 2]"
proof -
  let ?db' = "db_of (update_drink ''s1'' ''d1'' increment_data demo_session one_beer_db)"
  have "?db' \<in> {one_beer_db, db_of (add_drink ''d1'' ''s1'' beer_form demo_session one_beer_db),
                 ?db', db_of (delete_session ''s1'' demo_session one_beer_db)}"
    by simp
  from session_total_is_sum[OF one_beer_reachable this]
  have a: "\<forall>s\<in>set (sessions ?db').
           s_total_calories s
             = sum_list (map (\<lambda>d. d_calories d * d_count d)
                           (filter (\<lambda>d. d_session_id d = s_id s) (drinks ?db')))" .
  have ids: "map s_id (sessions ?db') = [''s1'']"
    and dr: "map (\<lambda>d. (d_session_id d, d_calories d, d_count d)) (drinks ?db') = [(''s1'', 118, 2)]"
    by (simp_all add: one_beer_increment)
  from ids obtain s where s: "sessions ?db' = [s]" "s_id s = ''s1''" by auto
  from dr obtain d where d: "drinks ?db' = [d]" "d_session_id d = ''s1''" "d_calories d = 118"
    "d_count d = 2" by auto
  from a s d have "s_total_calories s = 118 * 2" by simp
  with s one_beer_reachable show ?thesis by simp
qed

section \<open>The count of shots of a mixed drink\<close>














section \<open>The alcohol-calorie calculator\<close>

text \<open>A volume of \<open>2 ^ 1023\<close> ounces: the litres are exact, the product with 789 is not finite.\<close>

lemma big_volume_L:
  "fmul (Fin (2 ^ 1023)) oz_to_litre = Fin (of_int 8523981029122647 * 2 powi 965)"
proof -
  have e: "(2::rat) ^ 1023 * (8523981029122647 / 288230376151711744)
             = of_int 8523981029122647 * 2 powi 965"
    by simp
  have s: "\<bar>of_int 8523981029122647 * (2::rat) powi 965\<bar> < 2 powi 1024" by simp
  have "rnd (of_int 8523981029122647 * 2 powi 965) = Fin (of_int 8523981029122647 * 2 powi 965)"
    by (rule rnd_exact[where m=8523981029122647 and e=965]) (use s in simp_all)
  then show ?thesis unfolding oz_to_litre_value fmul_Fin e .
qed

lemma big_product_overflows:
  "fmul (Fin (of_int 8523981029122647 * 2 powi 965)) (Fin 789) = PInf"
proof -
  have "(2::rat) powi 1024 \<le> of_int 8523981029122647 * 2 powi 965 * 789" by simp
  then show ?thesis unfolding fmul_Fin by (rule rnd_overflow)
qed

text \<open>
  Claim C3, as amended.  For every ABV \<open>a\<close> in [0, 100] and every volume \<open>v\<close> with
  \<open>0 < v \<le> 2 ^ 1000\<close>, \<open>calculate_calories\<close> raises nothing and returns Python's
  \<open>round\<close> (to the nearest integer, ties to even) of the float product
  \<open>v * 0.0295735 * (a / 100) * 789 * 7\<close>, every operation rounded to a float, from left to
  right, as the source evaluates it.  The claim as stated, for every volume \<open>v > 0\<close>,
  fails for large volumes, where the product is infinite and \<open>round\<close> raises
  OverflowError.
\<close>

theorem calculate_calories_bounded:
  assumes "0 \<le> a" and "a \<le> 100" and "0 < v" and "v \<le> 2 ^ 1000"
  shows "\<exists>f q. fdiv (Fin a) (Fin 100) = Inr (Fin f)
             \<and> fmul (fmul (fmul (fmul (Fin v) oz_to_litre) (Fin f)) (Fin 789)) (Fin 7) = Fin q
             \<and> calculate_calories (Fin a) (Fin v) = Inr (round_half_even q)"
proof -
  have "0 \<le> a / 100" "a / 100 \<le> 2 powi 0" using assms(1,2) by simp_all
  from rnd_bounded[OF this] obtain f where f: "rnd (a / 100) = Fin f" "0 \<le> f" "f \<le> 1"
    by auto
  let ?c = "8523981029122647 / 288230376151711744 :: rat"
  have v: "v \<le> 2 powi 1000" using assms(4) by simp
  have "v * ?c \<le> 2 powi 1000 * 2 powi (- 5)"
    using v oz_to_litre_small assms(3) by (intro mult_mono) simp_all
  then have "v * ?c \<le> 2 powi 995" by (simp only: pow2_mult) simp
  moreover have "0 \<le> v * ?c" using assms(3) by simp
  ultimately obtain r1 where r1: "rnd (v * ?c) = Fin r1" "0 \<le> r1" "r1 \<le> 2 powi 995"
    using rnd_bounded[of "v * ?c" 995] by auto
  have "r1 * f \<le> 2 powi 995 * 1" using r1 f by (intro mult_mono) simp_all
  then have "r1 * f \<le> 2 powi 995" by simp
  moreover have "0 \<le> r1 * f" using r1 f by simp
  ultimately obtain r2 where r2: "rnd (r1 * f) = Fin r2" "0 \<le> r2" "r2 \<le> 2 powi 995"
    using rnd_bounded[of "r1 * f" 995] by auto
  have "(789::rat) \<le> 2 powi 10" by simp
  then have "r2 * 789 \<le> 2 powi 995 * 2 powi 10" using r2 by (intro mult_mono) simp_all
  then have "r2 * 789 \<le> 2 powi 1005" by (simp only: pow2_mult) simp
  moreover have "0 \<le> r2 * 789" using r2 by simp
  ultimately obtain r3 where r3: "rnd (r2 * 789) = Fin r3" "0 \<le> r3" "r3 \<le> 2 powi 1005"
    using rnd_bounded[of "r2 * 789" 1005] by auto
  have "(7::rat) \<le> 2 powi 3" by simp
  then have "r3 * 7 \<le> 2 powi 1005 * 2 powi 3" using r3 by (intro mult_mono) simp_all
  then have "r3 * 7 \<le> 2 powi 1008" by (simp only: pow2_mult) simp
  moreover have "0 \<le> r3 * 7" using r3 by simp
  ultimately obtain q where q: "rnd (r3 * 7) = Fin q"
    using rnd_bounded[of "r3 * 7" 1008] by auto
  have d: "fdiv (Fin a) (Fin 100) = Inr (Fin f)" by (simp add: fdiv_def f(1))
  have m1: "fmul (Fin v) oz_to_litre = Fin r1"
    unfolding oz_to_litre_value fmul_Fin by (rule r1(1))
  have m: "fmul (fmul (fmul (fmul (Fin v) oz_to_litre) (Fin f)) (Fin 789)) (Fin 7) = Fin q"
    unfolding m1 fmul_Fin r2(1) r3(1) by (rule q)
  have "calculate_calories (Fin a) (Fin v) = Inr (round_half_even q)"
    by (simp add: calculate_calories_def Let_def bind_def d m py_round_def)
  with d m show ?thesis by blast
qed

text \<open>The beer of the specification, 5.0 percent and 12 ounces: 98 kcal.\<close>

theorem calculate_calories_bounded_witness:
  "(0::rat) \<le> 5 \<and> (5::rat) \<le> 100 \<and> (0::rat) < 12 \<and> (12::rat) \<le> 2 ^ 1000
   \<and> (\<exists>f q. fdiv (Fin 5) (Fin 100) = Inr (Fin f)
          \<and> fmul (fmul (fmul (fmul (Fin 12) oz_to_litre) (Fin f)) (Fin 789)) (Fin 7) = Fin q
          \<and> calculate_calories (Fin 5) (Fin 12) = Inr (round_half_even q)
          \<and> round_half_even q = 98)"
proof -
  have b: "(12::rat) \<le> 2 ^ 1000" by simp
  from calculate_calories_bounded[of 5 12, OF _ _ _ b]
  obtain f q where f: "fdiv (Fin 5) (Fin 100) = Inr (Fin f)"
    and q: "fmul (fmul (fmul (fmul (Fin 12) oz_to_litre) (Fin f)) (Fin 789)) (Fin 7) = Fin q"
    and c: "calculate_calories (Fin 5) (Fin 12) = Inr (round_half_even q)"
    by auto
  have "Inr (round_half_even q) = (Inr 98 :: py_error + int)"
    using c by (simp only: calculate_calories_beer)
  then have "round_half_even q = 98" by simp
  with f q c b show ?thesis by (intro conjI exI[of _ f] exI[of _ q]) simp_all
qed

text \<open>
  At ABV 100 and a volume of \<open>2 ^ 1023\<close> ounces, both finite floats, the calculator raises
  OverflowError.
\<close>

theorem calculate_calories_overflow:
  "finite_float (Fin 100) \<and> finite_float (Fin (2 ^ 1023))
   \<and> calculate_calories (Fin 100) (Fin (2 ^ 1023)) = Inl OverflowError"
proof -
  have one: "rnd 1 = Fin 1" by (rule rnd_one)
  have a: "rnd 100 = Fin 100" by (rule rnd_numeral) simp
  have s: "\<bar>of_int 1 * (2::rat) powi 1023\<bar> < 2 powi 1024" by simp
  have "rnd (of_int 1 * 2 powi 1023) = Fin (of_int 1 * 2 powi 1023)"
    by (rule rnd_exact[where m=1 and e=1023]) (use s in simp_all)
  then have v: "rnd (2 ^ 1023) = Fin (2 ^ 1023)" by simp
  have d: "fdiv (Fin 100) (Fin 100) = Inr (Fin 1)" by (simp add: fdiv_def one)
  have s2: "\<bar>of_int 8523981029122647 * (2::rat) powi 965\<bar> < 2 powi 1024" by simp
  have x: "rnd (of_int 8523981029122647 * 2 powi 965) = Fin (of_int 8523981029122647 * 2 powi 965)"
    by (rule rnd_exact[where m=8523981029122647 and e=965]) (use s2 in simp_all)
  have m1: "fmul (Fin (of_int 8523981029122647 * 2 powi 965)) (Fin 1)
              = Fin (of_int 8523981029122647 * 2 powi 965)"
    unfolding fmul_Fin mult_1_right by (rule x)
  have m3: "fmul PInf (Fin 7) = PInf" by (simp add: fmul_def signed_inf_def fsign_def)
  have c: "calculate_calories (Fin 100) (Fin (2 ^ 1023)) = Inl OverflowError"
    unfolding calculate_calories_def Let_def big_volume_L d bind_def sum.case m1
      big_product_overflows m3
    by (simp add: py_round_def)
  have fa: "finite_float (Fin 100)" unfolding finite_float_def pyfloat.case by (rule a)
  have fv: "finite_float (Fin (2 ^ 1023))" unfolding finite_float_def pyfloat.case by (rule v)
  from fa fv c show ?thesis by (intro conjI)
qed

section \<open>Calories of a serving\<close>

lemma preset_keys:
  "map_of DRINK_PRESETS t = Some p \<Longrightarrow>
   t \<in> {''beer'', ''ipa'', ''wine'', ''shot_spirit'', ''mixed_drink'', ''mixed_drink_diet''}"
  by (auto simp: DRINK_PRESETS_def split: if_splits)

lemma flat_calories:
  assumes "t \<in> {''shot_spirit'', ''mixed_drink'', ''mixed_drink_diet''}"
    and "calories_per_serving t a v = Inr c"
  shows "c = 100 + serving_offset t"
proof -
  from assms(1) have f: "t = ''shot_spirit'' \<or> t = ''mixed_drink'' \<or> t = ''mixed_drink_diet''"
    by blast
  show ?thesis using assms(2) unfolding calories_per_serving_cases
    by (cases "calculate_calories a v") (simp_all add: f)
qed

lemma formula_calories:
  assumes "t \<in> {''beer'', ''wine'', ''ipa''}" and "calories_per_serving t a v = Inr c"
  shows "\<exists>k. calculate_calories a v = Inr k \<and> c = k + serving_offset t"
proof -
  from assms(1) have "t = ''beer'' \<or> t = ''wine'' \<or> t = ''ipa''" by blast
  then have f: "\<not> (t = ''shot_spirit'' \<or> t = ''mixed_drink'' \<or> t = ''mixed_drink_diet'')"
    by (elim disjE) simp_all
  show ?thesis using assms(2) unfolding calories_per_serving_cases
    by (cases "calculate_calories a v") (simp_all add: f)
qed

lemma formula_properties:
  assumes "t \<in> {''beer'', ''wine'', ''ipa''}" and "determine_properties t p form = Inr dp"
  shows "form_float (map_of form ''custom_abv'') = Inr (dp_abv dp)"
    and "form_float (map_of form ''liquid_ounces'') = Inr (dp_volume_oz dp)"
  using assms
  by (auto simp: determine_properties_def bind_def Let_def split: sum.splits)

text \<open>
  Claim C4.  When \<open>add_drink\<close> accepts a request (status 200) it appends one drink row.
  For \<open>shot_spirit\<close>, \<open>mixed_drink\<close> and \<open>mixed_drink_diet\<close> its calories per serving are
  the flat 100 plus the offset of the type; for \<open>beer\<close>, \<open>wine\<close> and \<open>ipa\<close> the stored
  ABV and volume are the floats read from the form and the calories are the result of
  \<open>calculate_calories\<close> on them plus the offset.  The offsets are +50 for \<open>mixed_drink\<close>,
  +20 for \<open>beer\<close>, +30 for \<open>wine\<close>, +75 for \<open>ipa\<close> and none otherwise.  The witness is the
  example of the specification: beer at 5.0% and 12 oz is stored with 118.
\<close>

theorem add_drink_calories:
  assumes "status_of (add_drink drink_id session_id form fs db) = 200"
  shows "\<exists>drink_type row.
           map_of form ''drink_type'' = Some drink_type
           \<and> drinks (db_of (add_drink drink_id session_id form fs db)) = drinks db @ [row]
           \<and> d_id row = drink_id \<and> d_session_id row = session_id
           \<and> (if drink_type \<in> {''shot_spirit'', ''mixed_drink'', ''mixed_drink_diet''}
               then d_calories row = 100 + serving_offset drink_type
               else drink_type \<in> {''beer'', ''wine'', ''ipa''}
                    \<and> form_float (map_of form ''custom_abv'') = Inr (d_abv row)
                    \<and> form_float (map_of form ''liquid_ounces'') = Inr (d_volume_oz row)
                    \<and> (\<exists>k. calculate_calories (d_abv row) (d_volume_oz row) = Inr k
                            \<and> d_calories row = k + serving_offset drink_type))"
proof -
  from add_drink_result[of fs db session_id form drink_id] show ?thesis
  proof (elim disjE exE conjE, goal_cases)
    case (1 user drink_type preset dp calories)
    note t = 1(3) and p = 1(4) and dp = 1(5) and c = 1(6) and out = 1(8)
    let ?row = "new_drink_row drink_id session_id form dp calories"
    have d: "drinks (db_of (add_drink drink_id session_id form fs db)) = drinks db @ [?row]"
      by (simp add: out)
    have r: "d_id ?row = drink_id" "d_session_id ?row = session_id" "d_calories ?row = calories"
      "d_abv ?row = dp_abv dp" "d_volume_oz ?row = dp_volume_oz dp"
      by (simp_all add: new_drink_row_def)
    have body:
      "if drink_type \<in> {''shot_spirit'', ''mixed_drink'', ''mixed_drink_diet''}
       then d_calories ?row = 100 + serving_offset drink_type
       else drink_type \<in> {''beer'', ''wine'', ''ipa''}
            \<and> form_float (map_of form ''custom_abv'') = Inr (d_abv ?row)
            \<and> form_float (map_of form ''liquid_ounces'') = Inr (d_volume_oz ?row)
            \<and> (\<exists>k. calculate_calories (d_abv ?row) (d_volume_oz ?row) = Inr k
                    \<and> d_calories ?row = k + serving_offset drink_type)"
    proof (cases "drink_type \<in> {''shot_spirit'', ''mixed_drink'', ''mixed_drink_diet''}")
      case True
      have "d_calories ?row = 100 + serving_offset drink_type"
        unfolding r(3) using True c by (rule flat_calories)
      then show ?thesis unfolding if_P[OF True] .
    next
      case False
      with preset_keys[OF p] have k: "drink_type \<in> {''beer'', ''wine'', ''ipa''}" by blast
      have 1: "\<exists>k. calculate_calories (d_abv ?row) (d_volume_oz ?row) = Inr k
                \<and> d_calories ?row = k + serving_offset drink_type"
        unfolding r using k c by (rule formula_calories)
      have 2: "form_float (map_of form ''custom_abv'') = Inr (d_abv ?row)"
        unfolding r using k dp by (rule formula_properties(1))
      have 3: "form_float (map_of form ''liquid_ounces'') = Inr (d_volume_oz ?row)"
        unfolding r using k dp by (rule formula_properties(2))
      show ?thesis unfolding if_not_P[OF False] by (intro conjI k 1 2 3)
    qed
    show ?case
      by (rule exI[of _ drink_type], rule exI[of _ ?row]) (intro conjI t d r(1) r(2) body)
  next
    case 2
    with assms show ?case by simp
  qed
qed

theorem add_drink_calories_witness:
  "status_of (add_drink ''d3'' ''s1'' beer_form demo_session demo_db) = 200
   \<and> (\<exists>row. drinks (db_of (add_drink ''d3'' ''s1'' beer_form demo_session demo_db))
               = drinks demo_db @ [row]
             \<and> d_abv row = Fin 5 \<and> d_volume_oz row = Fin 12 \<and> d_calories row = 118)"
proof -
  from add_drink_calories[OF add_beer_status]
  have "\<exists>row. drinks (db_of (add_drink ''d3'' ''s1'' beer_form demo_session demo_db))
               = drinks demo_db @ [row]
             \<and> d_abv row = Fin 5 \<and> d_volume_oz row = Fin 12 \<and> d_calories row = 118"
  proof (elim exE conjE)
    fix drink_type row
    assume t: "map_of beer_form ''drink_type'' = Some drink_type"
      and d: "drinks (db_of (add_drink ''d3'' ''s1'' beer_form demo_session demo_db))
              = drinks demo_db @ [row]"
      and c: "if drink_type \<in> {''shot_spirit'', ''mixed_drink'', ''mixed_drink_diet''}
               then d_calories row = 100 + serving_offset drink_type
               else drink_type \<in> {''beer'', ''wine'', ''ipa''}
                    \<and> form_float (map_of beer_form ''custom_abv'') = Inr (d_abv row)
                    \<and> form_float (map_of beer_form ''liquid_ounces'') = Inr (d_volume_oz row)
                    \<and> (\<exists>k. calculate_calories (d_abv row) (d_volume_oz row) = Inr k
                            \<and> d_calories row = k + serving_offset drink_type)"
    from t have b: "drink_type = ''beer''" by (simp add: beer_form_def)
    from c have a: "d_abv row = Fin 5" and v: "d_volume_oz row = Fin 12"
      by (simp_all add: b beer_form_def form_float_def py_float_5_0 py_float_12)
    from c have "\<exists>k. calculate_calories (Fin 5) (Fin 12) = Inr k
                   \<and> d_calories row = k + serving_offset ''beer''"
      by (simp add: b a v)
    then have "d_calories row = 118"
      by (simp add: calculate_calories_beer serving_offset_def)
    with d a v show ?thesis by (intro exI[of _ row]) simp
  qed
  with add_beer_status show ?thesis by (rule_tac conjI)
qed

section \<open>Increments and decrements\<close>















section \<open>Net calories and equivalent burn times\<close>

text \<open>The dashboard of the example store: 418 kcal consumed, 280 burned, weight 70 kg.\<close>

lemma demo_numerator: "float_of_int (138 * 60) = Inr (Fin 8280)"
proof -
  have "rnd (of_int 8280) = Fin (of_int 8280)" by (rule rnd_int_exact) simp
  then show ?thesis by (simp add: float_of_int_def)
qed

lemma demo_burn_walking: "burn_minutes 138 (Fin (7 / 2)) demo_metrics = Inr 34"
proof -
  have "rnd 245 = Fin 245" by (rule rnd_numeral) simp
  then have m: "fmul (Fin (7 / 2)) (Fin 70) = Fin 245" by (simp add: fmul_Fin)
  have "rnd (8280 / 245) = Fin (of_int 4756352667682105 * 2 powi (- 47))"
    by (rule rnd_eval[where k="5"]) (simp_all add: power_int_minus)
  then have d: "fdiv (Fin 8280) (Fin 245) = Inr (Fin (4756352667682105 / 140737488355328))"
    by (simp add: fdiv_def power_int_minus)
  have "round_half_even (4756352667682105 / 140737488355328) = 34" by (rule round_half_even_eqI) simp
  then have r: "py_round (Fin (4756352667682105 / 140737488355328)) = Inr 34" by (simp add: py_round_def)
  have w: "map_of demo_metrics ''weight_kg'' = Some (JInt 70)" by (simp add: demo_metrics_def)
  show ?thesis
    unfolding burn_minutes_def w option.case demo_weight demo_numerator bind_def sum.case m d r
    by simp
qed

lemma demo_burn_running: "burn_minutes 138 (Fin (8)) demo_metrics = Inr 15"
proof -
  have "rnd 560 = Fin 560" by (rule rnd_numeral) simp
  then have m: "fmul (Fin (8)) (Fin 70) = Fin 560" by (simp add: fmul_Fin)
  have "rnd (8280 / 560) = Fin (of_int 8323617168443685 * 2 powi (- 49))"
    by (rule rnd_eval[where k="3"]) (simp_all add: power_int_minus)
  then have d: "fdiv (Fin 8280) (Fin 560) = Inr (Fin (8323617168443685 / 562949953421312))"
    by (simp add: fdiv_def power_int_minus)
  have "round_half_even (8323617168443685 / 562949953421312) = 15" by (rule round_half_even_eqI) simp
  then have r: "py_round (Fin (8323617168443685 / 562949953421312)) = Inr 15" by (simp add: py_round_def)
  have w: "map_of demo_metrics ''weight_kg'' = Some (JInt 70)" by (simp add: demo_metrics_def)
  show ?thesis
    unfolding burn_minutes_def w option.case demo_weight demo_numerator bind_def sum.case m d r
    by simp
qed

lemma demo_burn_biking: "burn_minutes 138 (Fin (6)) demo_metrics = Inr 20"
proof -
  have "rnd 420 = Fin 420" by (rule rnd_numeral) simp
  then have m: "fmul (Fin (6)) (Fin 70) = Fin 420" by (simp add: fmul_Fin)
  have "rnd (8280 / 420) = Fin (of_int 5549078112295790 * 2 powi (- 48))"
    by (rule rnd_eval[where k="4"]) (simp_all add: power_int_minus)
  then have d: "fdiv (Fin 8280) (Fin 420) = Inr (Fin (2774539056147895 / 140737488355328))"
    by (simp add: fdiv_def power_int_minus)
  have "round_half_even (2774539056147895 / 140737488355328) = 20" by (rule round_half_even_eqI) simp
  then have r: "py_round (Fin (2774539056147895 / 140737488355328)) = Inr 20" by (simp add: py_round_def)
  have w: "map_of demo_metrics ''weight_kg'' = Some (JInt 70)" by (simp add: demo_metrics_def)
  show ?thesis
    unfolding burn_minutes_def w option.case demo_weight demo_numerator bind_def sum.case m d r
    by simp
qed

lemma demo_burn_swimming: "burn_minutes 138 (Fin (7)) demo_metrics = Inr 17"
proof -
  have "rnd 490 = Fin 490" by (rule rnd_numeral) simp
  then have m: "fmul (Fin (7)) (Fin 70) = Fin 490" by (simp add: fmul_Fin)
  have "rnd (8280 / 490) = Fin (of_int 4756352667682105 * 2 powi (- 48))"
    by (rule rnd_eval[where k="4"]) (simp_all add: power_int_minus)
  then have d: "fdiv (Fin 8280) (Fin 490) = Inr (Fin (4756352667682105 / 281474976710656))"
    by (simp add: fdiv_def power_int_minus)
  have "round_half_even (4756352667682105 / 281474976710656) = 17" by (rule round_half_even_eqI) simp
  then have r: "py_round (Fin (4756352667682105 / 281474976710656)) = Inr 17" by (simp add: py_round_def)
  have w: "map_of demo_metrics ''weight_kg'' = Some (JInt 70)" by (simp add: demo_metrics_def)
  show ?thesis
    unfolding burn_minutes_def w option.case demo_weight demo_numerator bind_def sum.case m d r
    by simp
qed

lemma demo_burn_strength_training: "burn_minutes 138 (Fin (9 / 2)) demo_metrics = Inr 26"
proof -
  have "rnd 315 = Fin 315" by (rule rnd_numeral) simp
  then have m: "fmul (Fin (9 / 2)) (Fin 70) = Fin 315" by (simp add: fmul_Fin)
  have "rnd (8280 / 315) = Fin (of_int 7398770816394386 * 2 powi (- 48))"
    by (rule rnd_eval[where k="4"]) (simp_all add: power_int_minus)
  then have d: "fdiv (Fin 8280) (Fin 315) = Inr (Fin (3699385408197193 / 140737488355328))"
    by (simp add: fdiv_def power_int_minus)
  have "round_half_even (3699385408197193 / 140737488355328) = 26" by (rule round_half_even_eqI) simp
  then have r: "py_round (Fin (3699385408197193 / 140737488355328)) = Inr 26" by (simp add: py_round_def)
  have w: "map_of demo_metrics ''weight_kg'' = Some (JInt 70)" by (simp add: demo_metrics_def)
  show ?thesis
    unfolding burn_minutes_def w option.case demo_weight demo_numerator bind_def sum.case m d r
    by simp
qed

lemma demo_exercise_times:
  "exercise_times 138 demo_metrics EXERCISE_METS
     = Inr [(''walking'', JInt 34), (''running'', JInt 15), (''biking'', JInt 20),
            (''swimming'', JInt 17), (''strength_training'', JInt 26)]"
  by (simp add: EXERCISE_METS_def bind_def demo_burn_walking demo_burn_running demo_burn_biking
      demo_burn_swimming demo_burn_strength_training)

lemma demo_dashboard:
  "get_dashboard_data ''s1'' demo_session demo_db
     = ((200, JObject
          [(''session_name'', JString ''Friday''),
           (''total_calories_consumed'', JInt 418),
           (''total_calories_burned'', JInt 280),
           (''net_calories'', JInt 138),
           (''drinks'', JArray (map drink_json (drinks demo_db))),
           (''logged_exercises'', JArray (map exercise_json (exercises demo_db))),
           (''exercise_times'',
            JObject [(''walking'', JInt 34), (''running'', JInt 15), (''biking'', JInt 20),
                     (''swimming'', JInt 17), (''strength_training'', JInt 26)])]),
        demo_session, demo_db)"
proof -
  have u: "(case find_user demo_db ''ann@example.org'' of None \<Rightarrow> None | Some u \<Rightarrow> u_metrics u)
             = Some demo_metrics"
    by (simp add: find_user_def demo_db_def)
  have d: "sort_key d_id (session_drinks demo_db ''s1'') = drinks demo_db"
    by (simp add: session_drinks_def demo_db_def)
  have e: "sort_key e_type (filter (\<lambda>e. e_session_id e = ''s1'') (exercises demo_db))
             = exercises demo_db"
    by (simp add: demo_db_def)
  have s: "sum_list (map e_calories_burned (exercises demo_db)) = 280" by (simp add: demo_db_def)
  show ?thesis
    unfolding get_dashboard_data_def demo_user option.case demo_owned Let_def u d e s
    by (simp add: demo_exercise_times)
qed

text \<open>
  Claim C6.  A dashboard fetch answered with 200 belongs to a logged-in caller, a session
  of theirs and their metrics.  Its \<open>total_calories_burned\<close> is the sum of
  \<open>calories_burned\<close> over the exercise rows of the session (0 when there are none), its
  \<open>net_calories\<close> is the cached total of the session row minus that sum, and
  \<open>exercise_times\<close> has one entry for each exercise type of \<open>EXERCISE_METS\<close>, in the
  order of the table: 0 when the net calories are not positive, and otherwise Python's
  \<open>round\<close> of the float quotient \<open>(max(net, 0) * 60) / (met * weight_kg)\<close>.
\<close>

theorem dashboard_net_calories:
  assumes "status_of (get_dashboard_data session_id fs db) = 200"
  shows "\<exists>user srow u metrics times.
           get_current_user_email fs = Some user
           \<and> owned_session db session_id user = Some srow
           \<and> find_user db user = Some u \<and> u_metrics u = Some metrics
           \<and> (let body = body_of (get_dashboard_data session_id fs db);
                   rows = filter (\<lambda>e. e_session_id e = session_id) (exercises db);
                   burned = sum_list (map e_calories_burned rows);
                   net = s_total_calories srow - burned
               in json_get body ''total_calories_consumed'' = Some (JInt (s_total_calories srow))
                  \<and> json_get body ''total_calories_burned'' = Some (JInt burned)
                  \<and> json_get body ''net_calories'' = Some (JInt net)
                  \<and> (rows = [] \<longrightarrow> burned = 0 \<and> net = s_total_calories srow)
                  \<and> json_get body ''exercise_times'' = Some (JObject times)
                  \<and> map fst times = map fst EXERCISE_METS
                  \<and> (\<forall>(exercise, met) \<in> set EXERCISE_METS.
                        \<exists>k. map_of times exercise = Some (JInt k)
                           \<and> burn_minutes (max 0 net) met metrics = Inr k
                           \<and> (if 0 < net
                               then \<exists>weight_kg w n q.
                                      map_of metrics ''weight_kg'' = Some weight_kg
                                      \<and> as_float_operand weight_kg = Inr w
                                      \<and> float_of_int (max 0 net * 60) = Inr n
                                      \<and> fdiv n (fmul met w) = Inr q \<and> py_round q = Inr k
                               else k = 0)))"
proof -
  define burned where
    "burned = sum_list (map e_calories_burned
                 (filter (\<lambda>e. e_session_id e = session_id) (exercises db)))"
  from get_dashboard_data_result[OF assms, folded burned_def]
  obtain user srow u metrics times where
    f: "get_current_user_email fs = Some user" "owned_session db session_id user = Some srow"
       "find_user db user = Some u" "u_metrics u = Some metrics"
    and t: "exercise_times (max 0 (s_total_calories srow - burned)) metrics EXERCISE_METS
              = Inr times"
    and out: "get_dashboard_data session_id fs db
               = ((200, JObject
                    [(''session_name'', JString (s_name srow)),
                     (''total_calories_consumed'', JInt (s_total_calories srow)),
                     (''total_calories_burned'', JInt burned),
                     (''net_calories'', JInt (s_total_calories srow - burned)),
                     (''drinks'',
                      JArray (map drink_json (sort_key d_id (session_drinks db session_id)))),
                     (''logged_exercises'',
                      JArray (map exercise_json
                                (sort_key e_type
                                   (filter (\<lambda>e. e_session_id e = session_id) (exercises db))))),
                     (''exercise_times'', JObject times)]),
                  fs, db)"
    by blast
  define net where "net = s_total_calories srow - burned"
  note l = exercise_times_result[OF t, folded net_def]
  have names: "map fst times = map fst EXERCISE_METS" using l by (rule list_all2_map_fst)
  have each: "\<exists>k. map_of times exercise = Some (JInt k)
                \<and> burn_minutes (max 0 net) met metrics = Inr k
                \<and> (if 0 < net
                    then \<exists>weight_kg w n q.
                           map_of metrics ''weight_kg'' = Some weight_kg
                           \<and> as_float_operand weight_kg = Inr w
                           \<and> float_of_int (max 0 net * 60) = Inr n
                           \<and> fdiv n (fmul met w) = Inr q \<and> py_round q = Inr k
                    else k = 0)"
    if m: "(exercise, met) \<in> set EXERCISE_METS" for exercise met
  proof -
    from list_all2_map_of[where P="\<lambda>met j. \<exists>k. j = JInt k \<and> burn_minutes (max 0 net) met metrics = Inr k",
        OF l distinct_EXERCISE_METS m]
    obtain k where k: "map_of times exercise = Some (JInt k)"
      "burn_minutes (max 0 net) met metrics = Inr k" by blast
    from burn_minutes_result[OF k(2)] k show ?thesis
      by (cases "0 < net") (auto simp: max_def)
  qed
  have body: "json_get (body_of (get_dashboard_data session_id fs db)) ''total_calories_consumed''
                = Some (JInt (s_total_calories srow))"
    "json_get (body_of (get_dashboard_data session_id fs db)) ''total_calories_burned''
                = Some (JInt burned)"
    "json_get (body_of (get_dashboard_data session_id fs db)) ''net_calories'' = Some (JInt net)"
    "json_get (body_of (get_dashboard_data session_id fs db)) ''exercise_times''
                = Some (JObject times)"
    by (simp_all add: out body_of_def json_get_def net_def)
  have none: "filter (\<lambda>e. e_session_id e = session_id) (exercises db) = [] \<longrightarrow>
                burned = 0 \<and> net = s_total_calories srow"
    by (simp add: burned_def net_def)
  have ball: "\<forall>(exercise, met) \<in> set EXERCISE_METS.
                 \<exists>k. map_of times exercise = Some (JInt k)
                    \<and> burn_minutes (max 0 net) met metrics = Inr k
                    \<and> (if 0 < net
                        then \<exists>weight_kg w n q.
                               map_of metrics ''weight_kg'' = Some weight_kg
                               \<and> as_float_operand weight_kg = Inr w
                               \<and> float_of_int (max 0 net * 60) = Inr n
                               \<and> fdiv n (fmul met w) = Inr q \<and> py_round q = Inr k
                        else k = 0)"
  proof (intro ballI, clarify)
    fix exercise met
    assume "(exercise, met) \<in> set EXERCISE_METS"
    then show "\<exists>k. map_of times exercise = Some (JInt k)
                    \<and> burn_minutes (max 0 net) met metrics = Inr k
                    \<and> (if 0 < net
                        then \<exists>weight_kg w n q.
                               map_of metrics ''weight_kg'' = Some weight_kg
                               \<and> as_float_operand weight_kg = Inr w
                               \<and> float_of_int (max 0 net * 60) = Inr n
                               \<and> fdiv n (fmul met w) = Inr q \<and> py_round q = Inr k
                        else k = 0)"
      by (rule each)
  qed
  have "let body = body_of (get_dashboard_data session_id fs db);
            rows = filter (\<lambda>e. e_session_id e = session_id) (exercises db);
            burned = sum_list (map e_calories_burned rows);
            net = s_total_calories srow - burned
        in json_get body ''total_calories_consumed'' = Some (JInt (s_total_calories srow))
           \<and> json_get body ''total_calories_burned'' = Some (JInt burned)
           \<and> json_get body ''net_calories'' = Some (JInt net)
           \<and> (rows = [] \<longrightarrow> burned = 0 \<and> net = s_total_calories srow)
           \<and> json_get body ''exercise_times'' = Some (JObject times)
           \<and> map fst times = map fst EXERCISE_METS
           \<and> (\<forall>(exercise, met) \<in> set EXERCISE_METS.
                 \<exists>k. map_of times exercise = Some (JInt k)
                    \<and> burn_minutes (max 0 net) met metrics = Inr k
                    \<and> (if 0 < net
                        then \<exists>weight_kg w n q.
                               map_of metrics ''weight_kg'' = Some weight_kg
                               \<and> as_float_operand weight_kg = Inr w
                               \<and> float_of_int (max 0 net * 60) = Inr n
                               \<and> fdiv n (fmul met w) = Inr q \<and> py_round q = Inr k
                        else k = 0))"
    unfolding Let_def burned_def[symmetric] net_def[symmetric]
    using body none names ball by (intro conjI)
  with f show ?thesis by blast
qed

text \<open>The example store: net 138 kcal, 34 minutes of walking or 15 of running.\<close>

theorem dashboard_net_calories_witness:
  "status_of (get_dashboard_data ''s1'' demo_session demo_db) = 200
   \<and> json_get (body_of (get_dashboard_data ''s1'' demo_session demo_db)) ''total_calories_consumed''
       = Some (JInt 418)
   \<and> json_get (body_of (get_dashboard_data ''s1'' demo_session demo_db)) ''total_calories_burned''
       = Some (JInt 280)
   \<and> json_get (body_of (get_dashboard_data ''s1'' demo_session demo_db)) ''net_calories''
       = Some (JInt 138)
   \<and> json_get (body_of (get_dashboard_data ''s1'' demo_session demo_db)) ''exercise_times''
       = Some (JObject [(''walking'', JInt 34), (''running'', JInt 15), (''biking'', JInt 20),
                        (''swimming'', JInt 17), (''strength_training'', JInt 26)])"
proof -
  have st: "status_of (get_dashboard_data ''s1'' demo_session demo_db) = 200"
    by (simp add: demo_dashboard)
  have b: "sum_list (map e_calories_burned
             (filter (\<lambda>e. e_session_id e = ''s1'') (exercises demo_db))) = 280"
    by (simp add: demo_db_def)
  from dashboard_net_calories[OF st, unfolded Let_def b demo_user]
  obtain srow where o: "owned_session demo_db ''s1'' ''ann@example.org'' = Some srow"
    and c: "json_get (body_of (get_dashboard_data ''s1'' demo_session demo_db))
              ''total_calories_consumed'' = Some (JInt (s_total_calories srow))"
           "json_get (body_of (get_dashboard_data ''s1'' demo_session demo_db))
              ''total_calories_burned'' = Some (JInt 280)"
           "json_get (body_of (get_dashboard_data ''s1'' demo_session demo_db))
              ''net_calories'' = Some (JInt (s_total_calories srow - 280))"
    by auto
  from o have t: "s_total_calories srow = 418" by (auto simp: demo_owned)
  have x: "json_get (body_of (get_dashboard_data ''s1'' demo_session demo_db)) ''exercise_times''
             = Some (JObject [(''walking'', JInt 34), (''running'', JInt 15), (''biking'', JInt 20),
                              (''swimming'', JInt 17), (''strength_training'', JInt 26)])"
    by (simp add: demo_dashboard body_of_def json_get_def)
  from st c x show ?thesis by (simp add: t)
qed

section \<open>The exercise-calorie calculator\<close>

text \<open>
  Claim C7, as amended.  For \<open>met\<close>, \<open>weight_kg\<close> (a JSON number) and \<open>minutes\<close> of absolute
  value at most \<open>2 ^ 340\<close>, \<open>calculate_burned_calories\<close> raises nothing: the hours
  \<open>minutes / 60\<close> are a finite float \<open>h\<close>, the float product \<open>met * weight_kg * h\<close>,
  evaluated from left to right, is finite, and the result is Python's \<open>round\<close> of that
  product, the nearest integer with ties to even.  The claim as stated, for all finite
  values, fails where the product is infinite and \<open>round\<close> raises OverflowError.
\<close>

theorem calculate_burned_calories_bounded:
  assumes "\<bar>m\<bar> \<le> 2 ^ 340" and "\<bar>w\<bar> \<le> 2 ^ 340" and "\<bar>t\<bar> \<le> 2 ^ 340"
    and "as_float_operand weight_kg = Inr (Fin w)"
  shows "\<exists>h q. fdiv (Fin t) (Fin 60) = Inr (Fin h)
             \<and> fmul (fmul (Fin m) (Fin w)) (Fin h) = Fin q
             \<and> calculate_burned_calories (Fin m) weight_kg (Fin t) = Inr (round_half_even q)"
proof -
  have "\<bar>t / 60\<bar> \<le> 2 powi 340" using assms(3) by simp
  from rnd_abs_bounded[OF this] obtain h where h: "rnd (t / 60) = Fin h" "\<bar>h\<bar> \<le> 2 powi 340"
    by auto
  have d: "fdiv (Fin t) (Fin 60) = Inr (Fin h)" by (simp add: fdiv_def h(1))
  have "\<bar>m\<bar> * \<bar>w\<bar> \<le> 2 powi 340 * 2 powi 340" using assms(1,2) by (intro mult_mono) simp_all
  then have "\<bar>m * w\<bar> \<le> 2 powi 680" by (simp only: pow2_mult abs_mult) simp
  from rnd_abs_bounded[OF this] obtain r where r: "rnd (m * w) = Fin r" "\<bar>r\<bar> \<le> 2 powi 680"
    by auto
  have "\<bar>r\<bar> * \<bar>h\<bar> \<le> 2 powi 680 * 2 powi 340" using r(2) h(2) by (intro mult_mono) simp_all
  then have "\<bar>r * h\<bar> \<le> 2 powi 1020" by (simp only: pow2_mult abs_mult) simp
  from rnd_abs_bounded[OF this] obtain q where q: "rnd (r * h) = Fin q" by auto
  have p: "fmul (fmul (Fin m) (Fin w)) (Fin h) = Fin q" unfolding fmul_Fin r(1) by (rule q)
  have "calculate_burned_calories (Fin m) weight_kg (Fin t) = Inr (round_half_even q)"
    by (simp add: calculate_burned_calories_def bind_def d assms(4) p py_round_def)
  with d p show ?thesis by blast
qed

text \<open>Running (MET 8.0) for 30 minutes at 70 kg: 280 kcal.\<close>

theorem calculate_burned_calories_bounded_witness:
  "\<bar>8 :: rat\<bar> \<le> 2 ^ 340 \<and> \<bar>70 :: rat\<bar> \<le> 2 ^ 340 \<and> \<bar>30 :: rat\<bar> \<le> 2 ^ 340
   \<and> as_float_operand (JInt 70) = Inr (Fin 70)
   \<and> fdiv (Fin 30) (Fin 60) = Inr (Fin (1 / 2))
   \<and> fmul (fmul (Fin 8) (Fin 70)) (Fin (1 / 2)) = Fin 280
   \<and> calculate_burned_calories (Fin 8) (JInt 70) (Fin 30) = Inr 280"
proof -
  have b: "\<bar>8 :: rat\<bar> \<le> 2 ^ 340" "\<bar>70 :: rat\<bar> \<le> 2 ^ 340" "\<bar>30 :: rat\<bar> \<le> 2 ^ 340"
    by simp_all
  have "rnd (of_int 1 * 2 powi (- 1)) = Fin (of_int 1 * 2 powi (- 1))"
    by (rule rnd_exact[where m=1 and e="- 1"]) simp_all
  then have "rnd (30 / 60) = Fin (1 / 2)" by (simp add: power_int_minus)
  then have d: "fdiv (Fin 30) (Fin 60) = Inr (Fin (1 / 2))" by (simp add: fdiv_def)
  have x: "rnd 560 = Fin 560" by (rule rnd_numeral) simp
  have y: "rnd 280 = Fin 280" by (rule rnd_numeral) simp
  have p: "fmul (fmul (Fin 8) (Fin 70)) (Fin (1 / 2)) = Fin 280"
    by (simp add: fmul_Fin x y)
  from calculate_burned_calories_bounded[OF b demo_weight]
  obtain h q where h: "fdiv (Fin 30) (Fin 60) = Inr (Fin h)"
    and q: "fmul (fmul (Fin 8) (Fin 70)) (Fin h) = Fin q"
    and c: "calculate_burned_calories (Fin 8) (JInt 70) (Fin 30) = Inr (round_half_even q)"
    by blast
  from h d have hh: "h = 1 / 2" by simp
  from q p have qq: "q = 280" unfolding hh by simp
  have r: "round_half_even 280 = 280" using round_half_even_of_int[of 280] by simp
  from c have "calculate_burned_calories (Fin 8) (JInt 70) (Fin 30) = Inr 280"
    unfolding qq r .
  with b demo_weight d p show ?thesis by (intro conjI)
qed

text \<open>
  MET 8.0, a weight of \<open>2 ^ 1023\<close> and 60 minutes are finite floats; their product is
  not, and the calculator raises OverflowError.
\<close>

theorem calculate_burned_calories_overflow:
  "finite_float (Fin 8) \<and> finite_float (Fin (2 ^ 1023)) \<and> finite_float (Fin 60)
   \<and> as_float_operand (JFloat (Fin (2 ^ 1023))) = Inr (Fin (2 ^ 1023))
   \<and> calculate_burned_calories (Fin 8) (JFloat (Fin (2 ^ 1023))) (Fin 60) = Inl OverflowError"
proof -
  have f8: "finite_float (Fin 8)"
    unfolding finite_float_def pyfloat.case by (rule rnd_numeral) simp
  have f60: "finite_float (Fin 60)"
    unfolding finite_float_def pyfloat.case by (rule rnd_numeral) simp
  have s: "\<bar>of_int 1 * (2::rat) powi 1023\<bar> < 2 powi 1024" by simp
  have "rnd (of_int 1 * 2 powi 1023) = Fin (of_int 1 * 2 powi 1023)"
    by (rule rnd_exact[where m=1 and e=1023]) (use s in simp_all)
  then have v: "rnd (2 ^ 1023) = Fin (2 ^ 1023)" by simp
  have fw: "finite_float (Fin (2 ^ 1023))" unfolding finite_float_def pyfloat.case by (rule v)
  have w: "as_float_operand (JFloat (Fin (2 ^ 1023))) = Inr (Fin (2 ^ 1023))"
    unfolding as_float_operand_def json.case ..
  have "rnd (60 / 60) = Fin 1" using rnd_one by simp
  then have d: "fdiv (Fin 60) (Fin 60) = Inr (Fin 1)" by (simp add: fdiv_def)
  have "(2::rat) powi 1024 \<le> 8 * 2 ^ 1023" by simp
  then have "rnd (8 * 2 ^ 1023) = PInf" by (rule rnd_overflow)
  then have m: "fmul (Fin 8) (Fin (2 ^ 1023)) = PInf" unfolding fmul_Fin .
  have i: "fmul PInf (Fin 1) = PInf" by (simp add: fmul_def signed_inf_def fsign_def)
  have c: "calculate_burned_calories (Fin 8) (JFloat (Fin (2 ^ 1023))) (Fin 60)
             = Inl OverflowError"
    unfolding calculate_burned_calories_def d bind_def sum.case w m i
    by (simp add: py_round_def)
  from f8 fw f60 w c show ?thesis by (intro conjI)
qed

section \<open>Deleting a session\<close>



section \<open>Registration and login failures\<close>



section \<open>What a change of the metrics leaves alone\<close>

lemma set_user_metrics_result:
  "set_user_metrics data fs db
     = (if get_current_user_email fs = None then (error_response 401 ''Not logged in'', fs, db)
        else if \<not> list_all (\<lambda>field. map_of data field \<noteq> None) required_fields
        then (error_response 400 ''Missing required metrics data'', fs, db)
        else (message_response ''Metrics saved'', fs,
              db\<lparr>users := map (\<lambda>u. if get_current_user_email fs = Some (u_email u)
                                     then u\<lparr>u_metrics := Some data\<rparr> else u) (users db)\<rparr>))"
  by (auto simp: set_user_metrics_def split: option.splits)

lemma set_user_metrics_users:
  "users (db_of (set_user_metrics data fs db))
     = map (\<lambda>u. if status_of (set_user_metrics data fs db) = 200
                    \<and> get_current_user_email fs = Some (u_email u)
                 then u\<lparr>u_metrics := Some data\<rparr> else u) (users db)"
  by (simp add: set_user_metrics_result map_idI)

lemma set_user_metrics_tables:
  "exercises (db_of (set_user_metrics data fs db)) = exercises db"
  "drinks (db_of (set_user_metrics data fs db)) = drinks db"
  "sessions (db_of (set_user_metrics data fs db)) = sessions db"
  "session_of (set_user_metrics data fs db) = fs"
  by (simp_all add: set_user_metrics_result)

lemma dashboard_burned:
  assumes "status_of (get_dashboard_data sid fs db) = 200"
  shows "json_get (body_of (get_dashboard_data sid fs db)) ''total_calories_burned''
           = Some (JInt (sum_list (map e_calories_burned
                                     (filter (\<lambda>e. e_session_id e = sid) (exercises db)))))"
proof -
  from get_dashboard_data_result[OF assms] obtain body where
    "get_dashboard_data sid fs db = ((200, JObject body), fs, db)"
    "map_of body ''total_calories_burned''
       = Some (JInt (sum_list (map e_calories_burned
                                 (filter (\<lambda>e. e_session_id e = sid) (exercises db)))))"
    by force
  then show ?thesis by (simp add: body_of_def json_get_def)
qed

lemma add_exercise_stored:
  assumes "status_of (add_exercise eid sid data fs db) = 200"
  shows "\<exists>user u metrics weight_kg met row.
           get_current_user_email fs = Some user \<and> find_user db user = Some u
           \<and> u_metrics u = Some metrics \<and> map_of metrics ''weight_kg'' = Some weight_kg
           \<and> exercises (db_of (add_exercise eid sid data fs db)) = exercises db @ [row]
           \<and> e_id row = eid \<and> e_session_id row = sid
           \<and> map_of EXERCISE_METS (e_type row) = Some met
           \<and> calculate_burned_calories met weight_kg (e_minutes row) = Inr (e_calories_burned row)"
  using add_exercise_result[of fs db sid data eid] assms
  by (elim disjE exE conjE) (force simp: new_exercise_row_def)+


lemma update_exercise_stored:
  assumes "status_of (update_exercise sid eid data fs db) = 200"
  shows "\<exists>user row u metrics weight_kg met.
           get_current_user_email fs = Some user \<and> find_exercise db eid sid user = Some row
           \<and> find_user db user = Some u \<and> u_metrics u = Some metrics
           \<and> map_of metrics ''weight_kg'' = Some weight_kg
           \<and> map_of EXERCISE_METS (e_type row) = Some met
           \<and> (exercises (db_of (update_exercise sid eid data fs db))
                 = filter (\<lambda>e. e_id e \<noteq> eid) (exercises db)
               \<or> (\<exists>new c. new_minutes_of (map_of data ''action'') (e_minutes row) = Some new
                      \<and> calculate_burned_calories met weight_kg new = Inr c
                      \<and> exercises (db_of (update_exercise sid eid data fs db))
                          = map (\<lambda>e. if e_id e = eid
                                      then e\<lparr>e_minutes := new, e_calories_burned := c\<rparr> else e)
                              (exercises db)))"
proof -
  from assms obtain user where user: "get_current_user_email fs = Some user"
    by (cases "get_current_user_email fs") (simp_all add: update_exercise_def)
  from assms user obtain row where row: "find_exercise db eid sid user = Some row"
    by (cases "find_exercise db eid sid user") (simp_all add: update_exercise_def)
  from assms user row obtain u metrics where u: "find_user db user = Some u"
    "u_metrics u = Some metrics"
    by (auto simp: update_exercise_def split: option.splits)
  from assms user row u obtain weight_kg where w: "map_of metrics ''weight_kg'' = Some weight_kg"
    by (auto simp: update_exercise_def split: option.splits)
  from assms user row u w obtain met where met: "map_of EXERCISE_METS (e_type row) = Some met"
    by (auto simp: update_exercise_def Let_def split: option.splits)
  note r = update_exercise_result[OF user row u w met, of data]
  have "exercises (db_of (update_exercise sid eid data fs db))
          = filter (\<lambda>e. e_id e \<noteq> eid) (exercises db)
        \<or> (\<exists>new c. new_minutes_of (map_of data ''action'') (e_minutes row) = Some new
               \<and> calculate_burned_calories met weight_kg new = Inr c
               \<and> exercises (db_of (update_exercise sid eid data fs db))
                   = map (\<lambda>e. if e_id e = eid
                               then e\<lparr>e_minutes := new, e_calories_burned := c\<rparr> else e)
                       (exercises db))"
    using assms unfolding r
    by (auto simp: delete_exercise_def set_exercise_def split: option.splits sum.splits if_splits)
  with user row u w met show ?thesis by blast
qed

text \<open>
  Claim C10.  \<open>set_user_metrics\<close> leaves the exercises, the drinks, the sessions and the
  Flask session as they are; of the users it changes only the \<open>metrics\<close> of the caller,
  and only when it answers 200.  So every stored \<open>calories_burned\<close> is what it was, and a
  dashboard of the new store that answers 200 reports as \<open>total_calories_burned\<close> the
  sum over the exercise rows of the old store.  The stored value of a row is computed by
  \<open>add_exercise\<close> from the weight of the caller in the store of that request, and computed
  again from the weight of that moment only when \<open>update_exercise\<close> changes the minutes of
  the row.
\<close>

theorem set_user_metrics_frame:
  "(let out = set_user_metrics data fs db; db' = db_of out
    in exercises db' = exercises db \<and> drinks db' = drinks db \<and> sessions db' = sessions db
       \<and> session_of out = fs
       \<and> users db'
           = map (\<lambda>u. if status_of out = 200 \<and> get_current_user_email fs = Some (u_email u)
                       then u\<lparr>u_metrics := Some data\<rparr> else u) (users db)
       \<and> (\<forall>sid fs'.
             status_of (get_dashboard_data sid fs' db') = 200 \<longrightarrow>
             json_get (body_of (get_dashboard_data sid fs' db')) ''total_calories_burned''
               = Some (JInt (sum_list (map e_calories_burned
                                         (filter (\<lambda>e. e_session_id e = sid) (exercises db)))))))
   \<and> (status_of (add_exercise exercise_id session_id exercise_data fs1 db) = 200 \<longrightarrow>
        (\<exists>user u metrics weight_kg met row.
           get_current_user_email fs1 = Some user \<and> find_user db user = Some u
           \<and> u_metrics u = Some metrics \<and> map_of metrics ''weight_kg'' = Some weight_kg
           \<and> exercises (db_of (add_exercise exercise_id session_id exercise_data fs1 db))
               = exercises db @ [row]
           \<and> e_id row = exercise_id \<and> e_session_id row = session_id
           \<and> map_of EXERCISE_METS (e_type row) = Some met
           \<and> calculate_burned_calories met weight_kg (e_minutes row)
               = Inr (e_calories_burned row)))
   \<and> (status_of (update_exercise session_id exercise_id action_data fs2 db) = 200 \<longrightarrow>
        (\<exists>user row u metrics weight_kg met.
           get_current_user_email fs2 = Some user
           \<and> find_exercise db exercise_id session_id user = Some row
           \<and> find_user db user = Some u \<and> u_metrics u = Some metrics
           \<and> map_of metrics ''weight_kg'' = Some weight_kg
           \<and> map_of EXERCISE_METS (e_type row) = Some met
           \<and> (exercises (db_of (update_exercise session_id exercise_id action_data fs2 db))
                 = filter (\<lambda>e. e_id e \<noteq> exercise_id) (exercises db)
               \<or> (\<exists>new c. new_minutes_of (map_of action_data ''action'') (e_minutes row) = Some new
                      \<and> calculate_burned_calories met weight_kg new = Inr c
                      \<and> exercises (db_of (update_exercise session_id exercise_id action_data fs2 db))
                          = map (\<lambda>e. if e_id e = exercise_id
                                      then e\<lparr>e_minutes := new, e_calories_burned := c\<rparr> else e)
                              (exercises db)))))"
proof (intro conjI)
  show "let out = set_user_metrics data fs db; db' = db_of out
    in exercises db' = exercises db \<and> drinks db' = drinks db \<and> sessions db' = sessions db
       \<and> session_of out = fs
       \<and> users db'
           = map (\<lambda>u. if status_of out = 200 \<and> get_current_user_email fs = Some (u_email u)
                       then u\<lparr>u_metrics := Some data\<rparr> else u) (users db)
       \<and> (\<forall>sid fs'.
             status_of (get_dashboard_data sid fs' db') = 200 \<longrightarrow>
             json_get (body_of (get_dashboard_data sid fs' db')) ''total_calories_burned''
               = Some (JInt (sum_list (map e_calories_burned
                                         (filter (\<lambda>e. e_session_id e = sid) (exercises db))))))"
    unfolding Let_def
  proof (intro conjI allI impI)
    fix sid fs'
    assume "status_of (get_dashboard_data sid fs' (db_of (set_user_metrics data fs db))) = 200"
    from dashboard_burned[OF this]
    show "json_get (body_of (get_dashboard_data sid fs' (db_of (set_user_metrics data fs db))))
            ''total_calories_burned''
          = Some (JInt (sum_list (map e_calories_burned
                                    (filter (\<lambda>e. e_session_id e = sid) (exercises db)))))"
      by (simp only: set_user_metrics_tables)
  qed (simp_all only: set_user_metrics_tables set_user_metrics_users)
next
  show "status_of (add_exercise exercise_id session_id exercise_data fs1 db) = 200 \<longrightarrow>
        (\<exists>user u metrics weight_kg met row.
           get_current_user_email fs1 = Some user \<and> find_user db user = Some u
           \<and> u_metrics u = Some metrics \<and> map_of metrics ''weight_kg'' = Some weight_kg
           \<and> exercises (db_of (add_exercise exercise_id session_id exercise_data fs1 db))
               = exercises db @ [row]
           \<and> e_id row = exercise_id \<and> e_session_id row = session_id
           \<and> map_of EXERCISE_METS (e_type row) = Some met
           \<and> calculate_burned_calories met weight_kg (e_minutes row)
               = Inr (e_calories_burned row))"
    by (intro impI) (rule add_exercise_stored)
next
  show "status_of (update_exercise session_id exercise_id action_data fs2 db) = 200 \<longrightarrow>
        (\<exists>user row u metrics weight_kg met.
           get_current_user_email fs2 = Some user
           \<and> find_exercise db exercise_id session_id user = Some row
           \<and> find_user db user = Some u \<and> u_metrics u = Some metrics
           \<and> map_of metrics ''weight_kg'' = Some weight_kg
           \<and> map_of EXERCISE_METS (e_type row) = Some met
           \<and> (exercises (db_of (update_exercise session_id exercise_id action_data fs2 db))
                 = filter (\<lambda>e. e_id e \<noteq> exercise_id) (exercises db)
               \<or> (\<exists>new c. new_minutes_of (map_of action_data ''action'') (e_minutes row) = Some new
                      \<and> calculate_burned_calories met weight_kg new = Inr c
                      \<and> exercises (db_of (update_exercise session_id exercise_id action_data fs2 db))
                          = map (\<lambda>e. if e_id e = exercise_id
                                      then e\<lparr>e_minutes := new, e_calories_burned := c\<rparr> else e)
                              (exercises db))))"
    by (intro impI) (rule update_exercise_stored)
qed

text \<open>
  The example store holds 30 minutes of running logged at 70 kg, 280 kcal.  After the
  weight is set to 100 kg the row still says 280, where the calculator gives 400 for
  100 kg.
\<close>

theorem set_user_metrics_frame_witness:
  "status_of (set_user_metrics heavier_metrics demo_session workout_db) = 200
   \<and> map u_metrics (users (db_of (set_user_metrics heavier_metrics demo_session workout_db)))
       = [Some heavier_metrics]
   \<and> exercises (db_of (set_user_metrics heavier_metrics demo_session workout_db))
       = [\<lparr>e_id = ''e1'', e_session_id = ''s1'', e_type = ''running'',
           e_minutes = Fin 30, e_calories_burned = 280\<rparr>]
   \<and> calculate_burned_calories (Fin 8) (JInt 70) (Fin 30) = Inr 280
   \<and> calculate_burned_calories (Fin 8) (JInt 100) (Fin 30) = Inr 400
   \<and> status_of (add_exercise ''e2'' ''s1'' run_data demo_session workout_db) = 200
   \<and> status_of (update_exercise ''s1'' ''e1'' increment_data demo_session workout_db) = 200"
proof -
  let ?out = "set_user_metrics heavier_metrics demo_session workout_db"
  have st: "status_of ?out = 200"
    by (simp add: set_user_metrics_def demo_user required_fields_def heavier_metrics_def)
  note t = set_user_metrics_frame[of heavier_metrics demo_session workout_db,
      unfolded Let_def, THEN conjunct1]
  note e = t[THEN conjunct1]
  note u = t[THEN conjunct2, THEN conjunct2, THEN conjunct2, THEN conjunct2, THEN conjunct1]
  have u': "map u_metrics (users (db_of ?out)) = [Some heavier_metrics]"
    unfolding u st by (simp add: demo_user workout_db_def)
  have e': "exercises (db_of ?out)
              = [\<lparr>e_id = ''e1'', e_session_id = ''s1'', e_type = ''running'',
                  e_minutes = Fin 30, e_calories_burned = 280\<rparr>]"
    unfolding e by (simp add: workout_db_def)
  have i: "status_of (update_exercise ''s1'' ''e1'' increment_data demo_session workout_db) = 200"
    by (simp add: workout_increment_exercise)
  from st u' e' burned_running_30 burned_heavier_30 workout_add_exercise i
  show ?thesis by (intro conjI)
qed

end
